theory Spec2Isabelle
  imports Complex_Main
begin

section \<open>Values, strings and numbers of the JavaScript runtime\<close>

text \<open>
  The analytics service is JavaScript. A string is modelled as a list of 8-bit characters,
  an integer-valued number as \<open>int\<close> and any other value as a \<open>jsval\<close>. Numbers of the
  model are exact integers and rationals, printed in plain decimal digits: the rounding
  of doubles beyond \<open>2^53\<close> and the exponent notation in which JavaScript prints the
  numbers from \<open>10^21\<close> on are outside it.
\<close>

datatype jsval =
    Undefined
  | Null
  | Str string
  | Num rat
  | NaN
  | Infinity
  | NegInfinity
  | Arr "jsval list"
  | Obj "(string \<times> jsval) list"

text \<open>The integer-valued results of \<open>Math.ceil\<close> of a quotient, with the non-finite ones.\<close>

datatype jsnum = Fin int | NotANumber | PosInf | NegInf

definition num :: "int \<Rightarrow> jsval" where
  "num n = Num (rat_of_int n)"

definition num_or_nan :: "int option \<Rightarrow> jsval" where
  "num_or_nan x = (case x of None \<Rightarrow> NaN | Some n \<Rightarrow> num n)"

text \<open>
  A value of \<open>req.query\<close>, as the query string parser hands it to a handler: absent
  (\<open>undefined\<close>), a string, an array (a key that is repeated, or written \<open>k[]=v\<close>) or an
  object (a key written \<open>k[a]=v\<close>). The handlers document every parameter as an optional
  string, and receive the other two shapes all the same.
\<close>

datatype qval =
    Absent
  | One string
  | Many "qval list"
  | Nested "(string \<times> qval) list"

text \<open>A query value as a JavaScript value, and its truthiness (\<open>undefined\<close> and \<open>''\<close> are falsy).\<close>

primrec qv :: "qval \<Rightarrow> jsval" where
  "qv Absent = Undefined"
| "qv (One s) = Str s"
| "qv (Many xs) = Arr (map qv xs)"
| "qv (Nested kvs) = Obj (map (map_prod id qv) kvs)"

definition truthy :: "qval \<Rightarrow> bool" where
  "truthy x = (case x of Absent \<Rightarrow> False | One s \<Rightarrow> s \<noteq> [] | _ \<Rightarrow> True)"

text \<open>Truthiness of a value in general: \<open>if (v)\<close>.\<close>

definition js_truthy :: "jsval \<Rightarrow> bool" where
  "js_truthy v = (case v of Undefined \<Rightarrow> False | Null \<Rightarrow> False | Str s \<Rightarrow> s \<noteq> []
                  | Num r \<Rightarrow> r \<noteq> 0 | NaN \<Rightarrow> False | _ \<Rightarrow> True)"

text \<open>Property access \<open>o.k\<close> on a value that is an object; a missing key reads \<open>undefined\<close>.\<close>

definition get :: "jsval \<Rightarrow> string \<Rightarrow> jsval" where
  "get v k = (case v of Obj kvs \<Rightarrow> (case map_of kvs k of Some x \<Rightarrow> x | None \<Rightarrow> Undefined)
              | _ \<Rightarrow> Undefined)"

subsection \<open>Decimal digits\<close>

definition is_digit :: "char \<Rightarrow> bool" where
  "is_digit c = (c \<in> set ''0123456789'')"

definition digit_val :: "char \<Rightarrow> nat" where
  "digit_val c = (case map_of (zip ''0123456789'' [0, 1, 2, 3, 4, 5, 6, 7, 8, 9]) c of
                    Some d \<Rightarrow> d | None \<Rightarrow> 0)"

definition digit_char :: "nat \<Rightarrow> char" where
  "digit_char d = ''0123456789'' ! d"

text \<open>
  Number to string, as a template literal does it for an integer: plain decimal digits,
  which is how JavaScript prints the integers of magnitude below \<open>10^21\<close>.
\<close>

fun show_nat :: "nat \<Rightarrow> string" where
  "show_nat n = (if n < 10 then [digit_char n]
                 else show_nat (n div 10) @ [digit_char (n mod 10)])"

declare show_nat.simps [simp del]

definition show_int :: "int \<Rightarrow> string" where
  "show_int i = (if i < 0 then ''-'' @ show_nat (nat (- i)) else show_nat (nat i))"

definition show_jsnum :: "jsnum \<Rightarrow> string" where
  "show_jsnum x = (case x of Fin i \<Rightarrow> show_int i | NotANumber \<Rightarrow> ''NaN''
                   | PosInf \<Rightarrow> ''Infinity'' | NegInf \<Rightarrow> ''-Infinity'')"

definition jsnum_val :: "jsnum \<Rightarrow> jsval" where
  "jsnum_val x = (case x of Fin i \<Rightarrow> num i | NotANumber \<Rightarrow> NaN
                  | PosInf \<Rightarrow> Infinity | NegInf \<Rightarrow> NegInfinity)"

subsection \<open>\<open>Number.parseInt(s, 10)\<close>\<close>

text \<open>
  ECMAScript's \<open>parseInt\<close> with radix 10: leading white space is skipped, one sign is
  read, then the longest run of decimal digits; no digit gives \<open>NaN\<close> (\<open>None\<close>).
  White space is the white space below code unit 256.
\<close>

definition is_space :: "char \<Rightarrow> bool" where
  "is_space c = (c \<in> set [CHR 0x09, CHR 0x0A, CHR 0x0B, CHR 0x0C, CHR 0x0D, CHR 0x20, CHR 0xA0])"

definition digits_val :: "string \<Rightarrow> nat" where
  "digits_val ds = foldl (\<lambda>a c. 10 * a + digit_val c) 0 ds"

definition parseInt10 :: "string \<Rightarrow> int option" where
  "parseInt10 s =
     (let t = dropWhile is_space s;
          sign = (if take 1 t = ''-'' then - 1 else 1);
          u = (if take 1 t = ''-'' \<or> take 1 t = ''+'' then drop 1 t else t);
          z = takeWhile is_digit u
      in if z = [] then None else Some (sign * int (digits_val z)))"


text \<open>\<open>x || d\<close> on a number: \<open>NaN\<close> and zero are falsy.\<close>

definition or_default :: "int option \<Rightarrow> int \<Rightarrow> int" where
  "or_default x d = (case x of None \<Rightarrow> d | Some n \<Rightarrow> if n = 0 then d else n)"

subsection \<open>Case conversion and joining\<close>

text \<open>
  \<open>toLowerCase\<close> and \<open>toUpperCase\<close> on the letters A to Z; no character outside them
  maps to a letter of \<open>asc\<close>, \<open>desc\<close> or of a table name.
\<close>

definition lower_char :: "char \<Rightarrow> char" where
  "lower_char c = (case map_of (zip ''ABCDEFGHIJKLMNOPQRSTUVWXYZ'' ''abcdefghijklmnopqrstuvwxyz'') c of
                     Some d \<Rightarrow> d | None \<Rightarrow> c)"

definition upper_char :: "char \<Rightarrow> char" where
  "upper_char c = (case map_of (zip ''abcdefghijklmnopqrstuvwxyz'' ''ABCDEFGHIJKLMNOPQRSTUVWXYZ'') c of
                     Some d \<Rightarrow> d | None \<Rightarrow> c)"

definition toLowerCase :: "string \<Rightarrow> string" where
  "toLowerCase s = map lower_char s"

definition toUpperCase :: "string \<Rightarrow> string" where
  "toUpperCase s = map upper_char s"

fun join :: "string \<Rightarrow> string list \<Rightarrow> string" where
  "join sep [] = []"
| "join sep [x] = x"
| "join sep (x # y # ys) = x @ sep @ join sep (y # ys)"

text \<open>
  \<open>String(v)\<close> of a query value: \<open>undefined\<close> reads \<open>"undefined"\<close>, an array prints its
  elements separated by commas (an \<open>undefined\<close> element as the empty string) and an object
  prints \<open>"[object Object]"\<close>.
\<close>

fun js_string :: "qval \<Rightarrow> string" where
  "js_string Absent = ''undefined''"
| "js_string (One s) = s"
| "js_string (Many xs) = join '','' (map (\<lambda>x. if x = Absent then [] else js_string x) xs)"
| "js_string (Nested kvs) = ''[object Object]''"

text \<open>\<open>Number.parseInt(v, 10)\<close> of a query value: the value is converted to a string first.\<close>

definition parseInt_q :: "qval \<Rightarrow> int option" where
  "parseInt_q x = parseInt10 (js_string x)"

text \<open>\<open>s.startsWith(t)\<close> and \<open>s.includes(t)\<close> on strings.\<close>

fun starts_with :: "string \<Rightarrow> string \<Rightarrow> bool" where
  "starts_with s [] = True"
| "starts_with [] (c # t) = False"
| "starts_with (x # s) (c # t) = (x = c \<and> starts_with s t)"

fun includes_str :: "string \<Rightarrow> string \<Rightarrow> bool" where
  "includes_str [] t = (t = [])"
| "includes_str (c # cs) t = (starts_with (c # cs) t \<or> includes_str cs t)"

section \<open>lib/utils.js\<close>

definition buildWhereClause :: "string list \<Rightarrow> string" where
  "buildWhereClause conditions =
     (if length conditions > 0 then '' WHERE '' @ join '' AND '' conditions else [])"

record pagination =
  limit :: int
  offset :: int
  page :: int

definition getPaginationParams :: "qval \<Rightarrow> qval \<Rightarrow> pagination" where
  "getPaginationParams page_raw limit_raw =
     (let parsedPage = or_default (parseInt_q page_raw) 1;
          parsedLimit = or_default (parseInt_q limit_raw) 100;
          offset = (parsedPage - 1) * parsedLimit
      in \<lparr>limit = parsedLimit, offset = offset, page = parsedPage\<rparr>)"

text \<open>
  \<open>Math.ceil(total / limit)\<close> on an integer or \<open>NaN\<close> total and an integer limit. The
  quotient of two integers rounded up is \<open>- ((- total) div limit)\<close>; division by zero
  gives an infinity or \<open>NaN\<close>.
\<close>

definition ceil_div :: "int option \<Rightarrow> int \<Rightarrow> jsnum" where
  "ceil_div total_rows l =
     (case total_rows of None \<Rightarrow> NotANumber
      | Some t \<Rightarrow>
          if l = 0 then (if t = 0 then NotANumber else if 0 < t then PosInf else NegInf)
          else Fin (- ((- t) div l)))"

text \<open>\<open>page < totalPages\<close>: a comparison with \<open>NaN\<close> is false.\<close>

definition int_less_jsnum :: "int \<Rightarrow> jsnum \<Rightarrow> bool" where
  "int_less_jsnum p x = (case x of Fin i \<Rightarrow> p < i | NotANumber \<Rightarrow> False
                         | PosInf \<Rightarrow> True | NegInf \<Rightarrow> False)"

definition page_link :: "string \<Rightarrow> string \<Rightarrow> int \<Rightarrow> string" where
  "page_link baseUrl p l = baseUrl @ ''?page='' @ p @ ''&limit='' @ show_int l"

text \<open>
  The object handed to \<open>res.json\<close>. \<open>additionalMeta\<close> is spread after \<open>pagination\<close>;
  every caller passes the single key \<open>filters\<close>.
\<close>

definition formatPaginatedResponse ::
  "jsval list \<Rightarrow> pagination \<Rightarrow> int option \<Rightarrow> string \<Rightarrow> (string \<times> jsval) list \<Rightarrow> jsval" where
  "formatPaginatedResponse data pg total_rows baseUrl additionalMeta =
     (let totalPages = ceil_div total_rows (limit pg) in
      Obj [
        (''data'', Arr data),
        (''meta'', Obj ((''pagination'', Obj [
            (''page'', num (page pg)),
            (''limit'', num (limit pg)),
            (''total'', num_or_nan total_rows),
            (''pages'', jsnum_val totalPages)]) # additionalMeta)),
        (''links'', Obj [
            (''self'', Str (page_link baseUrl (show_int (page pg)) (limit pg))),
            (''first'', Str (page_link baseUrl ''1'' (limit pg))),
            (''last'', Str (page_link baseUrl (show_jsnum totalPages) (limit pg))),
            (''next'', if int_less_jsnum (page pg) totalPages
                       then Str (page_link baseUrl (show_int (page pg + 1)) (limit pg)) else Null),
            (''prev'', if page pg > 1
                       then Str (page_link baseUrl (show_int (page pg - 1)) (limit pg)) else Null)])])"

text \<open>
  \<open>new Date(s).getTime()\<close>, \<open>Number.parseFloat\<close> and the printing of a number that is
  not an integer are builtins of the runtime: which strings a \<open>Date\<close> accepts beyond the
  ISO format is implementation-defined, and \<open>parseFloat\<close> yields a double. They are
  parameters of the model. \<open>date_time\<close> gives the time value of a string (\<open>None\<close> for
  \<open>NaN\<close>), \<open>parse_float\<close> the number read from a string, and \<open>number_text\<close> the text
  \<open>String(x)\<close> of a finite number.
\<close>

record builtins =
  date_time :: "string \<Rightarrow> int option"
  parse_float :: "string \<Rightarrow> jsval"
  number_text :: "rat \<Rightarrow> string"

text \<open>
  \<open>new Date(undefined)\<close> is always invalid. An array or an object is converted to a
  string first, and that string is parsed. The value returned on success is the
  argument itself, whatever its shape.
\<close>

definition parseDate :: "builtins \<Rightarrow> qval \<Rightarrow> jsval \<Rightarrow> jsval" where
  "parseDate rt dateStr fallback =
     (case dateStr of Absent \<Rightarrow> fallback
      | _ \<Rightarrow> (case date_time rt (js_string dateStr) of None \<Rightarrow> fallback
                | Some t \<Rightarrow> qv dateStr))"

section \<open>lib/validations.js\<close>

text \<open>
  An exception is either an error carrying a \<open>statusCode\<close> and a message, a
  \<open>TypeError\<close>, or the rejection of a statement by the store.
\<close>

datatype exn = StatusError nat string | TypeError | StoreError

text \<open>
  \<open>validColumns.includes(sortBy)\<close> compares with strict equality: an array or an object is
  truthy and is no member of a list of strings, so it gives the default.
\<close>

definition validateSortColumn :: "qval \<Rightarrow> string list \<Rightarrow> string \<Rightarrow> string" where
  "validateSortColumn sortBy validColumns defaultColumn =
     (case sortBy of
        One s \<Rightarrow> if s \<noteq> [] \<and> s \<in> set validColumns then s else defaultColumn
      | _ \<Rightarrow> defaultColumn)"

text \<open>
  \<open>sortOrder && validOrders.includes(sortOrder.toLowerCase())\<close>: an array or an object is
  truthy and has no method \<open>toLowerCase\<close>, so the call throws a \<open>TypeError\<close>.
\<close>

definition validateSortOrder :: "qval \<Rightarrow> string \<Rightarrow> exn + string" where
  "validateSortOrder sortOrder defaultOrder =
     (let validOrders = [''asc'', ''desc''] in
      case sortOrder of
        Absent \<Rightarrow> Inr defaultOrder
      | One s \<Rightarrow> if s \<noteq> [] \<and> toLowerCase s \<in> set validOrders then Inr (toLowerCase s)
                 else Inr defaultOrder
      | _ \<Rightarrow> Inl TypeError)"

definition validateInterval :: "qval \<Rightarrow> string \<Rightarrow> string" where
  "validateInterval interval defaultInterval =
     (let validIntervals = [''day'', ''week'', ''month'', ''quarter'', ''year''] in
      case interval of
        One s \<Rightarrow> if s \<noteq> [] \<and> s \<in> set validIntervals then s else defaultInterval
      | _ \<Rightarrow> defaultInterval)"

subsection \<open>The store and the effects of a request handler\<close>

text \<open>
  The store is the collaborator \<open>pool.query(text, values)\<close>: it answers a statement with
  its rows or rejects it (\<open>None\<close>). A handler is run against an unchanged store, so the
  pool is a function. Every statement a handler issues is recorded, in order, in a log of
  calls.
\<close>

type_synonym call = "string \<times> jsval list"

type_synonym pool = "string \<Rightarrow> jsval list \<Rightarrow> jsval list option"

type_synonym 'a io = "call list \<Rightarrow> (exn + 'a) \<times> call list"

definition return_io :: "'a \<Rightarrow> 'a io" where
  "return_io x = (\<lambda>cs. (Inr x, cs))"

definition throw_io :: "exn \<Rightarrow> 'a io" where
  "throw_io e = (\<lambda>cs. (Inl e, cs))"

text \<open>A computation that issues no statement: it returns or throws.\<close>

definition lift_io :: "exn + 'a \<Rightarrow> 'a io" where
  "lift_io r = (\<lambda>cs. (r, cs))"

definition bind_io :: "'a io \<Rightarrow> ('a \<Rightarrow> 'b io) \<Rightarrow> 'b io" where
  "bind_io m f = (\<lambda>cs. case m cs of (Inl e, cs') \<Rightarrow> (Inl e, cs')
                         | (Inr x, cs') \<Rightarrow> f x cs')"

definition pool_query :: "pool \<Rightarrow> string \<Rightarrow> jsval list \<Rightarrow> jsval list io" where
  "pool_query pool text ps =
     (\<lambda>cs. (case pool text ps of None \<Rightarrow> Inl StoreError | Some rows \<Rightarrow> Inr rows,
             cs @ [(text, ps)]))"

text \<open>
  \<open>Promise.all\<close> over three \<open>pool.query\<close> calls: the three statements are all issued
  before the first answer is awaited, and one rejection rejects the whole.
\<close>

definition pool_query_all3 :: "pool \<Rightarrow> call \<Rightarrow> call \<Rightarrow> call \<Rightarrow> (jsval list \<times> jsval list \<times> jsval list) io" where
  "pool_query_all3 pool c1 c2 c3 =
     (\<lambda>cs. (case (pool (fst c1) (snd c1), pool (fst c2) (snd c2), pool (fst c3) (snd c3)) of
               (Some r1, Some r2, Some r3) \<Rightarrow> Inr (r1, r2, r3)
             | _ \<Rightarrow> Inl StoreError,
             cs @ [c1, c2, c3]))"

record response =
  status :: nat
  body :: jsval

definition error_body :: "string \<Rightarrow> jsval" where
  "error_body msg = Obj [(''error'', Str msg)]"

text \<open>
  \<open>try { ...; res.json(b) } catch (error) { ... }\<close> of the entity-scoped handlers: an error
  with a \<open>statusCode\<close> answers with that status and its message, any other with 500.
\<close>

definition respond :: "jsval io \<Rightarrow> response \<times> call list" where
  "respond m =
     (case m [] of
        (Inr b, cs) \<Rightarrow> (\<lparr>status = 200, body = b\<rparr>, cs)
      | (Inl (StatusError c msg), cs) \<Rightarrow> (\<lparr>status = c, body = error_body msg\<rparr>, cs)
      | (Inl TypeError, cs) \<Rightarrow> (\<lparr>status = 500, body = error_body ''Internal server error''\<rparr>, cs)
      | (Inl StoreError, cs) \<Rightarrow> (\<lparr>status = 500, body = error_body ''Internal server error''\<rparr>, cs))"

text \<open>The handlers without an entity answer every exception with 500.\<close>

definition respond_500 :: "jsval io \<Rightarrow> response \<times> call list" where
  "respond_500 m =
     (case m [] of
        (Inr b, cs) \<Rightarrow> (\<lparr>status = 200, body = b\<rparr>, cs)
      | (Inl e, cs) \<Rightarrow> (\<lparr>status = 500, body = error_body ''Internal server error''\<rparr>, cs))"

definition validateResourceExists :: "pool \<Rightarrow> string \<Rightarrow> jsval \<Rightarrow> jsval io" where
  "validateResourceExists pool table ident =
     bind_io (pool_query pool (''SELECT * FROM '' @ table @ '' WHERE id = $1'') [ident])
       (\<lambda>rows. case rows of
          [] \<Rightarrow> throw_io (StatusError 404
                  (toUpperCase (take 1 table) @ butlast (drop 1 table) @ '' not found''))
        | r # _ \<Rightarrow> return_io r)"

section \<open>The request and the condition builder\<close>

text \<open>\<open>req.query\<close>: every parameter the handlers read.\<close>

record query =
  q_page :: qval
  q_limit :: qval
  q_startDate :: qval
  q_endDate :: qval
  q_userId :: qval
  q_groupId :: qval
  q_minAmount :: qval
  q_maxAmount :: qval
  q_sortBy :: qval
  q_sortOrder :: qval
  q_interval :: qval
  q_role :: qval

text \<open>
  The handlers keep three variables, \<open>conditions\<close>, \<open>queryParams\<close> and \<open>paramIndex\<close>, and
  add a filter with the same three statements each time:
  \<^verbatim>\<open>conditions.push(`<fragment>$${paramIndex}`); queryParams.push(value); paramIndex++;\<close>
\<close>

record builder =
  conditions :: "string list"
  queryParams :: "jsval list"
  paramIndex :: nat

definition add_condition :: "string \<Rightarrow> jsval \<Rightarrow> builder \<Rightarrow> builder" where
  "add_condition fragment v b =
     \<lparr>conditions = conditions b @ [fragment @ ''$'' @ show_nat (paramIndex b)],
      queryParams = queryParams b @ [v],
      paramIndex = paramIndex b + 1\<rparr>"

definition add_if :: "bool \<Rightarrow> string \<Rightarrow> jsval \<Rightarrow> builder \<Rightarrow> builder" where
  "add_if c fragment v b = (if c then add_condition fragment v b else b)"

text \<open>\<open>` LIMIT $${paramIndex} OFFSET $${paramIndex + 1}`\<close>\<close>

definition limit_offset :: "nat \<Rightarrow> string" where
  "limit_offset i = '' LIMIT $'' @ show_nat i @ '' OFFSET $'' @ show_nat (i + 1)"

text \<open>
  \<open>Number.parseInt(countResult.rows[0].count, 10)\<close>. Reading \<open>count\<close> of a missing row
  throws. \<open>parseInt\<close> converts its argument to a string first: a number prints its
  integer part first (for the magnitudes printed in plain decimal notation), an array
  prints its elements separated by commas, and no other value prints a digit first.
\<close>

fun parseInt_val :: "jsval \<Rightarrow> int option" where
  "parseInt_val (Str s) = parseInt10 s"
| "parseInt_val (Num r) = Some (if 0 \<le> r then \<lfloor>r\<rfloor> else \<lceil>r\<rceil>)"
| "parseInt_val (Arr (x # xs)) = parseInt_val x"
| "parseInt_val v = None"

definition count_total :: "jsval list \<Rightarrow> int option io" where
  "count_total rows =
     (case rows of [] \<Rightarrow> throw_io TypeError
      | r # _ \<Rightarrow> if r = Undefined \<or> r = Null then throw_io TypeError
                 else return_io (parseInt_val (get r ''count'')))"

text \<open>\<open>rows[0]\<close>, which is \<open>undefined\<close> on no row.\<close>

definition first_row :: "jsval list \<Rightarrow> jsval" where
  "first_row rows = (case rows of [] \<Rightarrow> Undefined | r # _ \<Rightarrow> r)"

text \<open>
  The statements below are the template literals of the source; their line breaks and
  indentation are written as single spaces and dropped at both ends, every other
  character is the source's.
\<close>

section \<open>controllers/user-controller.js\<close>

subsection \<open>getUserSales\<close>

text \<open>
  The conditions of \<open>getUserSales\<close>, and of \<open>getUserSalesSummary\<close>, which builds them
  with the same lines.
\<close>

definition user_conditions :: "builtins \<Rightarrow> string \<Rightarrow> query \<Rightarrow> builder" where
  "user_conditions rt userId q =
     (let validStartDate = parseDate rt (q_startDate q) Null;
          validEndDate = parseDate rt (q_endDate q) Null;
          b0 = \<lparr>conditions = [''user_id = $1''], queryParams = [Str userId], paramIndex = 2\<rparr>;
          b1 = add_if (js_truthy validStartDate) ''date >= '' validStartDate b0;
          b2 = add_if (js_truthy validEndDate) ''date <= '' validEndDate b1
      in b2)"

definition userSales_query :: "builder \<Rightarrow> string \<Rightarrow> string \<Rightarrow> string" where
  "userSales_query b validSortBy validSortOrder =
     ''SELECT id, amount, date FROM sales WHERE '' @ join '' AND '' (conditions b) @
     '' ORDER BY '' @ validSortBy @ '' '' @ validSortOrder @ limit_offset (paramIndex b)"

definition userSales_countQuery :: "builder \<Rightarrow> string" where
  "userSales_countQuery b = ''SELECT COUNT(*) FROM sales WHERE '' @ join '' AND '' (conditions b)"

text \<open>
  \<open>queryParams.push(pagination.limit, pagination.offset)\<close> gives the values of the
  listing; the count takes \<open>queryParams.slice(0, paramIndex - 1)\<close> of that longer list.
\<close>

definition listing_params :: "builder \<Rightarrow> pagination \<Rightarrow> jsval list" where
  "listing_params b pg = queryParams b @ [num (limit pg), num (offset pg)]"

definition count_params :: "builder \<Rightarrow> pagination \<Rightarrow> jsval list" where
  "count_params b pg = take (paramIndex b - 1) (listing_params b pg)"

definition getUserSales :: "builtins \<Rightarrow> pool \<Rightarrow> string \<Rightarrow> query \<Rightarrow> response \<times> call list" where
  "getUserSales rt pool userId q =
     (if userId = [] then (\<lparr>status = 400, body = error_body ''User ID is required''\<rparr>, [])
      else respond (
        bind_io (validateResourceExists pool ''users'' (Str userId)) (\<lambda>_.
        let validStartDate = parseDate rt (q_startDate q) Null;
            validEndDate = parseDate rt (q_endDate q) Null;
            validSortColumns = [''date'', ''amount''];
            validSortBy = validateSortColumn (q_sortBy q) validSortColumns ''date''
        in
        bind_io (lift_io (validateSortOrder (q_sortOrder q) ''desc'')) (\<lambda>validSortOrder.
        let b = user_conditions rt userId q;
            pg = getPaginationParams (q_page q) (q_limit q)
        in
        bind_io (pool_query pool (userSales_query b validSortBy validSortOrder) (listing_params b pg)) (\<lambda>result.
        bind_io (pool_query pool (userSales_countQuery b) (count_params b pg)) (\<lambda>countResult.
        bind_io (count_total countResult) (\<lambda>total_rows.
        return_io (formatPaginatedResponse result pg total_rows
          (''/api/metrics/users/'' @ userId @ ''/sales'')
          [(''filters'', Obj [(''startDate'', validStartDate), (''endDate'', validEndDate)])]))))))))"

subsection \<open>getUserSalesSummary\<close>

definition userSummary_summaryQuery :: "builder \<Rightarrow> string" where
  "userSummary_summaryQuery b =
     ''SELECT COUNT(*) AS total_sales, SUM(amount) AS total_revenue, AVG(amount) AS '' @
     ''average_sale_amount, MIN(amount) AS min_sale_amount, MAX(amount) AS '' @
     ''max_sale_amount FROM sales WHERE '' @ join '' AND '' (conditions b)"

definition userSummary_monthlyQuery :: "builder \<Rightarrow> string" where
  "userSummary_monthlyQuery b =
     ''SELECT DATE_TRUNC('month', date) AS month, COUNT(*) AS sales_count, '' @
     ''SUM(amount) AS total_revenue, AVG(amount) AS average_revenue FROM sales WHERE '' @
     join '' AND '' (conditions b) @
     '' GROUP BY DATE_TRUNC('month', date) ORDER BY month''"

definition getUserSalesSummary :: "builtins \<Rightarrow> pool \<Rightarrow> string \<Rightarrow> query \<Rightarrow> response \<times> call list" where
  "getUserSalesSummary rt pool userId q =
     (if userId = [] then (\<lparr>status = 400, body = error_body ''User ID is required''\<rparr>, [])
      else respond (
        bind_io (validateResourceExists pool ''users'' (Str userId)) (\<lambda>_.
        let validStartDate = parseDate rt (q_startDate q) Null;
            validEndDate = parseDate rt (q_endDate q) Null;
            b = user_conditions rt userId q
        in
        bind_io (pool_query pool (userSummary_summaryQuery b) (queryParams b)) (\<lambda>summaryResult.
        bind_io (pool_query pool (userSummary_monthlyQuery b) (queryParams b)) (\<lambda>monthlyResult.
        return_io (Obj [
          (''data'', Obj [(''summary'', first_row summaryResult),
                          (''monthly_breakdown'', Arr monthlyResult)]),
          (''meta'', Obj [(''filters'', Obj [(''startDate'', validStartDate),
                                             (''endDate'', validEndDate)])]),
          (''links'', Obj [
             (''self'', Str (''/api/metrics/users/'' @ userId @ ''/sales/summary'')),
             (''sales'', Str (''/api/metrics/users/'' @ userId @ ''/sales''))])]))))))"

subsection \<open>getUserPerformance\<close>

definition userPerformance_trendsQuery :: string where
  "userPerformance_trendsQuery =
     ''SELECT DATE_TRUNC($1, date) AS time_period, COUNT(*) AS sales_count, '' @
     ''SUM(amount) AS total_revenue, AVG(amount) AS average_revenue FROM sales WHERE '' @
     ''user_id = $2 AND date BETWEEN $3 AND $4 GROUP BY DATE_TRUNC($1, date) ORDER BY '' @
     ''time_period''"

definition userPerformance_summaryQuery :: string where
  "userPerformance_summaryQuery =
     ''SELECT COUNT(*) AS total_sales, SUM(amount) AS total_revenue, AVG(amount) AS '' @
     ''average_sale_amount, MIN(amount) AS min_sale_amount, MAX(amount) AS '' @
     ''max_sale_amount FROM sales WHERE user_id = $1 AND date BETWEEN $2 AND $3''"

definition userPerformance_rankingQuery :: string where
  "userPerformance_rankingQuery =
     ''WITH user_sales AS ( SELECT g.id AS group_id, g.name AS group_name, '' @
     ''SUM(s.amount) AS user_revenue FROM sales s JOIN user_groups ug ON s.user_id = '' @
     ''ug.user_id JOIN groups g ON ug.group_id = g.id WHERE s.user_id = $1 AND s.date '' @
     ''BETWEEN $2 AND $3 GROUP BY g.id, g.name ), group_rankings AS ( SELECT g.id AS '' @
     ''group_id, g.name AS group_name, u.id AS user_id, u.name AS user_name, '' @
     ''SUM(s.amount) AS revenue, RANK() OVER (PARTITION BY g.id ORDER BY '' @
     ''SUM(s.amount) DESC) AS rank FROM sales s JOIN user_groups ug ON s.user_id = '' @
     ''ug.user_id JOIN groups g ON ug.group_id = g.id JOIN users u ON s.user_id = '' @
     ''u.id WHERE s.date BETWEEN $2 AND $3 GROUP BY g.id, g.name, u.id, u.name ) '' @
     ''SELECT us.group_id, us.group_name, us.user_revenue, gr.rank, COUNT(*) OVER '' @
     ''(PARTITION BY us.group_id) AS total_users FROM user_sales us JOIN '' @
     ''group_rankings gr ON us.group_id = gr.group_id AND gr.user_id = $1''"

definition getUserPerformance :: "builtins \<Rightarrow> pool \<Rightarrow> string \<Rightarrow> query \<Rightarrow> response \<times> call list" where
  "getUserPerformance rt pool userId q =
     (if userId = [] then (\<lparr>status = 400, body = error_body ''User ID is required''\<rparr>, [])
      else respond (
        bind_io (validateResourceExists pool ''users'' (Str userId)) (\<lambda>_.
        let validStartDate = parseDate rt (q_startDate q) (Str ''2021-01-01'');
            validEndDate = parseDate rt (q_endDate q) (Str ''2021-12-31'');
            validInterval = validateInterval (q_interval q) ''month''
        in
        bind_io (pool_query pool userPerformance_trendsQuery
                   [Str validInterval, Str userId, validStartDate, validEndDate]) (\<lambda>trendsResult.
        bind_io (pool_query pool userPerformance_summaryQuery
                   [Str userId, validStartDate, validEndDate]) (\<lambda>summaryResult.
        bind_io (pool_query pool userPerformance_rankingQuery
                   [Str userId, validStartDate, validEndDate]) (\<lambda>rankingResult.
        return_io (Obj [
          (''data'', Obj [(''summary'', first_row summaryResult),
                          (''trends'', Arr trendsResult),
                          (''group_rankings'', Arr rankingResult)]),
          (''meta'', Obj [(''filters'', Obj [(''startDate'', validStartDate),
                                             (''endDate'', validEndDate),
                                             (''interval'', Str validInterval)])]),
          (''links'', Obj [
             (''self'', Str (''/api/metrics/users/'' @ userId @ ''/performance?interval='' @ validInterval)),
             (''user'', Str (''/api/metrics/users/'' @ userId)),
             (''sales'', Str (''/api/metrics/users/'' @ userId @ ''/sales''))])])))))))"

subsection \<open>getAllUsersPerformance\<close>

text \<open>
  The trend statement. Its two conditional fragments are ordinary double-quoted strings
  inside the template literal, so the text \<open>$${role ? 5 : 4}\<close> of the second one is not
  evaluated: it reaches the statement as it is written.
\<close>

definition allUsers_trendsQuery :: "qval \<Rightarrow> qval \<Rightarrow> string" where
  "allUsers_trendsQuery role groupId =
     ''SELECT DATE_TRUNC($1, s.date) AS time_period, COUNT(s.id) AS sales_count, '' @
     ''SUM(s.amount) AS total_revenue, AVG(s.amount) AS average_revenue, '' @
     ''COUNT(DISTINCT s.user_id) AS active_users FROM sales s JOIN users u ON '' @
     ''s.user_id = u.id'' @
     (if truthy groupId then '' JOIN user_groups ug ON s.user_id = ug.user_id'' else []) @
     '' WHERE s.date BETWEEN $2 AND $3'' @
     (if truthy role then '' AND u.role = $4'' else []) @
     (if truthy groupId then '' AND ug.group_id = $${role ? 5 : 4}'' else []) @
     '' GROUP BY DATE_TRUNC($1, s.date) ORDER BY time_period''"

definition allUsers_trendsParams ::
  "string \<Rightarrow> jsval \<Rightarrow> jsval \<Rightarrow> qval \<Rightarrow> qval \<Rightarrow> jsval list" where
  "allUsers_trendsParams validInterval validStartDate validEndDate role groupId =
     [Str validInterval, validStartDate, validEndDate] @
     (if truthy role then [qv role] else []) @
     (if truthy groupId then [qv groupId] else [])"

definition allUsers_topPerformersQuery :: "builder \<Rightarrow> qval \<Rightarrow> string \<Rightarrow> string \<Rightarrow> string" where
  "allUsers_topPerformersQuery b groupId validSortBy validSortOrder =
     ''SELECT u.id, u.name, u.role, COUNT(s.id) AS sales_count, SUM(s.amount) AS '' @
     ''total_revenue, AVG(s.amount) AS average_revenue, MIN(s.date) AS '' @
     ''first_sale_date, MAX(s.date) AS last_sale_date FROM users u JOIN sales s ON '' @
     ''u.id = s.user_id'' @
     (if truthy groupId then '' JOIN user_groups ug ON u.id = ug.user_id'' else []) @
     (if length (conditions b) > 0 then '' WHERE '' @ join '' AND '' (conditions b) else []) @
     '' GROUP BY u.id, u.name, u.role ORDER BY '' @ validSortBy @ '' '' @ validSortOrder @
     '' LIMIT $'' @ show_nat (paramIndex b)"

definition allUsers_roleBreakdownQuery :: "qval \<Rightarrow> string" where
  "allUsers_roleBreakdownQuery groupId =
     ''SELECT u.role, COUNT(DISTINCT u.id) AS user_count, COUNT(s.id) AS sales_count, '' @
     ''SUM(s.amount) AS total_revenue, AVG(s.amount) AS average_revenue FROM users u '' @
     ''JOIN sales s ON u.id = s.user_id'' @
     (if truthy groupId then '' JOIN user_groups ug ON s.user_id = ug.user_id'' else []) @
     '' WHERE s.date BETWEEN $1 AND $2'' @
     (if truthy groupId then '' AND ug.group_id = $3'' else []) @
     '' GROUP BY u.role ORDER BY total_revenue DESC''"

text \<open>
  The conditions of the top-performers statement: the two dates are bound first, then
  the role and the group; the date condition is pushed last and takes no new value.
\<close>

definition allUsers_conditions :: "jsval \<Rightarrow> jsval \<Rightarrow> qval \<Rightarrow> qval \<Rightarrow> builder" where
  "allUsers_conditions validStartDate validEndDate role groupId =
     (let b0 = \<lparr>conditions = [], queryParams = [validStartDate, validEndDate], paramIndex = 3\<rparr>;
          b1 = add_if (truthy role) ''u.role = '' (qv role) b0;
          b2 = add_if (truthy groupId) ''ug.group_id = '' (qv groupId) b1
      in b2\<lparr>conditions := conditions b2 @ [''s.date BETWEEN $1 AND $2'']\<rparr>)"

text \<open>
  The handler validates the interval with the expression of \<open>validateInterval\<close> written
  out in place; the three statements are issued together.
\<close>

definition getAllUsersPerformance :: "builtins \<Rightarrow> pool \<Rightarrow> query \<Rightarrow> response \<times> call list" where
  "getAllUsersPerformance rt pool q =
     respond_500 (
       let role = q_role q;
           groupId = q_groupId q;
           validStartDate = parseDate rt (q_startDate q) (Str ''2021-01-01'');
           validEndDate = parseDate rt (q_endDate q) (Str ''2021-12-31'');
           validInterval = validateInterval (q_interval q) ''month'';
           validSortColumns = [''total_revenue'', ''average_revenue'', ''sales_count'', ''name''];
           validSortBy = validateSortColumn (q_sortBy q) validSortColumns ''total_revenue''
       in
       bind_io (lift_io (validateSortOrder (q_sortOrder q) ''desc'')) (\<lambda>validSortOrder.
       let validLimit = (if truthy (q_limit q) then num_or_nan (parseInt_q (q_limit q)) else num 10);
           b = allUsers_conditions validStartDate validEndDate role groupId
       in
       bind_io (pool_query_all3 pool
          (allUsers_topPerformersQuery b groupId validSortBy validSortOrder, queryParams b @ [validLimit])
          (allUsers_trendsQuery role groupId,
           allUsers_trendsParams validInterval validStartDate validEndDate role groupId)
          (allUsers_roleBreakdownQuery groupId,
           [validStartDate, validEndDate] @ (if truthy groupId then [qv groupId] else [])))
         (\<lambda>(topPerformersResult, trendsResult, roleBreakdownResult).
       return_io (Obj [
         (''data'', Obj [(''top_performers'', Arr topPerformersResult),
                         (''trends'', Arr trendsResult),
                         (''role_breakdown'', Arr roleBreakdownResult)]),
         (''meta'', Obj [(''filters'', Obj [(''startDate'', validStartDate),
                                            (''endDate'', validEndDate),
                                            (''interval'', Str validInterval),
                                            (''role'', qv role),
                                            (''groupId'', qv groupId),
                                            (''limit'', validLimit)])]),
         (''links'', Obj [
            (''self'', Str (''/api/metrics/users/performance?interval='' @ validInterval)),
            (''users_sales'', Str (''/api/metrics/sales?'' @
               (if truthy groupId then ''groupId='' @ js_string groupId @ ''&'' else []) @
               (if truthy role then ''role='' @ js_string role @ ''&'' else [])))])]))))"

section \<open>controllers/group-controller.js\<close>

subsection \<open>getGroupUsers\<close>

definition groupUsers_conditions :: "string \<Rightarrow> query \<Rightarrow> builder" where
  "groupUsers_conditions groupId q =
     (let b0 = \<lparr>conditions = [''ug.group_id = $1''], queryParams = [Str groupId], paramIndex = 2\<rparr>;
          b1 = add_if (truthy (q_role q)) ''u.role = '' (qv (q_role q)) b0
      in b1)"

definition groupUsers_query :: "builder \<Rightarrow> string \<Rightarrow> string \<Rightarrow> string" where
  "groupUsers_query b validSortBy validSortOrder =
     ''SELECT u.id, u.name, u.role FROM users u JOIN user_groups ug ON u.id = '' @
     ''ug.user_id WHERE '' @ join '' AND '' (conditions b) @
     '' ORDER BY u.'' @ validSortBy @ '' '' @ validSortOrder @ limit_offset (paramIndex b)"

definition groupUsers_countQuery :: "builder \<Rightarrow> string" where
  "groupUsers_countQuery b =
     ''SELECT COUNT(*) FROM users u JOIN user_groups ug ON u.id = ug.user_id WHERE '' @
     join '' AND '' (conditions b)"

definition getGroupUsers :: "pool \<Rightarrow> string \<Rightarrow> query \<Rightarrow> response \<times> call list" where
  "getGroupUsers pool groupId q =
     (if groupId = [] then (\<lparr>status = 400, body = error_body ''Group ID is required''\<rparr>, [])
      else respond (
        bind_io (validateResourceExists pool ''groups'' (Str groupId)) (\<lambda>_.
        let validSortColumns = [''name'', ''role''];
            validSortBy = validateSortColumn (q_sortBy q) validSortColumns ''name''
        in
        bind_io (lift_io (validateSortOrder (q_sortOrder q) ''asc'')) (\<lambda>validSortOrder.
        let b = groupUsers_conditions groupId q;
            pg = getPaginationParams (q_page q) (q_limit q)
        in
        bind_io (pool_query pool (groupUsers_query b validSortBy validSortOrder) (listing_params b pg)) (\<lambda>result.
        bind_io (pool_query pool (groupUsers_countQuery b) (count_params b pg)) (\<lambda>countResult.
        bind_io (count_total countResult) (\<lambda>total_rows.
        return_io (formatPaginatedResponse result pg total_rows
          (''/api/metrics/groups/'' @ groupId @ ''/users'')
          [(''filters'', Obj [(''role'', qv (q_role q))])]))))))))"

subsection \<open>getGroupSales\<close>

text \<open>
  The date conditions are those of \<open>getGroupSalesSummary\<close> too, which stops before the
  user filter.
\<close>

definition group_conditions :: "builtins \<Rightarrow> string \<Rightarrow> query \<Rightarrow> builder" where
  "group_conditions rt groupId q =
     (let validStartDate = parseDate rt (q_startDate q) Null;
          validEndDate = parseDate rt (q_endDate q) Null;
          b0 = \<lparr>conditions = [''ug.group_id = $1''], queryParams = [Str groupId], paramIndex = 2\<rparr>;
          b1 = add_if (js_truthy validStartDate) ''s.date >= '' validStartDate b0;
          b2 = add_if (js_truthy validEndDate) ''s.date <= '' validEndDate b1
      in b2)"

definition groupSales_conditions :: "builtins \<Rightarrow> string \<Rightarrow> query \<Rightarrow> builder" where
  "groupSales_conditions rt groupId q =
     add_if (truthy (q_userId q)) ''s.user_id = '' (qv (q_userId q)) (group_conditions rt groupId q)"

definition groupSales_query :: "builder \<Rightarrow> string \<Rightarrow> string \<Rightarrow> string" where
  "groupSales_query b validSortBy validSortOrder =
     ''SELECT s.id, s.user_id, u.name as user_name, s.amount, s.date FROM sales s '' @
     ''JOIN user_groups ug ON s.user_id = ug.user_id JOIN users u ON s.user_id = u.id '' @
     ''WHERE '' @ join '' AND '' (conditions b) @
     '' ORDER BY s.'' @ validSortBy @ '' '' @ validSortOrder @ limit_offset (paramIndex b)"

definition groupSales_countQuery :: "builder \<Rightarrow> string" where
  "groupSales_countQuery b =
     ''SELECT COUNT(*) FROM sales s JOIN user_groups ug ON s.user_id = ug.user_id '' @
     ''WHERE '' @ join '' AND '' (conditions b)"

definition getGroupSales :: "builtins \<Rightarrow> pool \<Rightarrow> string \<Rightarrow> query \<Rightarrow> response \<times> call list" where
  "getGroupSales rt pool groupId q =
     (if groupId = [] then (\<lparr>status = 400, body = error_body ''Group ID is required''\<rparr>, [])
      else respond (
        bind_io (validateResourceExists pool ''groups'' (Str groupId)) (\<lambda>_.
        let validStartDate = parseDate rt (q_startDate q) Null;
            validEndDate = parseDate rt (q_endDate q) Null;
            validSortColumns = [''date'', ''amount'', ''user_id''];
            validSortBy = validateSortColumn (q_sortBy q) validSortColumns ''date''
        in
        bind_io (lift_io (validateSortOrder (q_sortOrder q) ''desc'')) (\<lambda>validSortOrder.
        let b = groupSales_conditions rt groupId q;
            pg = getPaginationParams (q_page q) (q_limit q)
        in
        bind_io (pool_query pool (groupSales_query b validSortBy validSortOrder) (listing_params b pg)) (\<lambda>result.
        bind_io (pool_query pool (groupSales_countQuery b) (count_params b pg)) (\<lambda>countResult.
        bind_io (count_total countResult) (\<lambda>total_rows.
        return_io (formatPaginatedResponse result pg total_rows
          (''/api/metrics/groups/'' @ groupId @ ''/sales'')
          [(''filters'', Obj [(''startDate'', validStartDate), (''endDate'', validEndDate),
                              (''userId'', qv (q_userId q))])]))))))))"

subsection \<open>getGroupSalesSummary\<close>

definition groupSummary_query :: "builder \<Rightarrow> string" where
  "groupSummary_query b =
     ''SELECT COUNT(*) AS total_sales, SUM(s.amount) AS total_revenue, AVG(s.amount) '' @
     ''AS average_sale, MIN(s.amount) AS min_sale, MAX(s.amount) AS max_sale, '' @
     ''COUNT(DISTINCT s.user_id) AS active_users FROM sales s JOIN user_groups ug ON '' @
     ''s.user_id = ug.user_id WHERE '' @ join '' AND '' (conditions b)"

definition groupSummary_userSalesQuery :: "builder \<Rightarrow> string" where
  "groupSummary_userSalesQuery b =
     ''SELECT u.id AS user_id, u.name AS user_name, u.role, COUNT(*) AS sales_count, '' @
     ''SUM(s.amount) AS total_revenue, AVG(s.amount) AS average_sale FROM sales s '' @
     ''JOIN user_groups ug ON s.user_id = ug.user_id JOIN users u ON s.user_id = u.id '' @
     ''WHERE '' @ join '' AND '' (conditions b) @
     '' GROUP BY u.id, u.name, u.role ORDER BY total_revenue DESC''"

definition getGroupSalesSummary :: "builtins \<Rightarrow> pool \<Rightarrow> string \<Rightarrow> query \<Rightarrow> response \<times> call list" where
  "getGroupSalesSummary rt pool groupId q =
     (if groupId = [] then (\<lparr>status = 400, body = error_body ''Group ID is required''\<rparr>, [])
      else respond (
        bind_io (validateResourceExists pool ''groups'' (Str groupId)) (\<lambda>_.
        let validStartDate = parseDate rt (q_startDate q) Null;
            validEndDate = parseDate rt (q_endDate q) Null;
            b = group_conditions rt groupId q
        in
        bind_io (pool_query pool (groupSummary_query b) (queryParams b)) (\<lambda>result.
        bind_io (pool_query pool (groupSummary_userSalesQuery b) (queryParams b)) (\<lambda>userSalesResult.
        return_io (Obj [
          (''data'', Obj [(''summary'', first_row result),
                          (''user_breakdown'', Arr userSalesResult)]),
          (''meta'', Obj [(''filters'', Obj [(''startDate'', validStartDate),
                                             (''endDate'', validEndDate)])]),
          (''links'', Obj [
             (''self'', Str (''/api/metrics/groups/'' @ groupId @ ''/sales/summary'')),
             (''sales'', Str (''/api/metrics/groups/'' @ groupId @ ''/sales''))])]))))))"

subsection \<open>getGroupPerformance\<close>

definition groupPerformance_trendsQuery :: string where
  "groupPerformance_trendsQuery =
     ''SELECT DATE_TRUNC($1, s.date) AS time_period, COUNT(*) AS sales_count, '' @
     ''SUM(s.amount) AS total_revenue, AVG(s.amount) AS average_revenue, '' @
     ''COUNT(DISTINCT s.user_id) AS active_users FROM sales s JOIN user_groups ug ON '' @
     ''s.user_id = ug.user_id WHERE ug.group_id = $2 AND s.date BETWEEN $3 AND $4 '' @
     ''GROUP BY DATE_TRUNC($1, s.date) ORDER BY time_period''"

definition groupPerformance_topPerformersQuery :: string where
  "groupPerformance_topPerformersQuery =
     ''SELECT u.id, u.name, u.role, COUNT(*) AS sales_count, SUM(s.amount) AS '' @
     ''total_revenue, AVG(s.amount) AS average_revenue, RANK() OVER (ORDER BY '' @
     ''SUM(s.amount) DESC) AS rank FROM sales s JOIN user_groups ug ON s.user_id = '' @
     ''ug.user_id JOIN users u ON s.user_id = u.id WHERE ug.group_id = $1 AND s.date '' @
     ''BETWEEN $2 AND $3 GROUP BY u.id, u.name, u.role ORDER BY total_revenue DESC '' @
     ''LIMIT 10''"

definition groupPerformance_comparisonQuery :: string where
  "groupPerformance_comparisonQuery =
     ''WITH group_metrics AS ( SELECT g.id AS group_id, g.name AS group_name, '' @
     ''COUNT(s.id) AS sales_count, SUM(s.amount) AS total_revenue, AVG(s.amount) AS '' @
     ''average_revenue, COUNT(DISTINCT s.user_id) AS active_users FROM groups g JOIN '' @
     ''user_groups ug ON g.id = ug.group_id JOIN sales s ON ug.user_id = s.user_id '' @
     ''WHERE s.date BETWEEN $1 AND $2 GROUP BY g.id, g.name ) SELECT gm.*, RANK() '' @
     ''OVER (ORDER BY total_revenue DESC) AS revenue_rank, RANK() OVER (ORDER BY '' @
     ''sales_count DESC) AS sales_rank, RANK() OVER (ORDER BY average_revenue DESC) '' @
     ''AS avg_revenue_rank FROM group_metrics gm ORDER BY CASE WHEN gm.group_id = $3 '' @
     ''THEN 0 ELSE 1 END, total_revenue DESC''"

definition getGroupPerformance :: "builtins \<Rightarrow> pool \<Rightarrow> string \<Rightarrow> query \<Rightarrow> response \<times> call list" where
  "getGroupPerformance rt pool groupId q =
     (if groupId = [] then (\<lparr>status = 400, body = error_body ''Group ID is required''\<rparr>, [])
      else respond (
        bind_io (validateResourceExists pool ''groups'' (Str groupId)) (\<lambda>_.
        let validStartDate = parseDate rt (q_startDate q) (Str ''2021-01-01'');
            validEndDate = parseDate rt (q_endDate q) (Str ''2021-12-31'');
            validInterval = validateInterval (q_interval q) ''month''
        in
        bind_io (pool_query pool groupPerformance_trendsQuery
                   [Str validInterval, Str groupId, validStartDate, validEndDate]) (\<lambda>trendsResult.
        bind_io (pool_query pool groupPerformance_topPerformersQuery
                   [Str groupId, validStartDate, validEndDate]) (\<lambda>topPerformersResult.
        bind_io (pool_query pool groupPerformance_comparisonQuery
                   [validStartDate, validEndDate, Str groupId]) (\<lambda>comparisonResult.
        return_io (Obj [
          (''data'', Obj [(''trends'', Arr trendsResult),
                          (''top_performers'', Arr topPerformersResult),
                          (''comparison'', Arr comparisonResult)]),
          (''meta'', Obj [(''filters'', Obj [(''startDate'', validStartDate),
                                             (''endDate'', validEndDate),
                                             (''interval'', Str validInterval)])]),
          (''links'', Obj [
             (''self'', Str (''/api/metrics/groups/'' @ groupId @ ''/performance?interval='' @ validInterval)),
             (''group_sales'', Str (''/api/metrics/groups/'' @ groupId @ ''/sales''))])])))))))"

subsection \<open>getAllGroupsPerformance\<close>

definition allGroups_topGroupsQuery :: "string \<Rightarrow> string \<Rightarrow> string" where
  "allGroups_topGroupsQuery validSortBy validSortOrder =
     ''SELECT g.id, g.name, COUNT(s.id) AS sales_count, SUM(s.amount) AS '' @
     ''total_revenue, AVG(s.amount) AS average_revenue, COUNT(DISTINCT s.user_id) AS '' @
     ''active_users, COUNT(DISTINCT ug.user_id) AS total_users, MIN(s.date) AS '' @
     ''first_sale_date, MAX(s.date) AS last_sale_date FROM groups g JOIN user_groups '' @
     ''ug ON g.id = ug.group_id JOIN sales s ON ug.user_id = s.user_id WHERE s.date '' @
     ''BETWEEN $1 AND $2 GROUP BY g.id, g.name ORDER BY '' @ validSortBy @ '' '' @
     validSortOrder @ '' LIMIT $3''"

definition allGroups_trendsQuery :: string where
  "allGroups_trendsQuery =
     ''SELECT DATE_TRUNC($1, s.date) AS time_period, COUNT(s.id) AS sales_count, '' @
     ''SUM(s.amount) AS total_revenue, AVG(s.amount) AS average_revenue, '' @
     ''COUNT(DISTINCT s.user_id) AS active_users, COUNT(DISTINCT ug.group_id) AS '' @
     ''active_groups FROM sales s JOIN user_groups ug ON s.user_id = ug.user_id WHERE '' @
     ''s.date BETWEEN $2 AND $3 GROUP BY DATE_TRUNC($1, s.date) ORDER BY time_period''"

definition allGroups_groupSizeQuery :: string where
  "allGroups_groupSizeQuery =
     ''WITH group_sizes AS ( SELECT g.id, g.name, COUNT(DISTINCT ug.user_id) AS '' @
     ''user_count FROM groups g JOIN user_groups ug ON g.id = ug.group_id GROUP BY '' @
     ''g.id, g.name ), group_performance AS ( SELECT g.id, SUM(s.amount) AS '' @
     ''total_revenue, COUNT(s.id) AS sales_count FROM groups g JOIN user_groups ug ON '' @
     ''g.id = ug.group_id JOIN sales s ON ug.user_id = s.user_id WHERE s.date BETWEEN '' @
     ''$1 AND $2 GROUP BY g.id ) SELECT gs.user_count, COUNT(DISTINCT gs.id) AS '' @
     ''group_count, AVG(gp.total_revenue) AS avg_revenue, AVG(gp.sales_count) AS '' @
     ''avg_sales FROM group_sizes gs LEFT JOIN group_performance gp ON gs.id = gp.id '' @
     ''GROUP BY gs.user_count ORDER BY gs.user_count''"

text \<open>
  As in the all-users handler, the interval is validated by the expression of
  \<open>validateInterval\<close> written out in place, and the three statements are issued together.
\<close>

definition getAllGroupsPerformance :: "builtins \<Rightarrow> pool \<Rightarrow> query \<Rightarrow> response \<times> call list" where
  "getAllGroupsPerformance rt pool q =
     respond_500 (
       let validStartDate = parseDate rt (q_startDate q) (Str ''2021-01-01'');
           validEndDate = parseDate rt (q_endDate q) (Str ''2021-12-31'');
           validInterval = validateInterval (q_interval q) ''month'';
           validSortColumns = [''total_revenue'', ''average_revenue'', ''sales_count'',
                               ''active_users'', ''name''];
           validSortBy = validateSortColumn (q_sortBy q) validSortColumns ''total_revenue''
       in
       bind_io (lift_io (validateSortOrder (q_sortOrder q) ''desc'')) (\<lambda>validSortOrder.
       let validLimit = (if truthy (q_limit q) then num_or_nan (parseInt_q (q_limit q)) else num 10)
       in
       bind_io (pool_query_all3 pool
          (allGroups_topGroupsQuery validSortBy validSortOrder,
           [validStartDate, validEndDate, validLimit])
          (allGroups_trendsQuery, [Str validInterval, validStartDate, validEndDate])
          (allGroups_groupSizeQuery, [validStartDate, validEndDate]))
         (\<lambda>(topGroupsResult, trendsResult, groupSizeResult).
       return_io (Obj [
         (''data'', Obj [(''top_groups'', Arr topGroupsResult),
                         (''trends'', Arr trendsResult),
                         (''group_size_analysis'', Arr groupSizeResult)]),
         (''meta'', Obj [(''filters'', Obj [(''startDate'', validStartDate),
                                            (''endDate'', validEndDate),
                                            (''interval'', Str validInterval),
                                            (''limit'', validLimit)])]),
         (''links'', Obj [
            (''self'', Str (''/api/metrics/groups/performance?interval='' @ validInterval)),
            (''groups_sales'', Str ''/api/metrics/groups/sales'')])]))))"

section \<open>controllers/sales-controller.js\<close>

subsection \<open>listSales\<close>

text \<open>\<open>minAmount ? Number.parseFloat(minAmount) : null\<close>\<close>

definition parse_amount :: "builtins \<Rightarrow> qval \<Rightarrow> jsval" where
  "parse_amount rt x = (if truthy x then parse_float rt (js_string x) else Null)"

definition listSales_conditions :: "builtins \<Rightarrow> query \<Rightarrow> builder" where
  "listSales_conditions rt q =
     (let validStartDate = parseDate rt (q_startDate q) Null;
          validEndDate = parseDate rt (q_endDate q) Null;
          validMinAmount = parse_amount rt (q_minAmount q);
          validMaxAmount = parse_amount rt (q_maxAmount q);
          b0 = \<lparr>conditions = [], queryParams = [], paramIndex = 1\<rparr>;
          b1 = add_if (js_truthy validStartDate) ''s.date >= '' validStartDate b0;
          b2 = add_if (js_truthy validEndDate) ''s.date <= '' validEndDate b1;
          b3 = add_if (truthy (q_userId q)) ''s.user_id = '' (qv (q_userId q)) b2;
          b4 = add_if (validMinAmount \<noteq> Null) ''s.amount >= '' validMinAmount b3;
          b5 = add_if (validMaxAmount \<noteq> Null) ''s.amount <= '' validMaxAmount b4;
          b6 = add_if (truthy (q_groupId q)) ''ug.group_id = '' (qv (q_groupId q)) b5
      in b6)"

definition listSales_order :: "string \<Rightarrow> string \<Rightarrow> string" where
  "listSales_order validSortBy validSortOrder = '' ORDER BY s.'' @ validSortBy @ '' '' @ validSortOrder"

definition listSales_query :: "builder \<Rightarrow> qval \<Rightarrow> string \<Rightarrow> string \<Rightarrow> string" where
  "listSales_query b groupId validSortBy validSortOrder =
     ''SELECT s.id, s.user_id, u.name as user_name, s.amount, s.date FROM sales s '' @
     ''JOIN users u ON s.user_id = u.id'' @
     (if truthy groupId then '' JOIN user_groups ug ON s.user_id = ug.user_id'' else []) @
     (if length (conditions b) > 0 then '' WHERE '' @ join '' AND '' (conditions b) else []) @
     listSales_order validSortBy validSortOrder @
     limit_offset (paramIndex b)"

definition listSales_countQuery :: "builder \<Rightarrow> qval \<Rightarrow> string" where
  "listSales_countQuery b groupId =
     ''SELECT COUNT(*) FROM sales s'' @
     (if truthy groupId then '' JOIN user_groups ug ON s.user_id = ug.user_id'' else []) @
     (if length (conditions b) > 0 then '' WHERE '' @ join '' AND '' (conditions b) else [])"

definition listSales :: "builtins \<Rightarrow> pool \<Rightarrow> query \<Rightarrow> response \<times> call list" where
  "listSales rt pool q =
     respond_500 (
       let pg = getPaginationParams (q_page q) (q_limit q);
           validStartDate = parseDate rt (q_startDate q) Null;
           validEndDate = parseDate rt (q_endDate q) Null;
           validSortColumns = [''date'', ''amount'', ''user_id''];
           validSortBy = validateSortColumn (q_sortBy q) validSortColumns ''date''
       in
       bind_io (lift_io (validateSortOrder (q_sortOrder q) ''desc'')) (\<lambda>validSortOrder.
       let validMinAmount = parse_amount rt (q_minAmount q);
           validMaxAmount = parse_amount rt (q_maxAmount q);
           b = listSales_conditions rt q
       in
       bind_io (pool_query pool (listSales_query b (q_groupId q) validSortBy validSortOrder)
                  (listing_params b pg)) (\<lambda>result.
       bind_io (pool_query pool (listSales_countQuery b (q_groupId q)) (count_params b pg)) (\<lambda>countResult.
       bind_io (count_total countResult) (\<lambda>total_rows.
       return_io (formatPaginatedResponse result pg total_rows ''/api/metrics/sales''
         [(''filters'', Obj [(''startDate'', validStartDate), (''endDate'', validEndDate),
                             (''userId'', qv (q_userId q)), (''groupId'', qv (q_groupId q)),
                             (''minAmount'', validMinAmount), (''maxAmount'', validMaxAmount)])]))))))"

section \<open>Placeholder numbering\<close>

text \<open>
  What it means for the conditions of a builder to be numbered: a condition carries the
  placeholder \<open>$k\<close> when it ends with \<open>$k\<close> and has no other \<open>$\<close>; a list of conditions
  is numbered from \<open>i\<close> when its conditions carry \<open>$i\<close>, \<open>$(i+1)\<close>, ... in order; and a
  builder is well numbered when it has one value for each condition, its conditions are
  numbered from 1 and \<open>paramIndex\<close> is the next free number.
\<close>

definition ends_with :: "string \<Rightarrow> string \<Rightarrow> bool" where
  "ends_with s t = (length t \<le> length s \<and> drop (length s - length t) s = t)"

definition placeholder_is :: "nat \<Rightarrow> string \<Rightarrow> bool" where
  "placeholder_is k c =
     (ends_with c (''$'' @ show_nat k) \<and> length (filter (\<lambda>x. x = CHR ''$'') c) = 1)"

fun numbered_from :: "nat \<Rightarrow> string list \<Rightarrow> bool" where
  "numbered_from i [] = True"
| "numbered_from i (c # cs) = (placeholder_is i c \<and> numbered_from (Suc i) cs)"

definition well_numbered :: "builder \<Rightarrow> bool" where
  "well_numbered b =
     (length (conditions b) = length (queryParams b)
      \<and> paramIndex b = length (queryParams b) + 1
      \<and> numbered_from 1 (conditions b))"

section \<open>Shapes of a query value\<close>

text \<open>
  A query value of the documented shape: absent or a string. The sort order of a request
  has this shape exactly when its validation does not throw.
\<close>

definition string_or_absent :: "qval \<Rightarrow> bool" where
  "string_or_absent v = (case v of Absent \<Rightarrow> True | One s \<Rightarrow> True | _ \<Rightarrow> False)"

section \<open>Resubmitting a listing\<close>











section \<open>Requests, runtimes and stores of the examples\<close>

text \<open>
  The request without any query parameter; a runtime whose \<open>Date\<close> accepts the two
  strings below, whose \<open>parseFloat\<close> reads \<open>10\<close> and which prints the number 10 (on these
  values it agrees with JavaScript, and \<open>parseFloat\<close> of a string without a number is
  \<open>NaN\<close>); and a store given
  by a table from statement texts to rows, in which a statement that is not in the table
  finds no row.
\<close>

definition no_query :: query where
  "no_query = \<lparr>q_page = Absent, q_limit = Absent, q_startDate = Absent, q_endDate = Absent,
     q_userId = Absent, q_groupId = Absent, q_minAmount = Absent, q_maxAmount = Absent,
     q_sortBy = Absent, q_sortOrder = Absent, q_interval = Absent, q_role = Absent\<rparr>"

definition sample_builtins :: builtins where
  "sample_builtins =
     \<lparr>date_time = (\<lambda>s. if s = ''2021-02-01'' then Some 1612137600000
                        else if s = ''March 1, 2021'' then Some 1614556800000 else None),
      parse_float = (\<lambda>s. if s = ''10'' then Num 10 else NaN),
      number_text = (\<lambda>r. if r = 10 then ''10'' else [])\<rparr>"

definition answers :: "(string \<times> jsval list) list \<Rightarrow> pool" where
  "answers tbl text ps = (case map_of tbl text of Some rows \<Rightarrow> Some rows | None \<Rightarrow> Some [])"

text \<open>A store with user 42, whose sales from a start date on count 25.\<close>

definition user_store :: pool where
  "user_store = answers [
     (''SELECT * FROM users WHERE id = $1'', [Obj [(''id'', num 42), (''name'', Str ''Ann'')]]),
     (''SELECT COUNT(*) FROM sales WHERE user_id = $1 AND date >= $2'', [Obj [(''count'', Str ''25'')]])]"

text \<open>A store with group 7 and no sale in the window asked for.\<close>

definition group_store :: pool where
  "group_store = answers [
     (''SELECT * FROM groups WHERE id = $1'', [Obj [(''id'', num 7), (''name'', Str ''East'')]])]"

text \<open>
  A store with user 42 and two sales of that user: the cheaper one is the older one.
  Read one row at a time, the cheapest sale is sale 1 and the latest sale is sale 2.
\<close>

definition two_sales_store :: pool where
  "two_sales_store = answers [
     (''SELECT * FROM users WHERE id = $1'', [Obj [(''id'', num 42), (''name'', Str ''Ann'')]]),
     (''SELECT COUNT(*) FROM sales WHERE user_id = $1'', [Obj [(''count'', Str ''2'')]]),
     (''SELECT id, amount, date FROM sales WHERE user_id = $1 ORDER BY amount asc LIMIT $2 OFFSET $3'',
      [Obj [(''id'', num 1), (''amount'', num 10), (''date'', Str ''2021-01-05'')]]),
     (''SELECT id, amount, date FROM sales WHERE user_id = $1 ORDER BY date desc LIMIT $2 OFFSET $3'',
      [Obj [(''id'', num 2), (''amount'', num 20), (''date'', Str ''2021-03-09'')]])]"



section \<open>Facts about digits and \<open>parseInt\<close>\<close>

lemma lt10_cases: "(d::nat) < 10 \<Longrightarrow> d = 0 \<or> d = 1 \<or> d = 2 \<or> d = 3 \<or> d = 4 \<or> d = 5 \<or> d = 6 \<or> d = 7 \<or> d = 8 \<or> d = 9"
  by arith

lemma digit_char_props:
  assumes "d < 10"
  shows "is_digit (digit_char d)" and "digit_val (digit_char d) = d"
    and "\<not> is_space (digit_char d)" and "digit_char d \<noteq> CHR ''-''" and "digit_char d \<noteq> CHR ''+''"
  using lt10_cases [OF assms]
  by (auto simp: is_digit_def digit_char_def digit_val_def is_space_def)

lemma show_nat_nonempty: "show_nat n \<noteq> []"
  by (subst show_nat.simps) simp

lemma show_nat_all_digits: "c \<in> set (show_nat n) \<Longrightarrow> is_digit c"
proof (induction n arbitrary: c rule: show_nat.induct)
  case (1 n)
  show ?case
  proof (cases "n < 10")
    case True
    with "1.prems" show ?thesis
      by (subst (asm) show_nat.simps) (simp add: digit_char_props(1))
  next
    case False
    with "1.prems" have "c \<in> set (show_nat (n div 10)) \<or> c = digit_char (n mod 10)"
      by (subst (asm) show_nat.simps) auto
    then show ?thesis
      using "1.IH" [OF False] by (auto simp: digit_char_props(1))
  qed
qed

lemma digits_val_snoc: "digits_val (ds @ [c]) = 10 * digits_val ds + digit_val c"
  by (simp add: digits_val_def)

lemma digits_val_show_nat: "digits_val (show_nat n) = n"
proof (induction n rule: show_nat.induct)
  case (1 n)
  show ?case
  proof (cases "n < 10")
    case True
    then show ?thesis
      by (subst show_nat.simps) (simp add: digits_val_def digit_char_props(2))
  next
    case False
    then show ?thesis
      using "1.IH" [OF False]
      by (subst show_nat.simps) (simp add: digits_val_snoc digit_char_props(2))
  qed
qed

lemma show_nat_hd: "\<exists>c cs. show_nat n = c # cs \<and> is_digit c"
  using show_nat_nonempty [of n] show_nat_all_digits [of _ n]
  by (cases "show_nat n") auto

lemma is_digit_not_special: "is_digit c \<Longrightarrow> \<not> is_space c \<and> c \<noteq> CHR ''-'' \<and> c \<noteq> CHR ''+''"
  by (auto simp: is_digit_def is_space_def)

lemma takeWhile_show_nat: "takeWhile is_digit (show_nat n) = show_nat n"
  by (simp add: takeWhile_eq_all_conv show_nat_all_digits)

lemma parseInt10_digit_first:
  assumes "is_digit c"
  shows "parseInt10 (c # cs) = Some (int (digits_val (c # takeWhile is_digit cs)))"
  using is_digit_not_special [OF assms] assms by (simp add: parseInt10_def Let_def)

lemma parseInt10_minus_first:
  "parseInt10 (CHR ''-'' # ds) =
     (if takeWhile is_digit ds = [] then None
      else Some (- int (digits_val (takeWhile is_digit ds))))"
  by (simp add: parseInt10_def Let_def is_space_def)

lemma parseInt10_show_nat: "parseInt10 (show_nat n) = Some (int n)"
proof -
  obtain c cs where sn: "show_nat n = c # cs" and d: "is_digit c"
    using show_nat_hd by blast
  have tw: "takeWhile is_digit cs = cs"
    using show_nat_all_digits [of _ n] by (simp add: takeWhile_eq_all_conv sn)
  have "parseInt10 (c # cs) = Some (int (digits_val (c # cs)))"
    by (simp only: parseInt10_digit_first [OF d] tw)
  then show ?thesis
    using digits_val_show_nat [of n] by (simp only: sn)
qed

lemma parseInt10_minus_show_nat: "parseInt10 (''-'' @ show_nat n) = Some (- int n)"
  by (simp add: parseInt10_minus_first takeWhile_show_nat show_nat_nonempty digits_val_show_nat)

lemma parseInt10_show_int: "parseInt10 (show_int i) = Some i"
  using parseInt10_show_nat [of "nat i"] parseInt10_minus_show_nat [of "nat (- i)"]
  by (simp add: show_int_def)

section \<open>The pagination calculator\<close>


lemma parseInt_q_absent: "parseInt_q Absent = None"
  by (simp add: parseInt_q_def parseInt10_def is_space_def is_digit_def)

lemma ceil_div_ceiling:
  "l \<noteq> 0 \<Longrightarrow> ceil_div (Some T) l = Fin \<lceil>real_of_int T / real_of_int l\<rceil>"
  by (simp add: ceil_div_def ceiling_divide_eq_div)

lemma get_Obj: "get (Obj kvs) k = (case map_of kvs k of Some x \<Rightarrow> x | None \<Rightarrow> Undefined)"
  by (simp add: get_def)

lemma parseInt_q_show_int: "parseInt_q (One (show_int i)) = Some i"
  by (simp add: parseInt_q_def parseInt10_show_int)




text \<open>
  C4, as amended. For every listing response built from page \<open>p\<close>, a limit \<open>l\<close> other
  than zero (the calculator never returns zero) and a total count \<open>T\<close>: \<open>pages\<close> is the
  ceiling of \<open>T / l\<close>; the next link is present iff \<open>p < pages\<close>; the prev link is
  present iff \<open>p > 1\<close>; the first link always points at page 1 and the last link always
  carries the page number \<open>pages\<close>. With no page at all the last link therefore reads
  \<open>page=0\<close>, which the pagination calculator resolves to page 1 when it is followed.
\<close>

theorem formatPaginatedResponse_pagination:
  assumes "l \<noteq> 0"
  shows "let pages = \<lceil>real_of_int T / real_of_int l\<rceil>;
             resp = formatPaginatedResponse rows \<lparr>limit = l, offset = off, page = p\<rparr> (Some T) baseUrl meta;
             links = get resp ''links''
         in get (get (get resp ''meta'') ''pagination'') ''pages'' = num pages
          \<and> (get links ''next'' \<noteq> Null) = (p < pages)
          \<and> (get links ''prev'' \<noteq> Null) = (p > 1)
          \<and> get links ''next'' = (if p < pages then Str (baseUrl @ ''?page='' @ show_int (p + 1) @ ''&limit='' @ show_int l) else Null)
          \<and> get links ''prev'' = (if p > 1 then Str (baseUrl @ ''?page='' @ show_int (p - 1) @ ''&limit='' @ show_int l) else Null)
          \<and> get links ''first'' = Str (baseUrl @ ''?page=1&limit='' @ show_int l)
          \<and> get links ''last'' = Str (baseUrl @ ''?page='' @ show_int pages @ ''&limit='' @ show_int l)
          \<and> page (getPaginationParams (One (show_int pages)) raw_limit) = (if pages = 0 then 1 else pages)"
  using ceil_div_ceiling [OF assms, of T]
  by (simp add: formatPaginatedResponse_def Let_def get_Obj page_link_def jsnum_val_def
      show_jsnum_def int_less_jsnum_def getPaginationParams_def parseInt_q_show_int or_default_def)

text \<open>The scenario of 25 rows read at page 2 with limit 10.\<close>

theorem formatPaginatedResponse_pagination_witness:
  "get (get (get (formatPaginatedResponse [] \<lparr>limit = 10, offset = 10, page = 2\<rparr> (Some 25) ''/api/metrics/users/42/sales'' []) ''meta'') ''pagination'') ''pages'' = num 3
   \<and> get (get (formatPaginatedResponse [] \<lparr>limit = 10, offset = 10, page = 2\<rparr> (Some 25) ''/api/metrics/users/42/sales'' []) ''links'') ''next'' = Str ''/api/metrics/users/42/sales?page=3&limit=10''
   \<and> get (get (formatPaginatedResponse [] \<lparr>limit = 10, offset = 10, page = 2\<rparr> (Some 25) ''/api/metrics/users/42/sales'' []) ''links'') ''prev'' = Str ''/api/metrics/users/42/sales?page=1&limit=10''
   \<and> get (get (formatPaginatedResponse [] \<lparr>limit = 10, offset = 10, page = 2\<rparr> (Some 25) ''/api/metrics/users/42/sales'' []) ''links'') ''last'' = Str ''/api/metrics/users/42/sales?page=3&limit=10''"
proof -
  have c: "\<lceil>real_of_int 25 / real_of_int 10\<rceil> = 3" by simp
  have s: "show_int 3 = ''3''" "show_int 1 = ''1''" "show_int 10 = ''10''" "show_int (2 + 1) = ''3''" "show_int (2 - 1) = ''1''"
    by (simp_all add: show_int_def show_nat.simps digit_char_def)
  have n: "(10::int) \<noteq> 0" by simp
  show ?thesis
    using formatPaginatedResponse_pagination [OF n, of 25 "[]" 10 2 "''/api/metrics/users/42/sales''" "[]" Absent]
    unfolding Let_def c s by simp
qed

text \<open>
  With no row at all the last link is not the link to page 1: it reads \<open>page=0\<close>.
\<close>

theorem last_link_zero_pages:
  "get (get (get (formatPaginatedResponse [] \<lparr>limit = 100, offset = 0, page = 1\<rparr> (Some 0) ''/api/metrics/sales'' []) ''meta'') ''pagination'') ''pages'' = num 0
   \<and> get (get (formatPaginatedResponse [] \<lparr>limit = 100, offset = 0, page = 1\<rparr> (Some 0) ''/api/metrics/sales'' []) ''links'') ''last'' = Str ''/api/metrics/sales?page=0&limit=100''
   \<and> get (get (formatPaginatedResponse [] \<lparr>limit = 100, offset = 0, page = 1\<rparr> (Some 0) ''/api/metrics/sales'' []) ''links'') ''last'' \<noteq> Str ''/api/metrics/sales?page=1&limit=100''"
  by (simp add: formatPaginatedResponse_def Let_def get_Obj page_link_def jsnum_val_def ceil_div_def
      show_jsnum_def show_int_def show_nat.simps digit_char_def)

section \<open>The existence guard\<close>

lemma validateResourceExists_missing:
  assumes "pool (''SELECT * FROM '' @ table @ '' WHERE id = $1'') [ident] = Some []"
  shows "validateResourceExists pool table ident cs =
           (Inl (StatusError 404 (toUpperCase (take 1 table) @ butlast (drop 1 table) @ '' not found'')),
            cs @ [(''SELECT * FROM '' @ table @ '' WHERE id = $1'', [ident])])"
  using assms by (simp add: validateResourceExists_def bind_io_def pool_query_def throw_io_def)

lemma users_not_found: "toUpperCase (take 1 ''users'') @ butlast (drop 1 ''users'') @ '' not found'' = ''User not found''"
  by (simp add: toUpperCase_def upper_char_def)

lemma groups_not_found: "toUpperCase (take 1 ''groups'') @ butlast (drop 1 ''groups'') @ '' not found'' = ''Group not found''"
  by (simp add: toUpperCase_def upper_char_def)

lemma missing_user:
  assumes "pool ''SELECT * FROM users WHERE id = $1'' [Str ident] = Some []"
  shows "respond (bind_io (validateResourceExists pool ''users'' (Str ident)) f) =
           (\<lparr>status = 404, body = error_body ''User not found''\<rparr>,
            [(''SELECT * FROM users WHERE id = $1'', [Str ident])])"
proof -
  have "validateResourceExists pool ''users'' (Str ident) [] =
          (Inl (StatusError 404 ''User not found''), [(''SELECT * FROM users WHERE id = $1'', [Str ident])])"
    using validateResourceExists_missing [of pool "''users''" "Str ident" "[]"] assms
    by (simp only: users_not_found append.simps)
  then show ?thesis by (simp add: respond_def bind_io_def)
qed

lemma missing_group:
  assumes "pool ''SELECT * FROM groups WHERE id = $1'' [Str ident] = Some []"
  shows "respond (bind_io (validateResourceExists pool ''groups'' (Str ident)) f) =
           (\<lparr>status = 404, body = error_body ''Group not found''\<rparr>,
            [(''SELECT * FROM groups WHERE id = $1'', [Str ident])])"
proof -
  have "validateResourceExists pool ''groups'' (Str ident) [] =
          (Inl (StatusError 404 ''Group not found''), [(''SELECT * FROM groups WHERE id = $1'', [Str ident])])"
    using validateResourceExists_missing [of pool "''groups''" "Str ident" "[]"] assms
    by (simp only: groups_not_found append.simps)
  then show ?thesis by (simp add: respond_def bind_io_def)
qed

text \<open>
  C3. For each of the six entity-scoped handlers (sales, summary and performance of a user
  or of a group), when the existence lookup on the path identifier finds no row the
  response is 404, its error message names the entity kind, and the lookup is the only
  statement issued against the store.
\<close>

theorem missing_entity_404:
  assumes "ident \<noteq> []"
  shows "(pool ''SELECT * FROM users WHERE id = $1'' [Str ident] = Some [] \<longrightarrow>
            getUserSales rt pool ident q =
              (\<lparr>status = 404, body = Obj [(''error'', Str ''User not found'')]\<rparr>,
               [(''SELECT * FROM users WHERE id = $1'', [Str ident])])
          \<and> getUserSalesSummary rt pool ident q =
              (\<lparr>status = 404, body = Obj [(''error'', Str ''User not found'')]\<rparr>,
               [(''SELECT * FROM users WHERE id = $1'', [Str ident])])
          \<and> getUserPerformance rt pool ident q =
              (\<lparr>status = 404, body = Obj [(''error'', Str ''User not found'')]\<rparr>,
               [(''SELECT * FROM users WHERE id = $1'', [Str ident])]))
       \<and> (pool ''SELECT * FROM groups WHERE id = $1'' [Str ident] = Some [] \<longrightarrow>
            getGroupSales rt pool ident q =
              (\<lparr>status = 404, body = Obj [(''error'', Str ''Group not found'')]\<rparr>,
               [(''SELECT * FROM groups WHERE id = $1'', [Str ident])])
          \<and> getGroupSalesSummary rt pool ident q =
              (\<lparr>status = 404, body = Obj [(''error'', Str ''Group not found'')]\<rparr>,
               [(''SELECT * FROM groups WHERE id = $1'', [Str ident])])
          \<and> getGroupPerformance rt pool ident q =
              (\<lparr>status = 404, body = Obj [(''error'', Str ''Group not found'')]\<rparr>,
               [(''SELECT * FROM groups WHERE id = $1'', [Str ident])]))"
proof -
  have u: "pool ''SELECT * FROM users WHERE id = $1'' [Str ident] = Some [] \<Longrightarrow>
           getUserSales rt pool ident q = (\<lparr>status = 404, body = error_body ''User not found''\<rparr>,
               [(''SELECT * FROM users WHERE id = $1'', [Str ident])])
         \<and> getUserSalesSummary rt pool ident q = (\<lparr>status = 404, body = error_body ''User not found''\<rparr>,
               [(''SELECT * FROM users WHERE id = $1'', [Str ident])])
         \<and> getUserPerformance rt pool ident q = (\<lparr>status = 404, body = error_body ''User not found''\<rparr>,
               [(''SELECT * FROM users WHERE id = $1'', [Str ident])])"
    using assms
    by (simp only: getUserSales_def getUserSalesSummary_def getUserPerformance_def missing_user if_False simp_thms)
  have g: "pool ''SELECT * FROM groups WHERE id = $1'' [Str ident] = Some [] \<Longrightarrow>
           getGroupSales rt pool ident q = (\<lparr>status = 404, body = error_body ''Group not found''\<rparr>,
               [(''SELECT * FROM groups WHERE id = $1'', [Str ident])])
         \<and> getGroupSalesSummary rt pool ident q = (\<lparr>status = 404, body = error_body ''Group not found''\<rparr>,
               [(''SELECT * FROM groups WHERE id = $1'', [Str ident])])
         \<and> getGroupPerformance rt pool ident q = (\<lparr>status = 404, body = error_body ''Group not found''\<rparr>,
               [(''SELECT * FROM groups WHERE id = $1'', [Str ident])])"
    using assms
    by (simp only: getGroupSales_def getGroupSalesSummary_def getGroupPerformance_def missing_group if_False simp_thms)
  show ?thesis using u g unfolding error_body_def by blast
qed

text \<open>A store without any row, asked for user 42 and for group 42.\<close>

theorem missing_entity_404_witness:
  "getUserPerformance sample_builtins (answers []) ''42'' no_query =
     (\<lparr>status = 404, body = Obj [(''error'', Str ''User not found'')]\<rparr>,
      [(''SELECT * FROM users WHERE id = $1'', [Str ''42''])])
   \<and> getGroupSales sample_builtins (answers []) ''42'' no_query =
     (\<lparr>status = 404, body = Obj [(''error'', Str ''Group not found'')]\<rparr>,
      [(''SELECT * FROM groups WHERE id = $1'', [Str ''42''])])"
proof -
  have n: "''42'' \<noteq> []" by simp
  have a: "answers [] ''SELECT * FROM users WHERE id = $1'' [Str ''42''] = Some []"
          "answers [] ''SELECT * FROM groups WHERE id = $1'' [Str ''42''] = Some []"
    by (simp_all add: answers_def)
  show ?thesis
    using missing_entity_404 [OF n, of "answers []" sample_builtins no_query] a by blast
qed

section \<open>The sort order of a request\<close>

text \<open>
  A sort order given once or not at all resolves to a string; one given several times
  (an array) or with brackets (an object) has no \<open>toLowerCase\<close> and the call throws.
\<close>

lemma validateSortOrder_string:
  assumes "string_or_absent v"
  shows "\<exists>so. validateSortOrder v d = Inr so"
  using assms by (cases v) (simp_all add: string_or_absent_def validateSortOrder_def)


section \<open>The shape of a listing handler\<close>

lemma bind_io_Inr: "m cs = (Inr x, cs') \<Longrightarrow> bind_io m f cs = f x cs'"
  by (simp add: bind_io_def)

lemma bind_io_Inl: "m cs = (Inl e, cs') \<Longrightarrow> bind_io m f cs = (Inl e, cs')"
  by (simp add: bind_io_def)

lemma lift_io_apply: "lift_io r cs = (r, cs)"
  by (simp add: lift_io_def)

lemma snd_respond: "snd (respond m) = snd (m [])"
  by (simp add: respond_def split: prod.splits sum.splits exn.splits)

lemma snd_respond_500: "snd (respond_500 m) = snd (m [])"
  by (simp add: respond_500_def split: prod.splits sum.splits)

text \<open>
  The end of every listing handler: the listing statement, the count statement, the
  total read from the count and the response built from the two.
\<close>

lemma listing_tail_calls:
  assumes "pool t ps = Some rows"
  shows "snd (bind_io (pool_query pool t ps) (\<lambda>result.
           bind_io (pool_query pool ct cps) (\<lambda>countResult.
           bind_io (count_total countResult) (\<lambda>tr. return_io (F result tr)))) cs)
         = cs @ [(t, ps), (ct, cps)]"
  using assms
  by (simp add: bind_io_def pool_query_def count_total_def throw_io_def return_io_def
      split: option.splits list.splits)

lemma listing_tail_ok:
  assumes "pool t ps = Some rows" and "pool ct cps = Some (c # cr)"
    and "c \<noteq> Undefined" and "c \<noteq> Null"
  shows "bind_io (pool_query pool t ps) (\<lambda>result.
           bind_io (pool_query pool ct cps) (\<lambda>countResult.
           bind_io (count_total countResult) (\<lambda>tr. return_io (F result tr)))) cs
         = (Inr (F rows (parseInt_val (get c ''count''))), cs @ [(t, ps), (ct, cps)])"
  using assms
  by (simp add: bind_io_def pool_query_def count_total_def throw_io_def return_io_def)

lemma validateResourceExists_cases:
  "(\<exists>r. validateResourceExists pool table ident cs =
         (Inr r, cs @ [(''SELECT * FROM '' @ table @ '' WHERE id = $1'', [ident])]))
   \<or> validateResourceExists pool table ident cs =
         (Inl (StatusError 404 (toUpperCase (take 1 table) @ butlast (drop 1 table) @ '' not found'')),
          cs @ [(''SELECT * FROM '' @ table @ '' WHERE id = $1'', [ident])])
   \<or> validateResourceExists pool table ident cs =
         (Inl StoreError, cs @ [(''SELECT * FROM '' @ table @ '' WHERE id = $1'', [ident])])"
  by (simp add: validateResourceExists_def bind_io_def pool_query_def throw_io_def return_io_def
      split: option.splits list.splits)

lemma listing_tail_cases:
  "(\<exists>rows tr. bind_io (pool_query pool t ps) (\<lambda>result.
           bind_io (pool_query pool ct cps) (\<lambda>countResult.
           bind_io (count_total countResult) (\<lambda>tr. return_io (F result tr)))) cs
         = (Inr (F rows tr), cs @ [(t, ps), (ct, cps)]))
   \<or> bind_io (pool_query pool t ps) (\<lambda>result.
           bind_io (pool_query pool ct cps) (\<lambda>countResult.
           bind_io (count_total countResult) (\<lambda>tr. return_io (F result tr)))) cs
         = (Inl TypeError, cs @ [(t, ps), (ct, cps)])
   \<or> bind_io (pool_query pool t ps) (\<lambda>result.
           bind_io (pool_query pool ct cps) (\<lambda>countResult.
           bind_io (count_total countResult) (\<lambda>tr. return_io (F result tr)))) cs
         = (Inl StoreError, cs @ [(t, ps), (ct, cps)])
   \<or> bind_io (pool_query pool t ps) (\<lambda>result.
           bind_io (pool_query pool ct cps) (\<lambda>countResult.
           bind_io (count_total countResult) (\<lambda>tr. return_io (F result tr)))) cs
         = (Inl StoreError, cs @ [(t, ps)])"
  by (auto simp: bind_io_def pool_query_def count_total_def throw_io_def return_io_def
      split: option.splits list.splits)

text \<open>
  A handler of an entity: the existence lookup, the sort order, the listing and the
  count. Whatever the store answers, the statements issued are a prefix of these three,
  and a response 200 carries the body built from the rows and the total.
\<close>

lemma entity_listing_calls:
  "snd (respond (bind_io (validateResourceExists pool table ident) (\<lambda>_.
        bind_io (lift_io v) (\<lambda>so.
        bind_io (pool_query pool (t so) ps) (\<lambda>result.
           bind_io (pool_query pool ct cps) (\<lambda>countResult.
           bind_io (count_total countResult) (\<lambda>tr. return_io (F so result tr)))))))) =
       [(''SELECT * FROM '' @ table @ '' WHERE id = $1'', [ident])]
   \<or> (\<exists>so. v = Inr so \<and>
        (snd (respond (bind_io (validateResourceExists pool table ident) (\<lambda>_.
        bind_io (lift_io v) (\<lambda>so.
        bind_io (pool_query pool (t so) ps) (\<lambda>result.
           bind_io (pool_query pool ct cps) (\<lambda>countResult.
           bind_io (count_total countResult) (\<lambda>tr. return_io (F so result tr)))))))) =
          [(''SELECT * FROM '' @ table @ '' WHERE id = $1'', [ident]), (t so, ps)]
         \<or> snd (respond (bind_io (validateResourceExists pool table ident) (\<lambda>_.
        bind_io (lift_io v) (\<lambda>so.
        bind_io (pool_query pool (t so) ps) (\<lambda>result.
           bind_io (pool_query pool ct cps) (\<lambda>countResult.
           bind_io (count_total countResult) (\<lambda>tr. return_io (F so result tr)))))))) =
          [(''SELECT * FROM '' @ table @ '' WHERE id = $1'', [ident]), (t so, ps), (ct, cps)]))"
proof -
  let ?E = "(''SELECT * FROM '' @ table @ '' WHERE id = $1'', [ident])"
  from validateResourceExists_cases [of pool table ident "[]"]
  consider r where "validateResourceExists pool table ident [] = (Inr r, [?E])"
    | e where "validateResourceExists pool table ident [] = (Inl e, [?E])"
    by auto
  then show ?thesis
  proof cases
    case 1
    show ?thesis
    proof (cases v)
      case (Inl e)
      then show ?thesis using 1
        by (simp add: snd_respond bind_io_Inr [where cs = "[]"] bind_io_def [of "lift_io _"] lift_io_apply)
    next
      case (Inr so)
      from listing_tail_cases [of pool "t so" ps ct cps "F so" "[?E]"]
      show ?thesis using 1 Inr
        by (auto simp: snd_respond bind_io_Inr [where cs = "[]"] bind_io_def [of "lift_io _"] lift_io_apply)
    qed
  next
    case 2
    then show ?thesis
      by (simp add: snd_respond bind_io_Inl [where cs = "[]"])
  qed
qed


text \<open>The sales listing has no entity: the sort order, the listing and the count.\<close>

lemma plain_listing_calls:
  "snd (respond_500 (bind_io (lift_io v) (\<lambda>so.
        bind_io (pool_query pool (t so) ps) (\<lambda>result.
           bind_io (pool_query pool ct cps) (\<lambda>countResult.
           bind_io (count_total countResult) (\<lambda>tr. return_io (F so result tr))))))) = []
   \<or> (\<exists>so. v = Inr so \<and>
        (snd (respond_500 (bind_io (lift_io v) (\<lambda>so.
        bind_io (pool_query pool (t so) ps) (\<lambda>result.
           bind_io (pool_query pool ct cps) (\<lambda>countResult.
           bind_io (count_total countResult) (\<lambda>tr. return_io (F so result tr))))))) =
          [(t so, ps)]
         \<or> snd (respond_500 (bind_io (lift_io v) (\<lambda>so.
        bind_io (pool_query pool (t so) ps) (\<lambda>result.
           bind_io (pool_query pool ct cps) (\<lambda>countResult.
           bind_io (count_total countResult) (\<lambda>tr. return_io (F so result tr))))))) =
          [(t so, ps), (ct, cps)]))"
proof (cases v)
  case (Inl e)
  then show ?thesis
    by (simp add: snd_respond_500 bind_io_def [of "lift_io _"] lift_io_apply)
next
  case (Inr so)
  from listing_tail_cases [of pool "t so" ps ct cps "F so" "[]"]
  show ?thesis using Inr
    by (auto simp: snd_respond_500 bind_io_def [of "lift_io _"] lift_io_apply)
qed


text \<open>The two aggregations issue their three statements together, or none.\<close>

lemma snd_pool_query_all3:
  "snd (bind_io (pool_query_all3 pool c1 c2 c3) f cs) =
     (case fst (pool_query_all3 pool c1 c2 c3 cs) of
        Inl e \<Rightarrow> cs @ [c1, c2, c3]
      | Inr x \<Rightarrow> snd (f x (cs @ [c1, c2, c3])))"
  by (simp add: bind_io_def pool_query_all3_def split: prod.splits sum.splits option.splits)

lemma aggregation_calls:
  "snd (respond_500 (bind_io (lift_io v) (\<lambda>so.
        bind_io (pool_query_all3 pool (c1 so) c2 c3) (\<lambda>(r1, r2, r3). return_io (G so r1 r2 r3))))) =
     (case v of Inl e \<Rightarrow> [] | Inr so \<Rightarrow> [c1 so, c2, c3])"
  by (cases v)
     (simp_all add: snd_respond_500 bind_io_def [of "lift_io _"] lift_io_apply
        snd_pool_query_all3 return_io_def split: sum.splits prod.splits)

section \<open>The listing statement and its count statement\<close>

lemma numbered_from_snoc:
  "numbered_from i (cs @ [c]) = (numbered_from i cs \<and> placeholder_is (i + length cs) c)"
  by (induction cs arbitrary: i) auto

lemma show_nat_no_dollar: "filter (\<lambda>x. x = CHR ''$'') (show_nat k) = []"
proof -
  have "\<forall>x\<in>set (show_nat k). x \<noteq> CHR ''$''"
    using show_nat_all_digits [of _ k] by (auto simp: is_digit_def)
  then show ?thesis by (simp add: filter_empty_conv)
qed

lemma placeholder_is_fragment:
  assumes "CHR ''$'' \<notin> set fragment"
  shows "placeholder_is k (fragment @ ''$'' @ show_nat k)"
proof -
  have "filter (\<lambda>x. x = CHR ''$'') fragment = []"
    using assms by (auto simp: filter_empty_conv)
  then show ?thesis
    by (simp add: placeholder_is_def ends_with_def show_nat_no_dollar)
qed

lemma well_numbered_add_condition:
  assumes "well_numbered b" and "CHR ''$'' \<notin> set fragment"
  shows "well_numbered (add_condition fragment v b)"
  using assms placeholder_is_fragment [OF assms(2), of "paramIndex b"]
  by (simp add: well_numbered_def add_condition_def numbered_from_snoc)

lemma well_numbered_add_if:
  assumes "well_numbered b" and "CHR ''$'' \<notin> set fragment"
  shows "well_numbered (add_if c fragment v b)"
  using well_numbered_add_condition [OF assms] assms(1) by (simp add: add_if_def)

lemma show_nat_1: "show_nat (Suc 0) = ''1''"
  by (simp add: show_nat.simps digit_char_def)

lemma well_numbered_first:
  assumes "CHR ''$'' \<notin> set fragment"
  shows "well_numbered \<lparr>conditions = [fragment @ ''$1''], queryParams = [v], paramIndex = 2\<rparr>"
  using placeholder_is_fragment [OF assms, of 1]
  by (simp add: well_numbered_def show_nat_1)

lemma well_numbered_empty: "well_numbered \<lparr>conditions = [], queryParams = [], paramIndex = 1\<rparr>"
  by (simp add: well_numbered_def)

lemma well_numbered_user_conditions: "well_numbered (user_conditions rt userId q)"
  using well_numbered_first [of "''user_id = ''" "Str userId"]
  by (simp add: user_conditions_def Let_def well_numbered_add_if)

lemma well_numbered_group_conditions: "well_numbered (group_conditions rt groupId q)"
  using well_numbered_first [of "''ug.group_id = ''" "Str groupId"]
  by (simp add: group_conditions_def Let_def well_numbered_add_if)

lemma well_numbered_groupSales_conditions: "well_numbered (groupSales_conditions rt groupId q)"
  by (simp add: groupSales_conditions_def well_numbered_add_if well_numbered_group_conditions)

lemma well_numbered_groupUsers_conditions: "well_numbered (groupUsers_conditions groupId q)"
  using well_numbered_first [of "''ug.group_id = ''" "Str groupId"]
  by (simp add: groupUsers_conditions_def Let_def well_numbered_add_if)

lemma well_numbered_listSales_conditions: "well_numbered (listSales_conditions rt q)"
  unfolding listSales_conditions_def Let_def
  by (intro well_numbered_add_if well_numbered_empty) simp_all

lemma count_params_well_numbered:
  assumes "well_numbered b"
  shows "count_params b pg = queryParams b"
  using assms by (simp add: well_numbered_def count_params_def listing_params_def)

lemma validateResourceExists_found:
  assumes "pool (''SELECT * FROM '' @ table @ '' WHERE id = $1'') [ident] = Some (r # rs)"
  shows "validateResourceExists pool table ident cs =
           (Inr r, cs @ [(''SELECT * FROM '' @ table @ '' WHERE id = $1'', [ident])])"
  using assms by (simp add: validateResourceExists_def bind_io_def pool_query_def return_io_def)

lemma getUserSales_calls:
  assumes "ident \<noteq> []"
    and "pool ''SELECT * FROM users WHERE id = $1'' [Str ident] = Some (u # us)"
    and "validateSortOrder (q_sortOrder q) ''desc'' = Inr so"
    and "pool (userSales_query (user_conditions rt ident q)
                 (validateSortColumn (q_sortBy q) [''date'', ''amount''] ''date'') so)
              (listing_params (user_conditions rt ident q) (getPaginationParams (q_page q) (q_limit q))) = Some rows"
  shows "snd (getUserSales rt pool ident q) =
     [(''SELECT * FROM users WHERE id = $1'', [Str ident]),
      (userSales_query (user_conditions rt ident q)
                 (validateSortColumn (q_sortBy q) [''date'', ''amount''] ''date'') so,
       listing_params (user_conditions rt ident q) (getPaginationParams (q_page q) (q_limit q))),
      (userSales_countQuery (user_conditions rt ident q),
       count_params (user_conditions rt ident q) (getPaginationParams (q_page q) (q_limit q)))]"
proof -
  have v: "validateResourceExists pool ''users'' (Str ident) [] =
             (Inr u, [(''SELECT * FROM users WHERE id = $1'', [Str ident])])"
    using validateResourceExists_found [of pool "''users''" "Str ident" u us "[]"] assms(2) by simp
  show ?thesis
    using assms(1) assms(3) assms(4) v
    by (simp add: getUserSales_def Let_def snd_respond bind_io_Inr [where cs = "[]"] bind_io_def [of "lift_io _"]
        lift_io_apply listing_tail_calls)
qed

lemma getUserSales_ok:
  assumes "ident \<noteq> []"
    and "pool ''SELECT * FROM users WHERE id = $1'' [Str ident] = Some (u # us)"
    and "validateSortOrder (q_sortOrder q) ''desc'' = Inr so"
    and "pool (userSales_query (user_conditions rt ident q)
                 (validateSortColumn (q_sortBy q) [''date'', ''amount''] ''date'') so)
              (listing_params (user_conditions rt ident q) (getPaginationParams (q_page q) (q_limit q))) = Some rows"
    and "pool (userSales_countQuery (user_conditions rt ident q))
              (count_params (user_conditions rt ident q) (getPaginationParams (q_page q) (q_limit q))) = Some (c # cr)"
    and "c \<noteq> Undefined"
    and "c \<noteq> Null"
  shows "fst (getUserSales rt pool ident q) =
     \<lparr>status = 200,
      body = formatPaginatedResponse rows (getPaginationParams (q_page q) (q_limit q))
               (parseInt_val (get c ''count''))
               (''/api/metrics/users/'' @ ident @ ''/sales'')
               [(''filters'', Obj [(''startDate'', parseDate rt (q_startDate q) Null),
                                   (''endDate'', parseDate rt (q_endDate q) Null)])]\<rparr>"
proof -
  have v: "validateResourceExists pool ''users'' (Str ident) [] =
             (Inr u, [(''SELECT * FROM users WHERE id = $1'', [Str ident])])"
    using validateResourceExists_found [of pool "''users''" "Str ident" u us "[]"] assms(2) by simp
  show ?thesis
    using assms(1) assms(3) assms(4) assms(5) assms(6) assms(7) v
    by (simp add: getUserSales_def Let_def respond_def bind_io_Inr [where cs = "[]"] bind_io_def [of "lift_io _"]
        lift_io_apply listing_tail_ok)
qed

lemma getGroupSales_calls:
  assumes "ident \<noteq> []"
    and "pool ''SELECT * FROM groups WHERE id = $1'' [Str ident] = Some (u # us)"
    and "validateSortOrder (q_sortOrder q) ''desc'' = Inr so"
    and "pool (groupSales_query (groupSales_conditions rt ident q)
                 (validateSortColumn (q_sortBy q) [''date'', ''amount'', ''user_id''] ''date'') so)
              (listing_params (groupSales_conditions rt ident q) (getPaginationParams (q_page q) (q_limit q))) = Some rows"
  shows "snd (getGroupSales rt pool ident q) =
     [(''SELECT * FROM groups WHERE id = $1'', [Str ident]),
      (groupSales_query (groupSales_conditions rt ident q)
                 (validateSortColumn (q_sortBy q) [''date'', ''amount'', ''user_id''] ''date'') so,
       listing_params (groupSales_conditions rt ident q) (getPaginationParams (q_page q) (q_limit q))),
      (groupSales_countQuery (groupSales_conditions rt ident q),
       count_params (groupSales_conditions rt ident q) (getPaginationParams (q_page q) (q_limit q)))]"
proof -
  have v: "validateResourceExists pool ''groups'' (Str ident) [] =
             (Inr u, [(''SELECT * FROM groups WHERE id = $1'', [Str ident])])"
    using validateResourceExists_found [of pool "''groups''" "Str ident" u us "[]"] assms(2) by simp
  show ?thesis
    using assms(1) assms(3) assms(4) v
    by (simp add: getGroupSales_def Let_def snd_respond bind_io_Inr [where cs = "[]"] bind_io_def [of "lift_io _"]
        lift_io_apply listing_tail_calls)
qed

lemma getGroupUsers_calls:
  assumes "ident \<noteq> []"
    and "pool ''SELECT * FROM groups WHERE id = $1'' [Str ident] = Some (u # us)"
    and "validateSortOrder (q_sortOrder q) ''asc'' = Inr so"
    and "pool (groupUsers_query (groupUsers_conditions ident q)
                 (validateSortColumn (q_sortBy q) [''name'', ''role''] ''name'') so)
              (listing_params (groupUsers_conditions ident q) (getPaginationParams (q_page q) (q_limit q))) = Some rows"
  shows "snd (getGroupUsers pool ident q) =
     [(''SELECT * FROM groups WHERE id = $1'', [Str ident]),
      (groupUsers_query (groupUsers_conditions ident q)
                 (validateSortColumn (q_sortBy q) [''name'', ''role''] ''name'') so,
       listing_params (groupUsers_conditions ident q) (getPaginationParams (q_page q) (q_limit q))),
      (groupUsers_countQuery (groupUsers_conditions ident q),
       count_params (groupUsers_conditions ident q) (getPaginationParams (q_page q) (q_limit q)))]"
proof -
  have v: "validateResourceExists pool ''groups'' (Str ident) [] =
             (Inr u, [(''SELECT * FROM groups WHERE id = $1'', [Str ident])])"
    using validateResourceExists_found [of pool "''groups''" "Str ident" u us "[]"] assms(2) by simp
  show ?thesis
    using assms(1) assms(3) assms(4) v
    by (simp add: getGroupUsers_def Let_def snd_respond bind_io_Inr [where cs = "[]"] bind_io_def [of "lift_io _"]
        lift_io_apply listing_tail_calls)
qed

lemma listSales_calls:
  assumes "validateSortOrder (q_sortOrder q) ''desc'' = Inr so"
    and "pool (listSales_query (listSales_conditions rt q) (q_groupId q)
                 (validateSortColumn (q_sortBy q) [''date'', ''amount'', ''user_id''] ''date'') so)
              (listing_params (listSales_conditions rt q) (getPaginationParams (q_page q) (q_limit q))) = Some rows"
  shows "snd (listSales rt pool q) =
     [(listSales_query (listSales_conditions rt q) (q_groupId q)
                 (validateSortColumn (q_sortBy q) [''date'', ''amount'', ''user_id''] ''date'') so,
       listing_params (listSales_conditions rt q) (getPaginationParams (q_page q) (q_limit q))),
      (listSales_countQuery (listSales_conditions rt q) (q_groupId q),
       count_params (listSales_conditions rt q) (getPaginationParams (q_page q) (q_limit q)))]"
proof -
  show ?thesis
    using assms(1) assms(2) 
    by (simp add: listSales_def Let_def snd_respond_500 bind_io_Inr [where cs = "[]"] bind_io_def [of "lift_io _"]
        lift_io_apply listing_tail_calls)
qed

lemma well_numbered_listing:
  assumes "well_numbered b"
  shows "count_params b pg = queryParams b
       \<and> listing_params b pg = count_params b pg @ [num (limit pg), num (offset pg)]
       \<and> length (conditions b) = length (count_params b pg)
       \<and> numbered_from 1 (conditions b)
       \<and> limit_offset (paramIndex b) =
           '' LIMIT $'' @ show_nat (length (count_params b pg) + 1) @
           '' OFFSET $'' @ show_nat (length (count_params b pg) + 2)"
  using assms count_params_well_numbered [OF assms, of pg]
  by (simp add: well_numbered_def listing_params_def limit_offset_def)

text \<open>
  C1. For every combination of optional filters, in each listing handler (sales of a
  user, sales of a group, users of a group, all sales): the values passed with the count
  statement are exactly the filter values of the builder, the values of the listing
  statement are these followed by the limit and the offset, there is one condition for
  each of them, the conditions carry the placeholders \<open>$1\<close>, \<open>$2\<close>, ... in order, and the
  two pagination placeholders of the listing are the next two numbers. In each of the
  four handlers, once the sort order is resolved and the listing statement is answered,
  the statements issued after the existence lookup are the listing, on the conditions
  text of this builder with the filter values followed by the limit and the offset, and
  the count, on the same conditions text with the filter values only.
\<close>

theorem count_params_are_filter_params:
  assumes "b = user_conditions rt ident q \<or> b = groupSales_conditions rt ident q
         \<or> b = groupUsers_conditions ident q \<or> b = listSales_conditions rt q"
  shows "count_params b pg = queryParams b
       \<and> listing_params b pg = count_params b pg @ [num (limit pg), num (offset pg)]
       \<and> length (conditions b) = length (count_params b pg)
       \<and> numbered_from 1 (conditions b)
       \<and> limit_offset (paramIndex b) =
           '' LIMIT $'' @ show_nat (length (count_params b pg) + 1) @
           '' OFFSET $'' @ show_nat (length (count_params b pg) + 2)
       \<and> (b = user_conditions rt ident q \<longrightarrow>
            ident \<noteq> [] \<longrightarrow>
            pool ''SELECT * FROM users WHERE id = $1'' [Str ident] = Some (u # us) \<longrightarrow>
            validateSortOrder (q_sortOrder q) ''desc'' = Inr so \<longrightarrow>
            pool (userSales_query b (validateSortColumn (q_sortBy q) [''date'', ''amount''] ''date'') so)
                 (queryParams b @ [num (limit (getPaginationParams (q_page q) (q_limit q))),
                                   num (offset (getPaginationParams (q_page q) (q_limit q)))]) = Some rows \<longrightarrow>
            snd (getUserSales rt pool ident q) =
              [(''SELECT * FROM users WHERE id = $1'', [Str ident]),
               (''SELECT id, amount, date FROM sales WHERE '' @ join '' AND '' (conditions b) @
                '' ORDER BY '' @ validateSortColumn (q_sortBy q) [''date'', ''amount''] ''date'' @
                '' '' @ so @ limit_offset (paramIndex b),
                queryParams b @ [num (limit (getPaginationParams (q_page q) (q_limit q))),
                                   num (offset (getPaginationParams (q_page q) (q_limit q)))]),
               (''SELECT COUNT(*) FROM sales WHERE '' @ join '' AND '' (conditions b),
                queryParams b)])
       \<and> (b = groupSales_conditions rt ident q \<longrightarrow>
            ident \<noteq> [] \<longrightarrow>
            pool ''SELECT * FROM groups WHERE id = $1'' [Str ident] = Some (u # us) \<longrightarrow>
            validateSortOrder (q_sortOrder q) ''desc'' = Inr so \<longrightarrow>
            pool (groupSales_query b (validateSortColumn (q_sortBy q) [''date'', ''amount'', ''user_id''] ''date'') so)
                 (queryParams b @ [num (limit (getPaginationParams (q_page q) (q_limit q))),
                                   num (offset (getPaginationParams (q_page q) (q_limit q)))]) = Some rows \<longrightarrow>
            snd (getGroupSales rt pool ident q) =
              [(''SELECT * FROM groups WHERE id = $1'', [Str ident]),
               (''SELECT s.id, s.user_id, u.name as user_name, s.amount, s.date FROM sales s '' @
                ''JOIN user_groups ug ON s.user_id = ug.user_id JOIN users u ON s.user_id = u.id '' @
                ''WHERE '' @ join '' AND '' (conditions b) @
                '' ORDER BY s.'' @ validateSortColumn (q_sortBy q) [''date'', ''amount'', ''user_id''] ''date'' @
                '' '' @ so @ limit_offset (paramIndex b),
                queryParams b @ [num (limit (getPaginationParams (q_page q) (q_limit q))),
                                   num (offset (getPaginationParams (q_page q) (q_limit q)))]),
               (''SELECT COUNT(*) FROM sales s JOIN user_groups ug ON s.user_id = ug.user_id '' @
                ''WHERE '' @ join '' AND '' (conditions b),
                queryParams b)])
       \<and> (b = groupUsers_conditions ident q \<longrightarrow>
            ident \<noteq> [] \<longrightarrow>
            pool ''SELECT * FROM groups WHERE id = $1'' [Str ident] = Some (u # us) \<longrightarrow>
            validateSortOrder (q_sortOrder q) ''asc'' = Inr so \<longrightarrow>
            pool (groupUsers_query b (validateSortColumn (q_sortBy q) [''name'', ''role''] ''name'') so)
                 (queryParams b @ [num (limit (getPaginationParams (q_page q) (q_limit q))),
                                   num (offset (getPaginationParams (q_page q) (q_limit q)))]) = Some rows \<longrightarrow>
            snd (getGroupUsers pool ident q) =
              [(''SELECT * FROM groups WHERE id = $1'', [Str ident]),
               (''SELECT u.id, u.name, u.role FROM users u JOIN user_groups ug ON u.id = '' @
                ''ug.user_id WHERE '' @ join '' AND '' (conditions b) @
                '' ORDER BY u.'' @ validateSortColumn (q_sortBy q) [''name'', ''role''] ''name'' @
                '' '' @ so @ limit_offset (paramIndex b),
                queryParams b @ [num (limit (getPaginationParams (q_page q) (q_limit q))),
                                   num (offset (getPaginationParams (q_page q) (q_limit q)))]),
               (''SELECT COUNT(*) FROM users u JOIN user_groups ug ON u.id = ug.user_id WHERE '' @
                join '' AND '' (conditions b),
                queryParams b)])
       \<and> (b = listSales_conditions rt q \<longrightarrow>
            validateSortOrder (q_sortOrder q) ''desc'' = Inr so \<longrightarrow>
            pool (listSales_query b (q_groupId q) (validateSortColumn (q_sortBy q) [''date'', ''amount'', ''user_id''] ''date'') so)
                 (queryParams b @ [num (limit (getPaginationParams (q_page q) (q_limit q))),
                                   num (offset (getPaginationParams (q_page q) (q_limit q)))]) = Some rows \<longrightarrow>
            snd (listSales rt pool q) =
              [(''SELECT s.id, s.user_id, u.name as user_name, s.amount, s.date FROM sales s '' @
                ''JOIN users u ON s.user_id = u.id'' @
                (if truthy (q_groupId q) then '' JOIN user_groups ug ON s.user_id = ug.user_id'' else []) @
                buildWhereClause (conditions b) @
                '' ORDER BY s.'' @ validateSortColumn (q_sortBy q) [''date'', ''amount'', ''user_id''] ''date'' @
                '' '' @ so @ limit_offset (paramIndex b),
                queryParams b @ [num (limit (getPaginationParams (q_page q) (q_limit q))),
                                   num (offset (getPaginationParams (q_page q) (q_limit q)))]),
               (''SELECT COUNT(*) FROM sales s'' @
                (if truthy (q_groupId q) then '' JOIN user_groups ug ON s.user_id = ug.user_id'' else []) @
                buildWhereClause (conditions b),
                queryParams b)])"
proof -
  have wn: "well_numbered b"
    using assms well_numbered_user_conditions well_numbered_groupSales_conditions
      well_numbered_groupUsers_conditions well_numbered_listSales_conditions by auto
  note basic = well_numbered_listing [OF wn, of pg]
  have cp: "\<And>pg'. count_params b pg' = queryParams b"
    using count_params_well_numbered [OF wn] .
  have h_getUserSales: "snd (getUserSales rt pool ident q) =
              [(''SELECT * FROM users WHERE id = $1'', [Str ident]),
               (''SELECT id, amount, date FROM sales WHERE '' @ join '' AND '' (conditions b) @
                '' ORDER BY '' @ validateSortColumn (q_sortBy q) [''date'', ''amount''] ''date'' @
                '' '' @ so @ limit_offset (paramIndex b),
                queryParams b @ [num (limit (getPaginationParams (q_page q) (q_limit q))),
                                   num (offset (getPaginationParams (q_page q) (q_limit q)))]),
               (''SELECT COUNT(*) FROM sales WHERE '' @ join '' AND '' (conditions b),
                queryParams b)]"
    if "b = user_conditions rt ident q" "ident \<noteq> []" "pool ''SELECT * FROM users WHERE id = $1'' [Str ident] = Some (u # us)" "validateSortOrder (q_sortOrder q) ''desc'' = Inr so" "pool (userSales_query b (validateSortColumn (q_sortBy q) [''date'', ''amount''] ''date'') so)
                 (queryParams b @ [num (limit (getPaginationParams (q_page q) (q_limit q))),
                                   num (offset (getPaginationParams (q_page q) (q_limit q)))]) = Some rows"
    using getUserSales_calls [of ident pool u us q so rt rows] that cp
    by (simp add: listing_params_def userSales_query_def userSales_countQuery_def)
  have h_getGroupSales: "snd (getGroupSales rt pool ident q) =
              [(''SELECT * FROM groups WHERE id = $1'', [Str ident]),
               (''SELECT s.id, s.user_id, u.name as user_name, s.amount, s.date FROM sales s '' @
                ''JOIN user_groups ug ON s.user_id = ug.user_id JOIN users u ON s.user_id = u.id '' @
                ''WHERE '' @ join '' AND '' (conditions b) @
                '' ORDER BY s.'' @ validateSortColumn (q_sortBy q) [''date'', ''amount'', ''user_id''] ''date'' @
                '' '' @ so @ limit_offset (paramIndex b),
                queryParams b @ [num (limit (getPaginationParams (q_page q) (q_limit q))),
                                   num (offset (getPaginationParams (q_page q) (q_limit q)))]),
               (''SELECT COUNT(*) FROM sales s JOIN user_groups ug ON s.user_id = ug.user_id '' @
                ''WHERE '' @ join '' AND '' (conditions b),
                queryParams b)]"
    if "b = groupSales_conditions rt ident q" "ident \<noteq> []" "pool ''SELECT * FROM groups WHERE id = $1'' [Str ident] = Some (u # us)" "validateSortOrder (q_sortOrder q) ''desc'' = Inr so" "pool (groupSales_query b (validateSortColumn (q_sortBy q) [''date'', ''amount'', ''user_id''] ''date'') so)
                 (queryParams b @ [num (limit (getPaginationParams (q_page q) (q_limit q))),
                                   num (offset (getPaginationParams (q_page q) (q_limit q)))]) = Some rows"
    using getGroupSales_calls [of ident pool u us q so rt rows] that cp
    by (simp add: listing_params_def groupSales_query_def groupSales_countQuery_def)
  have h_getGroupUsers: "snd (getGroupUsers pool ident q) =
              [(''SELECT * FROM groups WHERE id = $1'', [Str ident]),
               (''SELECT u.id, u.name, u.role FROM users u JOIN user_groups ug ON u.id = '' @
                ''ug.user_id WHERE '' @ join '' AND '' (conditions b) @
                '' ORDER BY u.'' @ validateSortColumn (q_sortBy q) [''name'', ''role''] ''name'' @
                '' '' @ so @ limit_offset (paramIndex b),
                queryParams b @ [num (limit (getPaginationParams (q_page q) (q_limit q))),
                                   num (offset (getPaginationParams (q_page q) (q_limit q)))]),
               (''SELECT COUNT(*) FROM users u JOIN user_groups ug ON u.id = ug.user_id WHERE '' @
                join '' AND '' (conditions b),
                queryParams b)]"
    if "b = groupUsers_conditions ident q" "ident \<noteq> []" "pool ''SELECT * FROM groups WHERE id = $1'' [Str ident] = Some (u # us)" "validateSortOrder (q_sortOrder q) ''asc'' = Inr so" "pool (groupUsers_query b (validateSortColumn (q_sortBy q) [''name'', ''role''] ''name'') so)
                 (queryParams b @ [num (limit (getPaginationParams (q_page q) (q_limit q))),
                                   num (offset (getPaginationParams (q_page q) (q_limit q)))]) = Some rows"
    using getGroupUsers_calls [of ident pool u us q so rows] that cp
    by (simp add: listing_params_def groupUsers_query_def groupUsers_countQuery_def)
  have h_listSales: "snd (listSales rt pool q) =
              [(''SELECT s.id, s.user_id, u.name as user_name, s.amount, s.date FROM sales s '' @
                ''JOIN users u ON s.user_id = u.id'' @
                (if truthy (q_groupId q) then '' JOIN user_groups ug ON s.user_id = ug.user_id'' else []) @
                buildWhereClause (conditions b) @
                '' ORDER BY s.'' @ validateSortColumn (q_sortBy q) [''date'', ''amount'', ''user_id''] ''date'' @
                '' '' @ so @ limit_offset (paramIndex b),
                queryParams b @ [num (limit (getPaginationParams (q_page q) (q_limit q))),
                                   num (offset (getPaginationParams (q_page q) (q_limit q)))]),
               (''SELECT COUNT(*) FROM sales s'' @
                (if truthy (q_groupId q) then '' JOIN user_groups ug ON s.user_id = ug.user_id'' else []) @
                buildWhereClause (conditions b),
                queryParams b)]"
    if "b = listSales_conditions rt q" "validateSortOrder (q_sortOrder q) ''desc'' = Inr so" "pool (listSales_query b (q_groupId q) (validateSortColumn (q_sortBy q) [''date'', ''amount'', ''user_id''] ''date'') so)
                 (queryParams b @ [num (limit (getPaginationParams (q_page q) (q_limit q))),
                                   num (offset (getPaginationParams (q_page q) (q_limit q)))]) = Some rows"
    using listSales_calls [of q so pool rt rows] that cp
    by (simp add: listing_params_def listSales_query_def listSales_countQuery_def listSales_order_def buildWhereClause_def)
  show ?thesis using basic h_getUserSales h_getGroupSales h_getGroupUsers h_listSales by blast
qed

text \<open>The sales of user 42 from 2021-02-01 on.\<close>

theorem count_params_are_filter_params_witness:
  "count_params (user_conditions sample_builtins ''42'' (no_query\<lparr>q_startDate := One ''2021-02-01''\<rparr>))
      (getPaginationParams (One ''2'') (One ''10''))
     = [Str ''42'', Str ''2021-02-01'']
   \<and> listing_params (user_conditions sample_builtins ''42'' (no_query\<lparr>q_startDate := One ''2021-02-01''\<rparr>))
      (getPaginationParams (One ''2'') (One ''10''))
     = [Str ''42'', Str ''2021-02-01'', num 10, num 10]
   \<and> snd (getUserSales sample_builtins user_store ''42'' (no_query\<lparr>q_startDate := One ''2021-02-01''\<rparr>)) =
       [(''SELECT * FROM users WHERE id = $1'', [Str ''42'']),
        (''SELECT id, amount, date FROM sales WHERE user_id = $1 AND date >= $2 ORDER BY date desc LIMIT $3 OFFSET $4'',
         [Str ''42'', Str ''2021-02-01'', num 100, num 0]),
        (''SELECT COUNT(*) FROM sales WHERE user_id = $1 AND date >= $2'',
         [Str ''42'', Str ''2021-02-01''])]"
proof -
  let ?q = "no_query\<lparr>q_startDate := One ''2021-02-01''\<rparr>"
  let ?b = "user_conditions sample_builtins ''42'' ?q"
  let ?pg = "getPaginationParams (One ''2'') (One ''10'')"
  have h1: "''42'' \<noteq> []" by simp
  have h2: "user_store ''SELECT * FROM users WHERE id = $1'' [Str ''42''] = Some (Obj [(''id'', num 42), (''name'', Str ''Ann'')] # [])"
    by code_simp
  have h3: "validateSortOrder (q_sortOrder ?q) ''desc'' = Inr ''desc''"
    by code_simp
  have h4: "user_store
      (userSales_query ?b (validateSortColumn (q_sortBy ?q) [''date'', ''amount''] ''date'') ''desc'')
      (queryParams ?b @ [num (limit (getPaginationParams (q_page ?q) (q_limit ?q))),
                         num (offset (getPaginationParams (q_page ?q) (q_limit ?q)))]) = Some []"
    by code_simp
  have d: "?b = user_conditions sample_builtins ''42'' ?q \<or> ?b = groupSales_conditions sample_builtins ''42'' ?q
         \<or> ?b = groupUsers_conditions ''42'' ?q \<or> ?b = listSales_conditions sample_builtins ?q"
    by (rule disjI1) (rule refl)
  note T = count_params_are_filter_params [OF d, of ?pg user_store "Obj [(''id'', num 42), (''name'', Str ''Ann'')]" "[]" "''desc''" "[]"]
  have c1: "count_params ?b ?pg = queryParams ?b"
    using T by (rule conjunct1)
  have c2: "listing_params ?b ?pg = count_params ?b ?pg @ [num (limit ?pg), num (offset ?pg)]"
    using T [THEN conjunct2] by (rule conjunct1)
  note c6 = T [THEN conjunct2, THEN conjunct2, THEN conjunct2, THEN conjunct2, THEN conjunct2,
               THEN conjunct1, rule_format, OF refl h1 h2 h3 h4]
  have v1: "queryParams ?b = [Str ''42'', Str ''2021-02-01'']"
    by code_simp
  have v2: "[num (limit ?pg), num (offset ?pg)] = [num 10, num 10]"
    by code_simp
  have v3: "[(''SELECT * FROM users WHERE id = $1'', [Str ''42'']),
               (''SELECT id, amount, date FROM sales WHERE '' @ join '' AND '' (conditions ?b) @
                '' ORDER BY '' @ validateSortColumn (q_sortBy ?q) [''date'', ''amount''] ''date'' @
                '' '' @ ''desc'' @ limit_offset (paramIndex ?b),
                queryParams ?b @ [num (limit (getPaginationParams (q_page ?q) (q_limit ?q))),
                                 num (offset (getPaginationParams (q_page ?q) (q_limit ?q)))]),
               (''SELECT COUNT(*) FROM sales WHERE '' @ join '' AND '' (conditions ?b),
                queryParams ?b)] =
       [(''SELECT * FROM users WHERE id = $1'', [Str ''42'']),
        (''SELECT id, amount, date FROM sales WHERE user_id = $1 AND date >= $2 ORDER BY date desc LIMIT $3 OFFSET $4'',
         [Str ''42'', Str ''2021-02-01'', num 100, num 0]),
        (''SELECT COUNT(*) FROM sales WHERE user_id = $1 AND date >= $2'',
         [Str ''42'', Str ''2021-02-01''])]"
    by code_simp
  have g1: "count_params ?b ?pg = [Str ''42'', Str ''2021-02-01'']"
    using c1 v1 by (rule trans)
  have g2: "listing_params ?b ?pg = [Str ''42'', Str ''2021-02-01'', num 10, num 10]"
    unfolding c2 g1 v2 by (simp only: append.simps)
  have g3: "snd (getUserSales sample_builtins user_store ''42'' ?q) =
       [(''SELECT * FROM users WHERE id = $1'', [Str ''42'']),
        (''SELECT id, amount, date FROM sales WHERE user_id = $1 AND date >= $2 ORDER BY date desc LIMIT $3 OFFSET $4'',
         [Str ''42'', Str ''2021-02-01'', num 100, num 0]),
        (''SELECT COUNT(*) FROM sales WHERE user_id = $1 AND date >= $2'',
         [Str ''42'', Str ''2021-02-01''])]"
    using c6 v3 by (rule trans)
  show ?thesis using g1 g2 g3 by (intro conjI)
qed

section \<open>The statements and the responses of the listing handlers\<close>

lemma getUserSales_calls_cases:
  "snd (getUserSales rt pool ident q) = []
   \<or> snd (getUserSales rt pool ident q) = [(''SELECT * FROM users WHERE id = $1'', [Str ident])]
   \<or> (\<exists>so. validateSortOrder (q_sortOrder q) ''desc'' = Inr so \<and>
        (snd (getUserSales rt pool ident q) =
          [(''SELECT * FROM users WHERE id = $1'', [Str ident]),
           (userSales_query (user_conditions rt ident q)
              (validateSortColumn (q_sortBy q) [''date'', ''amount''] ''date'') so,
            listing_params (user_conditions rt ident q) (getPaginationParams (q_page q) (q_limit q)))]
         \<or> snd (getUserSales rt pool ident q) =
          [(''SELECT * FROM users WHERE id = $1'', [Str ident]),
           (userSales_query (user_conditions rt ident q)
              (validateSortColumn (q_sortBy q) [''date'', ''amount''] ''date'') so,
            listing_params (user_conditions rt ident q) (getPaginationParams (q_page q) (q_limit q))),
           (userSales_countQuery (user_conditions rt ident q),
            count_params (user_conditions rt ident q) (getPaginationParams (q_page q) (q_limit q)))]))"
proof (cases "ident = []")
  case True
  then show ?thesis by (simp add: getUserSales_def)
next
  case False
  show ?thesis
    unfolding getUserSales_def Let_def if_not_P [OF False]
    using entity_listing_calls [of pool "''users''" "Str ident" "validateSortOrder (q_sortOrder q) ''desc''"]
    by simp
qed


lemma getGroupSales_calls_cases:
  "snd (getGroupSales rt pool ident q) = []
   \<or> snd (getGroupSales rt pool ident q) = [(''SELECT * FROM groups WHERE id = $1'', [Str ident])]
   \<or> (\<exists>so. validateSortOrder (q_sortOrder q) ''desc'' = Inr so \<and>
        (snd (getGroupSales rt pool ident q) =
          [(''SELECT * FROM groups WHERE id = $1'', [Str ident]),
           (groupSales_query (groupSales_conditions rt ident q)
              (validateSortColumn (q_sortBy q) [''date'', ''amount'', ''user_id''] ''date'') so,
            listing_params (groupSales_conditions rt ident q) (getPaginationParams (q_page q) (q_limit q)))]
         \<or> snd (getGroupSales rt pool ident q) =
          [(''SELECT * FROM groups WHERE id = $1'', [Str ident]),
           (groupSales_query (groupSales_conditions rt ident q)
              (validateSortColumn (q_sortBy q) [''date'', ''amount'', ''user_id''] ''date'') so,
            listing_params (groupSales_conditions rt ident q) (getPaginationParams (q_page q) (q_limit q))),
           (groupSales_countQuery (groupSales_conditions rt ident q),
            count_params (groupSales_conditions rt ident q) (getPaginationParams (q_page q) (q_limit q)))]))"
proof (cases "ident = []")
  case True
  then show ?thesis by (simp add: getGroupSales_def)
next
  case False
  show ?thesis
    unfolding getGroupSales_def Let_def if_not_P [OF False]
    using entity_listing_calls [of pool "''groups''" "Str ident" "validateSortOrder (q_sortOrder q) ''desc''"]
    by simp
qed


lemma getGroupUsers_calls_cases:
  "snd (getGroupUsers pool ident q) = []
   \<or> snd (getGroupUsers pool ident q) = [(''SELECT * FROM groups WHERE id = $1'', [Str ident])]
   \<or> (\<exists>so. validateSortOrder (q_sortOrder q) ''asc'' = Inr so \<and>
        (snd (getGroupUsers pool ident q) =
          [(''SELECT * FROM groups WHERE id = $1'', [Str ident]),
           (groupUsers_query (groupUsers_conditions ident q)
              (validateSortColumn (q_sortBy q) [''name'', ''role''] ''name'') so,
            listing_params (groupUsers_conditions ident q) (getPaginationParams (q_page q) (q_limit q)))]
         \<or> snd (getGroupUsers pool ident q) =
          [(''SELECT * FROM groups WHERE id = $1'', [Str ident]),
           (groupUsers_query (groupUsers_conditions ident q)
              (validateSortColumn (q_sortBy q) [''name'', ''role''] ''name'') so,
            listing_params (groupUsers_conditions ident q) (getPaginationParams (q_page q) (q_limit q))),
           (groupUsers_countQuery (groupUsers_conditions ident q),
            count_params (groupUsers_conditions ident q) (getPaginationParams (q_page q) (q_limit q)))]))"
proof (cases "ident = []")
  case True
  then show ?thesis by (simp add: getGroupUsers_def)
next
  case False
  show ?thesis
    unfolding getGroupUsers_def Let_def if_not_P [OF False]
    using entity_listing_calls [of pool "''groups''" "Str ident" "validateSortOrder (q_sortOrder q) ''asc''"]
    by simp
qed


lemma listSales_calls_cases:
  "snd (listSales rt pool q) = []
   \<or> (\<exists>so. validateSortOrder (q_sortOrder q) ''desc'' = Inr so \<and>
        (snd (listSales rt pool q) =
          [(listSales_query (listSales_conditions rt q) (q_groupId q)
              (validateSortColumn (q_sortBy q) [''date'', ''amount'', ''user_id''] ''date'') so,
            listing_params (listSales_conditions rt q) (getPaginationParams (q_page q) (q_limit q)))]
         \<or> snd (listSales rt pool q) =
          [(listSales_query (listSales_conditions rt q) (q_groupId q)
              (validateSortColumn (q_sortBy q) [''date'', ''amount'', ''user_id''] ''date'') so,
            listing_params (listSales_conditions rt q) (getPaginationParams (q_page q) (q_limit q))),
           (listSales_countQuery (listSales_conditions rt q) (q_groupId q),
            count_params (listSales_conditions rt q) (getPaginationParams (q_page q) (q_limit q)))]))"
  unfolding listSales_def Let_def
  using plain_listing_calls [of "validateSortOrder (q_sortOrder q) ''desc''"]
  by simp


lemma getAllUsersPerformance_all_calls:
  "snd (getAllUsersPerformance rt pool q) =
     (case validateSortOrder (q_sortOrder q) ''desc'' of
        Inl e \<Rightarrow> []
      | Inr so \<Rightarrow>
          [(allUsers_topPerformersQuery
              (allUsers_conditions (parseDate rt (q_startDate q) (Str ''2021-01-01''))
                 (parseDate rt (q_endDate q) (Str ''2021-12-31'')) (q_role q) (q_groupId q))
              (q_groupId q)
              (validateSortColumn (q_sortBy q)
                 [''total_revenue'', ''average_revenue'', ''sales_count'', ''name''] ''total_revenue'') so,
            queryParams
              (allUsers_conditions (parseDate rt (q_startDate q) (Str ''2021-01-01''))
                 (parseDate rt (q_endDate q) (Str ''2021-12-31'')) (q_role q) (q_groupId q)) @
            [if truthy (q_limit q) then num_or_nan (parseInt_q (q_limit q)) else num 10]),
           (allUsers_trendsQuery (q_role q) (q_groupId q),
            allUsers_trendsParams (validateInterval (q_interval q) ''month'')
              (parseDate rt (q_startDate q) (Str ''2021-01-01''))
              (parseDate rt (q_endDate q) (Str ''2021-12-31'')) (q_role q) (q_groupId q)),
           (allUsers_roleBreakdownQuery (q_groupId q),
            [parseDate rt (q_startDate q) (Str ''2021-01-01''),
             parseDate rt (q_endDate q) (Str ''2021-12-31'')] @
            (if truthy (q_groupId q) then [qv (q_groupId q)] else []))])"
  unfolding getAllUsersPerformance_def Let_def
  by (rule aggregation_calls)

lemma getAllGroupsPerformance_all_calls:
  "snd (getAllGroupsPerformance rt pool q) =
     (case validateSortOrder (q_sortOrder q) ''desc'' of
        Inl e \<Rightarrow> []
      | Inr so \<Rightarrow>
          [(allGroups_topGroupsQuery
              (validateSortColumn (q_sortBy q)
                 [''total_revenue'', ''average_revenue'', ''sales_count'', ''active_users'', ''name'']
                 ''total_revenue'') so,
            [parseDate rt (q_startDate q) (Str ''2021-01-01''),
             parseDate rt (q_endDate q) (Str ''2021-12-31''),
             if truthy (q_limit q) then num_or_nan (parseInt_q (q_limit q)) else num 10]),
           (allGroups_trendsQuery,
            [Str (validateInterval (q_interval q) ''month''),
             parseDate rt (q_startDate q) (Str ''2021-01-01''),
             parseDate rt (q_endDate q) (Str ''2021-12-31'')]),
           (allGroups_groupSizeQuery,
            [parseDate rt (q_startDate q) (Str ''2021-01-01''),
             parseDate rt (q_endDate q) (Str ''2021-12-31'')])])"
  unfolding getAllGroupsPerformance_def Let_def
  by (rule aggregation_calls)

section \<open>The performance of a group\<close>

lemma getGroupPerformance_ok:
  assumes "groupId \<noteq> []"
    and "pool ''SELECT * FROM groups WHERE id = $1'' [Str groupId] = Some (g # gs)"
    and "pool groupPerformance_trendsQuery
           [Str (validateInterval (q_interval q) ''month''), Str groupId,
            parseDate rt (q_startDate q) (Str ''2021-01-01''),
            parseDate rt (q_endDate q) (Str ''2021-12-31'')] = Some trends"
    and "pool groupPerformance_topPerformersQuery
           [Str groupId, parseDate rt (q_startDate q) (Str ''2021-01-01''),
            parseDate rt (q_endDate q) (Str ''2021-12-31'')] = Some performers"
    and "pool groupPerformance_comparisonQuery
           [parseDate rt (q_startDate q) (Str ''2021-01-01''),
            parseDate rt (q_endDate q) (Str ''2021-12-31''), Str groupId] = Some comparison"
  shows "getGroupPerformance rt pool groupId q =
    (\<lparr>status = 200,
      body = Obj [
          (''data'', Obj [(''trends'', Arr trends),
                          (''top_performers'', Arr performers),
                          (''comparison'', Arr comparison)]),
          (''meta'', Obj [(''filters'', Obj [(''startDate'', parseDate rt (q_startDate q) (Str ''2021-01-01'')),
                                             (''endDate'', parseDate rt (q_endDate q) (Str ''2021-12-31'')),
                                             (''interval'', Str (validateInterval (q_interval q) ''month''))])]),
          (''links'', Obj [
             (''self'', Str (''/api/metrics/groups/'' @ groupId @ ''/performance?interval='' @ validateInterval (q_interval q) ''month'')),
             (''group_sales'', Str (''/api/metrics/groups/'' @ groupId @ ''/sales''))])]\<rparr>,
     [(''SELECT * FROM groups WHERE id = $1'', [Str groupId]),
      (groupPerformance_trendsQuery,
           [Str (validateInterval (q_interval q) ''month''), Str groupId,
            parseDate rt (q_startDate q) (Str ''2021-01-01''),
            parseDate rt (q_endDate q) (Str ''2021-12-31'')]),
      (groupPerformance_topPerformersQuery,
           [Str groupId, parseDate rt (q_startDate q) (Str ''2021-01-01''),
            parseDate rt (q_endDate q) (Str ''2021-12-31'')]),
      (groupPerformance_comparisonQuery,
           [parseDate rt (q_startDate q) (Str ''2021-01-01''),
            parseDate rt (q_endDate q) (Str ''2021-12-31''), Str groupId])])"
proof -
  have v: "validateResourceExists pool ''groups'' (Str groupId) [] =
             (Inr g, [(''SELECT * FROM groups WHERE id = $1'', [Str groupId])])"
    using validateResourceExists_found [of pool "''groups''" "Str groupId" g gs "[]"] assms(2) by simp
  show ?thesis
    using assms(1,3,4,5) v
    by (simp add: getGroupPerformance_def Let_def respond_def bind_io_def pool_query_def return_io_def)
qed

lemma validateInterval_week: "validateInterval (One ''week'') d = ''week''"
  by (simp add: validateInterval_def)

text \<open>
  C9, as amended. For a group performance request with \<open>interval=week\<close> on an existing
  group, when the trend statement matches no row and the store answers the two other
  statements, the response is HTTP 200 and its \<open>data\<close> are \<open>trends = []\<close> (an empty
  sequence, not an error) with \<open>top_performers\<close> and \<open>comparison\<close> as the store returned
  them: the handler issues no summary statement and the body has no \<open>data.summary\<close>.
\<close>

theorem group_performance_empty_window:
  assumes "groupId \<noteq> []"
    and "q_interval q = One ''week''"
    and "pool ''SELECT * FROM groups WHERE id = $1'' [Str groupId] = Some (g # gs)"
    and "pool groupPerformance_trendsQuery
           [Str ''week'', Str groupId,
            parseDate rt (q_startDate q) (Str ''2021-01-01''),
            parseDate rt (q_endDate q) (Str ''2021-12-31'')] = Some []"
    and "pool groupPerformance_topPerformersQuery
           [Str groupId, parseDate rt (q_startDate q) (Str ''2021-01-01''),
            parseDate rt (q_endDate q) (Str ''2021-12-31'')] = Some performers"
    and "pool groupPerformance_comparisonQuery
           [parseDate rt (q_startDate q) (Str ''2021-01-01''),
            parseDate rt (q_endDate q) (Str ''2021-12-31''), Str groupId] = Some comparison"
  shows "status (fst (getGroupPerformance rt pool groupId q)) = 200
       \<and> get (body (fst (getGroupPerformance rt pool groupId q))) ''data'' =
           Obj [(''trends'', Arr []), (''top_performers'', Arr performers), (''comparison'', Arr comparison)]
       \<and> get (get (body (fst (getGroupPerformance rt pool groupId q))) ''data'') ''trends'' = Arr []
       \<and> get (get (body (fst (getGroupPerformance rt pool groupId q))) ''data'') ''summary'' = Undefined"
  using getGroupPerformance_ok [of groupId pool g gs q rt "[]" performers comparison] assms
  by (simp add: validateInterval_week get_Obj)

text \<open>Group 7 in a store without any sale.\<close>

theorem group_performance_empty_window_witness:
  "status (fst (getGroupPerformance sample_builtins group_store ''7'' (no_query\<lparr>q_interval := One ''week''\<rparr>))) = 200
   \<and> get (get (body (fst (getGroupPerformance sample_builtins group_store ''7'' (no_query\<lparr>q_interval := One ''week''\<rparr>)))) ''data'') ''trends'' = Arr []"
proof -
  let ?q = "no_query\<lparr>q_interval := One ''week''\<rparr>"
  have h1: "''7'' \<noteq> []" by simp
  have h2: "q_interval ?q = One ''week''" by simp
  have h3: "group_store ''SELECT * FROM groups WHERE id = $1'' [Str ''7''] =
              Some (Obj [(''id'', num 7), (''name'', Str ''East'')] # [])"
    by code_simp
  have h4: "group_store groupPerformance_trendsQuery
           [Str ''week'', Str ''7'',
            parseDate sample_builtins (q_startDate ?q) (Str ''2021-01-01''),
            parseDate sample_builtins (q_endDate ?q) (Str ''2021-12-31'')] = Some []"
    by code_simp
  have h5: "group_store groupPerformance_topPerformersQuery
           [Str ''7'', parseDate sample_builtins (q_startDate ?q) (Str ''2021-01-01''),
            parseDate sample_builtins (q_endDate ?q) (Str ''2021-12-31'')] = Some []"
    by code_simp
  have h6: "group_store groupPerformance_comparisonQuery
           [parseDate sample_builtins (q_startDate ?q) (Str ''2021-01-01''),
            parseDate sample_builtins (q_endDate ?q) (Str ''2021-12-31''), Str ''7''] = Some []"
    by code_simp
  note T = group_performance_empty_window [OF h1 h2 h3 h4 h5 h6]
  show ?thesis
    using T [THEN conjunct1] T [THEN conjunct2, THEN conjunct2, THEN conjunct1] by (intro conjI)
qed

text \<open>
  In that store the response is 200 and \<open>data.summary\<close> is \<open>undefined\<close>: there is no
  \<open>data.summary.total_sales\<close> to be zero.
\<close>

theorem group_performance_has_no_summary:
  "status (fst (getGroupPerformance sample_builtins group_store ''7'' (no_query\<lparr>q_interval := One ''week''\<rparr>))) = 200
   \<and> get (get (body (fst (getGroupPerformance sample_builtins group_store ''7'' (no_query\<lparr>q_interval := One ''week''\<rparr>)))) ''data'') ''summary'' = Undefined
   \<and> get (get (get (body (fst (getGroupPerformance sample_builtins group_store ''7'' (no_query\<lparr>q_interval := One ''week''\<rparr>)))) ''data'') ''summary'') ''total_sales'' \<noteq> num 0"
  by code_simp

section \<open>The trend statement of the all-users performance\<close>

lemma allUsers_trendsQuery_both:
  assumes "truthy role" and "truthy groupId"
  shows "allUsers_trendsQuery role groupId = allUsers_trendsQuery (One ''rep'') (One ''7'')"
  using assms by (simp add: allUsers_trendsQuery_def truthy_def)

lemma allUsers_trendsQuery_both_text:
  "allUsers_trendsQuery (One ''rep'') (One ''7'') =
     ''SELECT DATE_TRUNC($1, s.date) AS time_period, COUNT(s.id) AS sales_count, '' @
     ''SUM(s.amount) AS total_revenue, AVG(s.amount) AS average_revenue, '' @
     ''COUNT(DISTINCT s.user_id) AS active_users FROM sales s JOIN users u ON '' @
     ''s.user_id = u.id JOIN user_groups ug ON s.user_id = ug.user_id '' @
     ''WHERE s.date BETWEEN $2 AND $3 AND u.role = $4 AND ug.group_id = $${role ? 5 : 4} '' @
     ''GROUP BY DATE_TRUNC($1, s.date) ORDER BY time_period''"
  by code_simp

lemma allUsers_trendsQuery_no_5:
  "\<not> includes_str (allUsers_trendsQuery (One ''rep'') (One ''7'')) ''$5''"
  by code_simp

lemma allUsers_trendsQuery_literal:
  "includes_str (allUsers_trendsQuery (One ''rep'') (One ''7'')) ''ug.group_id = $${role ? 5 : 4}''"
  by code_simp

lemma snd_bind_io:
  assumes "\<And>x cs'. snd (f x cs') = cs'"
  shows "snd (bind_io m f cs) = snd (m cs)"
  using assms by (simp add: bind_io_def split: prod.splits sum.splits)

lemma getAllUsersPerformance_calls:
  assumes "validateSortOrder (q_sortOrder q) ''desc'' = Inr so"
  shows "snd (getAllUsersPerformance rt pool q) ! 1 =
     (allUsers_trendsQuery (q_role q) (q_groupId q),
      allUsers_trendsParams (validateInterval (q_interval q) ''month'')
        (parseDate rt (q_startDate q) (Str ''2021-01-01''))
        (parseDate rt (q_endDate q) (Str ''2021-12-31'')) (q_role q) (q_groupId q))"
proof -
  have a: "\<And>c1 c2 c3 cs. snd (pool_query_all3 pool c1 c2 c3 cs) = cs @ [c1, c2, c3]"
    by (simp add: pool_query_all3_def)
  show ?thesis
    unfolding getAllUsersPerformance_def Let_def snd_respond_500 assms
      bind_io_def [of "lift_io _"] lift_io_apply prod.case sum.case
    by (subst snd_bind_io) (simp_all add: return_io_def a split: prod.splits)
qed

text \<open>
  C6. In the all-users performance aggregation, when both a role and a group filter are
  supplied (and the sort order is given once or not at all, so that the handler reaches
  its statements), the trend statement is issued second, with the group identifier
  bound as its fifth value; the statement text does not reference \<open>$5\<close> anywhere. Where the
  group placeholder should stand, the text carries the unevaluated source text
  \<open>$${role ? 5 : 4}\<close>: the index arithmetic sits in an ordinary string and never runs.
\<close>

theorem allUsers_trends_group_placeholder:
  assumes "truthy (q_role q)" and "truthy (q_groupId q)" and "string_or_absent (q_sortOrder q)"
  shows "snd (getAllUsersPerformance rt pool q) ! 1 =
           (allUsers_trendsQuery (q_role q) (q_groupId q),
            [Str (validateInterval (q_interval q) ''month''),
             parseDate rt (q_startDate q) (Str ''2021-01-01''),
             parseDate rt (q_endDate q) (Str ''2021-12-31''),
             qv (q_role q), qv (q_groupId q)])
       \<and> \<not> includes_str (allUsers_trendsQuery (q_role q) (q_groupId q)) ''$5''
       \<and> includes_str (allUsers_trendsQuery (q_role q) (q_groupId q)) ''ug.group_id = $${role ? 5 : 4}''
       \<and> allUsers_trendsQuery (q_role q) (q_groupId q) =
           ''SELECT DATE_TRUNC($1, s.date) AS time_period, COUNT(s.id) AS sales_count, '' @
           ''SUM(s.amount) AS total_revenue, AVG(s.amount) AS average_revenue, '' @
           ''COUNT(DISTINCT s.user_id) AS active_users FROM sales s JOIN users u ON '' @
           ''s.user_id = u.id JOIN user_groups ug ON s.user_id = ug.user_id '' @
           ''WHERE s.date BETWEEN $2 AND $3 AND u.role = $4 AND ug.group_id = $${role ? 5 : 4} '' @
           ''GROUP BY DATE_TRUNC($1, s.date) ORDER BY time_period''"
proof -
  have p: "allUsers_trendsParams (validateInterval (q_interval q) ''month'')
        (parseDate rt (q_startDate q) (Str ''2021-01-01''))
        (parseDate rt (q_endDate q) (Str ''2021-12-31'')) (q_role q) (q_groupId q) =
        [Str (validateInterval (q_interval q) ''month''),
             parseDate rt (q_startDate q) (Str ''2021-01-01''),
             parseDate rt (q_endDate q) (Str ''2021-12-31''),
             qv (q_role q), qv (q_groupId q)]"
    using assms(1,2) by (simp add: allUsers_trendsParams_def)
  obtain so where so: "validateSortOrder (q_sortOrder q) ''desc'' = Inr so"
    using validateSortOrder_string [OF assms(3)] by blast
  show ?thesis
    unfolding allUsers_trendsQuery_both [OF assms(1,2)]
    using getAllUsersPerformance_calls [OF so, of rt pool] allUsers_trendsQuery_no_5
      allUsers_trendsQuery_literal allUsers_trendsQuery_both_text
    by (simp only: p allUsers_trendsQuery_both [OF assms(1,2)] simp_thms)
qed

text \<open>The request \<open>role=rep&groupId=7\<close>.\<close>

theorem allUsers_trends_group_placeholder_witness:
  "snd (getAllUsersPerformance sample_builtins (answers [])
          (no_query\<lparr>q_role := One ''rep'', q_groupId := One ''7''\<rparr>)) ! 1 =
     (''SELECT DATE_TRUNC($1, s.date) AS time_period, COUNT(s.id) AS sales_count, '' @
      ''SUM(s.amount) AS total_revenue, AVG(s.amount) AS average_revenue, '' @
      ''COUNT(DISTINCT s.user_id) AS active_users FROM sales s JOIN users u ON '' @
      ''s.user_id = u.id JOIN user_groups ug ON s.user_id = ug.user_id '' @
      ''WHERE s.date BETWEEN $2 AND $3 AND u.role = $4 AND ug.group_id = $${role ? 5 : 4} '' @
      ''GROUP BY DATE_TRUNC($1, s.date) ORDER BY time_period'',
      [Str ''month'', Str ''2021-01-01'', Str ''2021-12-31'', Str ''rep'', Str ''7''])"
proof -
  let ?q = "no_query\<lparr>q_role := One ''rep'', q_groupId := One ''7''\<rparr>"
  have h1: "truthy (q_role ?q)" by (simp add: truthy_def)
  have h2: "truthy (q_groupId ?q)" by (simp add: truthy_def)
  have h3: "string_or_absent (q_sortOrder ?q)" by code_simp
  note T = allUsers_trends_group_placeholder [OF h1 h2 h3, of sample_builtins "answers []"]
  have ps: "[Str (validateInterval (q_interval ?q) ''month''),
             parseDate sample_builtins (q_startDate ?q) (Str ''2021-01-01''),
             parseDate sample_builtins (q_endDate ?q) (Str ''2021-12-31''),
             qv (q_role ?q), qv (q_groupId ?q)] =
            [Str ''month'', Str ''2021-01-01'', Str ''2021-12-31'', Str ''rep'', Str ''7'']"
    by code_simp
  show ?thesis
    using T [THEN conjunct1]
    unfolding T [THEN conjunct2, THEN conjunct2, THEN conjunct2] ps .
qed

section \<open>Amount bounds of the sales listing\<close>

lemma listSales_first_call:
  assumes "validateSortOrder (q_sortOrder q) ''desc'' = Inr so"
  shows "take 1 (snd (listSales rt pool q)) =
     [(listSales_query (listSales_conditions rt q) (q_groupId q)
         (validateSortColumn (q_sortBy q) [''date'', ''amount'', ''user_id''] ''date'') so,
       listing_params (listSales_conditions rt q) (getPaginationParams (q_page q) (q_limit q)))]"
  using assms
  by (simp add: listSales_def Let_def respond_500_def bind_io_def lift_io_def pool_query_def
      count_total_def throw_io_def return_io_def split: option.splits list.splits prod.splits sum.splits)

lemma show_nat_small:
  "show_nat 1 = ''1''" "show_nat 2 = ''2''" "show_nat 3 = ''3''" "show_nat 4 = ''4''"
  "show_nat (Suc (Suc 0)) = ''2''" "show_nat (Suc (Suc (Suc 0))) = ''3''"
  by (simp_all add: show_nat.simps digit_char_def)

lemma getPaginationParams_absent:
  "getPaginationParams Absent Absent = \<lparr>limit = 100, offset = 0, page = 1\<rparr>"
  by (simp add: getPaginationParams_def Let_def parseInt_q_absent or_default_def)

text \<open>
  C7, at the request \<open>minAmount=abc\<close>. \<open>parseFloat\<close> of \<open>abc\<close> is \<open>NaN\<close>, which is not
  \<open>null\<close>: the bound is neither dropped nor replaced by a default. The builder adds the
  condition \<open>s.amount >= $1\<close> and the first statement issued binds \<open>NaN\<close> to it.
\<close>

theorem listSales_binds_non_numeric_amount:
  assumes "parse_float rt ''abc'' = NaN"
  shows "listSales_conditions rt (no_query\<lparr>q_minAmount := One ''abc''\<rparr>) =
           \<lparr>conditions = [''s.amount >= $1''], queryParams = [NaN], paramIndex = 2\<rparr>
       \<and> take 1 (snd (listSales rt pool (no_query\<lparr>q_minAmount := One ''abc''\<rparr>))) =
           [(''SELECT s.id, s.user_id, u.name as user_name, s.amount, s.date FROM sales s '' @
             ''JOIN users u ON s.user_id = u.id WHERE s.amount >= $1 ORDER BY s.date desc '' @
             ''LIMIT $2 OFFSET $3'',
             [NaN, num 100, num 0])]"
proof -
  let ?q = "no_query\<lparr>q_minAmount := One ''abc''\<rparr>"
  have b: "listSales_conditions rt ?q =
           \<lparr>conditions = [''s.amount >= $1''], queryParams = [NaN], paramIndex = 2\<rparr>"
    using assms
    by (simp add: listSales_conditions_def Let_def no_query_def parseDate_def parse_amount_def
        js_truthy_def truthy_def add_if_def add_condition_def show_nat_1)
  have s: "validateSortColumn (q_sortBy ?q) [''date'', ''amount'', ''user_id''] ''date'' = ''date''"
          "validateSortOrder (q_sortOrder ?q) ''desc'' = Inr ''desc''"
          "q_groupId ?q = Absent" "q_page ?q = Absent" "q_limit ?q = Absent"
    by (simp_all add: validateSortColumn_def validateSortOrder_def no_query_def)
  have t: "listSales_query \<lparr>conditions = [''s.amount >= $1''], queryParams = [NaN], paramIndex = 2\<rparr>
             Absent ''date'' ''desc'' =
            ''SELECT s.id, s.user_id, u.name as user_name, s.amount, s.date FROM sales s '' @
             ''JOIN users u ON s.user_id = u.id WHERE s.amount >= $1 ORDER BY s.date desc '' @
             ''LIMIT $2 OFFSET $3''"
    by code_simp
  have p: "listing_params \<lparr>conditions = [''s.amount >= $1''], queryParams = [NaN], paramIndex = 2\<rparr>
             \<lparr>limit = 100, offset = 0, page = 1\<rparr> = [NaN, num 100, num 0]"
    by (simp add: listing_params_def)
  show ?thesis
    using b listSales_first_call [OF s(2), of rt pool]
    by (simp only: b s t p getPaginationParams_absent simp_thms)
qed

text \<open>The same request under the runtime of the examples.\<close>

theorem listSales_binds_non_numeric_amount_witness:
  "take 1 (snd (listSales sample_builtins (answers []) (no_query\<lparr>q_minAmount := One ''abc''\<rparr>))) =
           [(''SELECT s.id, s.user_id, u.name as user_name, s.amount, s.date FROM sales s '' @
             ''JOIN users u ON s.user_id = u.id WHERE s.amount >= $1 ORDER BY s.date desc '' @
             ''LIMIT $2 OFFSET $3'',
             [NaN, num 100, num 0])]"
proof -
  have h: "parse_float sample_builtins ''abc'' = NaN"
    by (simp add: sample_builtins_def)
  show ?thesis
    using listSales_binds_non_numeric_amount [OF h, of "answers []"] by (rule conjunct2)
qed

section \<open>The date validator\<close>

text \<open>
  C10. The date validator accepts exactly the strings the runtime's \<open>Date\<close> accepts,
  whatever their format, and returns an accepted string as it was given; a string the
  \<open>Date\<close> rejects and an absent value yield the fallback. In the user sales listing an
  accepted start date (not the empty string) is the value bound to \<open>date >= $2\<close>, and
  once the sort order is resolved and the store has answered it is the value echoed in
  \<open>meta.filters.startDate\<close>.
\<close>

theorem parseDate_verbatim:
  "(date_time rt s = Some t \<longrightarrow> parseDate rt (One s) fallback = Str s)
   \<and> (date_time rt s = None \<longrightarrow> parseDate rt (One s) fallback = fallback)
   \<and> parseDate rt Absent fallback = fallback
   \<and> (date_time rt s = Some t \<longrightarrow> s \<noteq> [] \<longrightarrow> q_startDate q = One s \<longrightarrow>
        take 2 (conditions (user_conditions rt userId q)) = [''user_id = $1'', ''date >= $2'']
        \<and> take 2 (queryParams (user_conditions rt userId q)) = [Str userId, Str s])
   \<and> (date_time rt s = Some t \<longrightarrow> s \<noteq> [] \<longrightarrow> q_startDate q = One s \<longrightarrow>
        userId \<noteq> [] \<longrightarrow>
        pool ''SELECT * FROM users WHERE id = $1'' [Str userId] = Some (u # us) \<longrightarrow>
        validateSortOrder (q_sortOrder q) ''desc'' = Inr so \<longrightarrow>
        pool (userSales_query (user_conditions rt userId q)
                 (validateSortColumn (q_sortBy q) [''date'', ''amount''] ''date'') so)
              (listing_params (user_conditions rt userId q) (getPaginationParams (q_page q) (q_limit q)))
           = Some rows \<longrightarrow>
        pool (userSales_countQuery (user_conditions rt userId q))
              (count_params (user_conditions rt userId q) (getPaginationParams (q_page q) (q_limit q)))
           = Some (Obj c # cs) \<longrightarrow>
        status (fst (getUserSales rt pool userId q)) = 200
        \<and> get (get (get (body (fst (getUserSales rt pool userId q))) ''meta'') ''filters'') ''startDate'' = Str s)"
proof -
  have bound: "take 2 (conditions (user_conditions rt userId q)) = [''user_id = $1'', ''date >= $2'']
        \<and> take 2 (queryParams (user_conditions rt userId q)) = [Str userId, Str s]"
    if "date_time rt s = Some t" "s \<noteq> []" "q_startDate q = One s"
    using that
    by (simp add: user_conditions_def Let_def parseDate_def js_truthy_def add_if_def
        add_condition_def show_nat_small)
  have echo: "status (fst (getUserSales rt pool userId q)) = 200
        \<and> get (get (get (body (fst (getUserSales rt pool userId q))) ''meta'') ''filters'') ''startDate'' = Str s"
    if "date_time rt s = Some t" "q_startDate q = One s" "userId \<noteq> []"
       "pool ''SELECT * FROM users WHERE id = $1'' [Str userId] = Some (u # us)"
       "validateSortOrder (q_sortOrder q) ''desc'' = Inr so"
       "pool (userSales_query (user_conditions rt userId q)
                 (validateSortColumn (q_sortBy q) [''date'', ''amount''] ''date'') so)
              (listing_params (user_conditions rt userId q) (getPaginationParams (q_page q) (q_limit q)))
           = Some rows"
       "pool (userSales_countQuery (user_conditions rt userId q))
              (count_params (user_conditions rt userId q) (getPaginationParams (q_page q) (q_limit q)))
           = Some (Obj c # cs)"
    using getUserSales_ok [of userId pool u us q so rt rows "Obj c" cs] that
    by (simp add: formatPaginatedResponse_def Let_def get_Obj parseDate_def)
  show ?thesis
    using bound echo by (simp add: parseDate_def)
qed

text \<open>
  Under a runtime whose \<open>Date\<close> accepts \<open>March 1, 2021\<close>, that string is bound and
  echoed as it is.
\<close>

theorem parseDate_verbatim_witness:
  "parseDate sample_builtins (One ''March 1, 2021'') Null = Str ''March 1, 2021''
   \<and> parseDate sample_builtins (One ''soon'') Null = Null
   \<and> take 2 (queryParams (user_conditions sample_builtins ''42''
                 (no_query\<lparr>q_startDate := One ''March 1, 2021''\<rparr>))) = [Str ''42'', Str ''March 1, 2021'']
   \<and> get (get (get (body (fst (getUserSales sample_builtins user_store ''42''
                 (no_query\<lparr>q_startDate := One ''March 1, 2021''\<rparr>)))) ''meta'') ''filters'') ''startDate''
       = Str ''March 1, 2021''"
proof -
  let ?q = "no_query\<lparr>q_startDate := One ''March 1, 2021''\<rparr>"
  let ?b = "user_conditions sample_builtins ''42'' ?q"
  have a: "date_time sample_builtins ''March 1, 2021'' = Some 1614556800000"
    by (simp add: sample_builtins_def)
  have r: "date_time sample_builtins ''soon'' = None"
    by (simp add: sample_builtins_def)
  have n: "''March 1, 2021'' \<noteq> []" "''42'' \<noteq> []" by simp_all
  have q: "q_startDate ?q = One ''March 1, 2021''" by simp
  have h1: "user_store ''SELECT * FROM users WHERE id = $1'' [Str ''42''] =
              Some (Obj [(''id'', num 42), (''name'', Str ''Ann'')] # [])"
    by code_simp
  have h0: "validateSortOrder (q_sortOrder ?q) ''desc'' = Inr ''desc''"
    by code_simp
  have h2: "user_store (userSales_query ?b
                 (validateSortColumn (q_sortBy ?q) [''date'', ''amount''] ''date'') ''desc'')
              (listing_params ?b (getPaginationParams (q_page ?q) (q_limit ?q))) = Some []"
    by code_simp
  have h3: "user_store (userSales_countQuery ?b)
              (count_params ?b (getPaginationParams (q_page ?q) (q_limit ?q)))
           = Some (Obj [(''count'', Str ''25'')] # [])"
    by code_simp
  note T = parseDate_verbatim [of sample_builtins "''March 1, 2021''" 1614556800000 Null ?q "''42''"
      user_store "Obj [(''id'', num 42), (''name'', Str ''Ann'')]" "[]" "''desc''" "[]" "[(''count'', Str ''25'')]" "[]"]
  note U = parseDate_verbatim [of sample_builtins "''soon''" 0 Null]
  have g1: "parseDate sample_builtins (One ''March 1, 2021'') Null = Str ''March 1, 2021''"
    using T [THEN conjunct1, rule_format, OF a] .
  have g2: "parseDate sample_builtins (One ''soon'') Null = Null"
    using U [THEN conjunct2, THEN conjunct1, rule_format, OF r] .
  have g3: "take 2 (queryParams ?b) = [Str ''42'', Str ''March 1, 2021'']"
    using T [THEN conjunct2, THEN conjunct2, THEN conjunct2, THEN conjunct1, rule_format, OF a n(1) q]
    by (rule conjunct2)
  have g4: "get (get (get (body (fst (getUserSales sample_builtins user_store ''42'' ?q))) ''meta'') ''filters'') ''startDate''
       = Str ''March 1, 2021''"
    using T [THEN conjunct2, THEN conjunct2, THEN conjunct2, THEN conjunct2, rule_format, OF a n(1) q n(2) h1 h0 h2 h3]
    by (rule conjunct2)
  show ?thesis using g1 g2 g3 g4 by (intro conjI)
qed

section \<open>Following the links of a listing\<close>

subsection \<open>Reading \<open>links.self\<close> back\<close>






subsection \<open>Reading \<open>meta.filters\<close> back\<close>







subsection \<open>The same listing from the request read back\<close>












section \<open>The allow-list validators\<close>

lemma toLowerCase_nonempty: "toLowerCase s \<in> {''asc'', ''desc''} \<Longrightarrow> s \<noteq> []"
  by (auto simp: toLowerCase_def)

lemma validateSortColumn_member: "validateSortColumn v cols d \<in> set cols \<union> {d}"
  by (cases v) (simp_all add: validateSortColumn_def)

lemma validateInterval_member:
  "validateInterval v d \<in> {''day'', ''week'', ''month'', ''quarter'', ''year'', d}"
  by (cases v) (auto simp: validateInterval_def)

lemma validateSortOrder_member:
  assumes "validateSortOrder v d = Inr so"
  shows "so \<in> {''asc'', ''desc'', d}"
  using assms by (cases v) (auto simp: validateSortOrder_def split: if_splits)

text \<open>A resolved value is resolved to itself.\<close>

lemma validateSortColumn_resolved:
  assumes "d \<in> set cols" and "[] \<notin> set cols"
  shows "validateSortColumn (One (validateSortColumn v cols d)) cols d = validateSortColumn v cols d"
  using assms by (cases v) (auto simp: validateSortColumn_def)

lemma validateInterval_resolved:
  "validateInterval (One (validateInterval v ''month'')) ''month'' = validateInterval v ''month''"
  by (cases v) (auto simp: validateInterval_def)

lemma toLowerCase_asc_desc: "toLowerCase ''asc'' = ''asc''" "toLowerCase ''desc'' = ''desc''"
  by (simp_all add: toLowerCase_def lower_char_def)

lemma validateSortOrder_resolved:
  assumes "validateSortOrder v d = Inr so" and "d = ''asc'' \<or> d = ''desc''"
  shows "validateSortOrder (One so) d = Inr so"
proof -
  have "so = ''asc'' \<or> so = ''desc''"
    using validateSortOrder_member [OF assms(1)] assms(2) by auto
  then show ?thesis
    by (auto simp: validateSortOrder_def toLowerCase_asc_desc)
qed

lemma sort_fields_irrelevant:
  "user_conditions rt ident (q\<lparr>q_sortBy := a, q_sortOrder := b\<rparr>) = user_conditions rt ident q"
  "groupSales_conditions rt ident (q\<lparr>q_sortBy := a, q_sortOrder := b\<rparr>) = groupSales_conditions rt ident q"
  "groupUsers_conditions ident (q\<lparr>q_sortBy := a, q_sortOrder := b\<rparr>) = groupUsers_conditions ident q"
  "listSales_conditions rt (q\<lparr>q_sortBy := a, q_sortOrder := b\<rparr>) = listSales_conditions rt q"
  by (simp_all add: user_conditions_def groupSales_conditions_def group_conditions_def
      groupUsers_conditions_def listSales_conditions_def)

text \<open>
  Each handler that sorts answers a request as it answers the same request with the
  resolved sort column and sort order in place of the raw ones.
\<close>

lemma getUserSales_resolved:
  assumes "validateSortOrder (q_sortOrder q) ''desc'' = Inr so"
  shows "getUserSales rt pool ident q =
           getUserSales rt pool ident
             (q\<lparr>q_sortBy := One (validateSortColumn (q_sortBy q) [''date'', ''amount''] ''date''),
                 q_sortOrder := One so\<rparr>)"
proof -
  have c: "validateSortColumn (One (validateSortColumn (q_sortBy q) [''date'', ''amount''] ''date'')) [''date'', ''amount''] ''date'' = validateSortColumn (q_sortBy q) [''date'', ''amount''] ''date''"
    by (rule validateSortColumn_resolved) simp_all
  have o: "validateSortOrder (One so) ''desc'' = Inr so"
    using assms by (rule validateSortOrder_resolved) simp
  show ?thesis
    by (simp add: getUserSales_def sort_fields_irrelevant assms c o)
qed

lemma getGroupSales_resolved:
  assumes "validateSortOrder (q_sortOrder q) ''desc'' = Inr so"
  shows "getGroupSales rt pool ident q =
           getGroupSales rt pool ident
             (q\<lparr>q_sortBy := One (validateSortColumn (q_sortBy q) [''date'', ''amount'', ''user_id''] ''date''),
                 q_sortOrder := One so\<rparr>)"
proof -
  have c: "validateSortColumn (One (validateSortColumn (q_sortBy q) [''date'', ''amount'', ''user_id''] ''date'')) [''date'', ''amount'', ''user_id''] ''date'' = validateSortColumn (q_sortBy q) [''date'', ''amount'', ''user_id''] ''date''"
    by (rule validateSortColumn_resolved) simp_all
  have o: "validateSortOrder (One so) ''desc'' = Inr so"
    using assms by (rule validateSortOrder_resolved) simp
  show ?thesis
    by (simp add: getGroupSales_def sort_fields_irrelevant assms c o)
qed

lemma getGroupUsers_resolved:
  assumes "validateSortOrder (q_sortOrder q) ''asc'' = Inr so"
  shows "getGroupUsers pool ident q =
           getGroupUsers pool ident
             (q\<lparr>q_sortBy := One (validateSortColumn (q_sortBy q) [''name'', ''role''] ''name''),
                 q_sortOrder := One so\<rparr>)"
proof -
  have c: "validateSortColumn (One (validateSortColumn (q_sortBy q) [''name'', ''role''] ''name'')) [''name'', ''role''] ''name'' = validateSortColumn (q_sortBy q) [''name'', ''role''] ''name''"
    by (rule validateSortColumn_resolved) simp_all
  have o: "validateSortOrder (One so) ''asc'' = Inr so"
    using assms by (rule validateSortOrder_resolved) simp
  show ?thesis
    by (simp add: getGroupUsers_def sort_fields_irrelevant assms c o)
qed

lemma listSales_resolved:
  assumes "validateSortOrder (q_sortOrder q) ''desc'' = Inr so"
  shows "listSales rt pool q =
           listSales rt pool
             (q\<lparr>q_sortBy := One (validateSortColumn (q_sortBy q) [''date'', ''amount'', ''user_id''] ''date''),
                 q_sortOrder := One so\<rparr>)"
proof -
  have c: "validateSortColumn (One (validateSortColumn (q_sortBy q) [''date'', ''amount'', ''user_id''] ''date'')) [''date'', ''amount'', ''user_id''] ''date'' = validateSortColumn (q_sortBy q) [''date'', ''amount'', ''user_id''] ''date''"
    by (rule validateSortColumn_resolved) simp_all
  have o: "validateSortOrder (One so) ''desc'' = Inr so"
    using assms by (rule validateSortOrder_resolved) simp
  show ?thesis
    by (simp add: listSales_def sort_fields_irrelevant assms c o)
qed

lemma getAllUsersPerformance_resolved:
  assumes "validateSortOrder (q_sortOrder q) ''desc'' = Inr so"
  shows "getAllUsersPerformance rt pool q =
           getAllUsersPerformance rt pool
             (q\<lparr>q_sortBy := One (validateSortColumn (q_sortBy q) [''total_revenue'', ''average_revenue'', ''sales_count'', ''name''] ''total_revenue''),
                 q_sortOrder := One so,
                 q_interval := One (validateInterval (q_interval q) ''month'')\<rparr>)"
proof -
  have c: "validateSortColumn (One (validateSortColumn (q_sortBy q) [''total_revenue'', ''average_revenue'', ''sales_count'', ''name''] ''total_revenue'')) [''total_revenue'', ''average_revenue'', ''sales_count'', ''name''] ''total_revenue'' = validateSortColumn (q_sortBy q) [''total_revenue'', ''average_revenue'', ''sales_count'', ''name''] ''total_revenue''"
    by (rule validateSortColumn_resolved) simp_all
  have o: "validateSortOrder (One so) ''desc'' = Inr so"
    using assms by (rule validateSortOrder_resolved) simp
  show ?thesis
    by (simp add: getAllUsersPerformance_def sort_fields_irrelevant assms c o validateInterval_resolved)
qed

lemma getAllGroupsPerformance_resolved:
  assumes "validateSortOrder (q_sortOrder q) ''desc'' = Inr so"
  shows "getAllGroupsPerformance rt pool q =
           getAllGroupsPerformance rt pool
             (q\<lparr>q_sortBy := One (validateSortColumn (q_sortBy q) [''total_revenue'', ''average_revenue'', ''sales_count'', ''active_users'', ''name''] ''total_revenue''),
                 q_sortOrder := One so,
                 q_interval := One (validateInterval (q_interval q) ''month'')\<rparr>)"
proof -
  have c: "validateSortColumn (One (validateSortColumn (q_sortBy q) [''total_revenue'', ''average_revenue'', ''sales_count'', ''active_users'', ''name''] ''total_revenue'')) [''total_revenue'', ''average_revenue'', ''sales_count'', ''active_users'', ''name''] ''total_revenue'' = validateSortColumn (q_sortBy q) [''total_revenue'', ''average_revenue'', ''sales_count'', ''active_users'', ''name''] ''total_revenue''"
    by (rule validateSortColumn_resolved) simp_all
  have o: "validateSortOrder (One so) ''desc'' = Inr so"
    using assms by (rule validateSortOrder_resolved) simp
  show ?thesis
    by (simp add: getAllGroupsPerformance_def sort_fields_irrelevant assms c o validateInterval_resolved)
qed

lemma getUserPerformance_resolved:
  "getUserPerformance rt pool ident q =
     getUserPerformance rt pool ident (q\<lparr>q_interval := One (validateInterval (q_interval q) ''month'')\<rparr>)"
  by (simp add: getUserPerformance_def validateInterval_resolved)

lemma getGroupPerformance_resolved:
  "getGroupPerformance rt pool ident q =
     getGroupPerformance rt pool ident (q\<lparr>q_interval := One (validateInterval (q_interval q) ''month'')\<rparr>)"
  by (simp add: getGroupPerformance_def validateInterval_resolved)

text \<open>The texts of the statements a handler issues, whatever the request and the store.\<close>

lemma getUserSales_texts:
  "(\<forall>c \<in> set (snd (getUserSales rt pool ident q)).
            fst c = ''SELECT * FROM users WHERE id = $1''
          \<or> fst c = userSales_countQuery (user_conditions rt ident q)
          \<or> (\<exists>sb \<in> set [''date'', ''amount'']. \<exists>so \<in> {''asc'', ''desc''}.
                fst c = userSales_query (user_conditions rt ident q) sb so))"
proof -
  let ?P = "\<lambda>c::call. fst c = ''SELECT * FROM users WHERE id = $1''
          \<or> fst c = userSales_countQuery (user_conditions rt ident q)
          \<or> (\<exists>sb \<in> set [''date'', ''amount'']. \<exists>so \<in> {''asc'', ''desc''}.
                fst c = userSales_query (user_conditions rt ident q) sb so)"
  have m: "validateSortColumn (q_sortBy q) [''date'', ''amount''] ''date'' \<in> set [''date'', ''amount'']"
    using validateSortColumn_member [of "q_sortBy q" "[''date'', ''amount'']" "''date''"] by simp
  have o: "so \<in> {''asc'', ''desc''}" if "validateSortOrder (q_sortOrder q) ''desc'' = Inr so" for so
    using validateSortOrder_member [OF that] by auto
  have pE: "?P (''SELECT * FROM users WHERE id = $1'', [Str ident])" by simp
  have pC: "?P (userSales_countQuery (user_conditions rt ident q),
            count_params (user_conditions rt ident q) (getPaginationParams (q_page q) (q_limit q)))" by simp
  have pL: "?P (userSales_query (user_conditions rt ident q) (validateSortColumn (q_sortBy q) [''date'', ''amount''] ''date'') so,
            listing_params (user_conditions rt ident q) (getPaginationParams (q_page q) (q_limit q)))"
    if "validateSortOrder (q_sortOrder q) ''desc'' = Inr so" for so
    using m o [OF that] by (simp only: fst_conv) blast
  from getUserSales_calls_cases [of rt pool ident q]
  show ?thesis
  proof (elim disjE exE conjE)
    assume c: "snd (getUserSales rt pool ident q) = []"
    show ?thesis unfolding c by simp
  next
    assume c: "snd (getUserSales rt pool ident q) = [(''SELECT * FROM users WHERE id = $1'', [Str ident])]"
    show ?thesis unfolding c using pE by simp
  next
    fix so
    assume s: "validateSortOrder (q_sortOrder q) ''desc'' = Inr so"
      and c: "snd (getUserSales rt pool ident q) =
          [(''SELECT * FROM users WHERE id = $1'', [Str ident]), (userSales_query (user_conditions rt ident q) (validateSortColumn (q_sortBy q) [''date'', ''amount''] ''date'') so,
            listing_params (user_conditions rt ident q) (getPaginationParams (q_page q) (q_limit q)))]"
    show ?thesis unfolding c using pE pL [OF s] by simp
  next
    fix so
    assume s: "validateSortOrder (q_sortOrder q) ''desc'' = Inr so"
      and c: "snd (getUserSales rt pool ident q) =
          [(''SELECT * FROM users WHERE id = $1'', [Str ident]), (userSales_query (user_conditions rt ident q) (validateSortColumn (q_sortBy q) [''date'', ''amount''] ''date'') so,
            listing_params (user_conditions rt ident q) (getPaginationParams (q_page q) (q_limit q))),
           (userSales_countQuery (user_conditions rt ident q),
            count_params (user_conditions rt ident q) (getPaginationParams (q_page q) (q_limit q)))]"
    show ?thesis unfolding c using pE pL [OF s] pC by simp
  qed
qed

lemma getGroupSales_texts:
  "(\<forall>c \<in> set (snd (getGroupSales rt pool ident q)).
            fst c = ''SELECT * FROM groups WHERE id = $1''
          \<or> fst c = groupSales_countQuery (groupSales_conditions rt ident q)
          \<or> (\<exists>sb \<in> set [''date'', ''amount'', ''user_id'']. \<exists>so \<in> {''asc'', ''desc''}.
                fst c = groupSales_query (groupSales_conditions rt ident q) sb so))"
proof -
  let ?P = "\<lambda>c::call. fst c = ''SELECT * FROM groups WHERE id = $1''
          \<or> fst c = groupSales_countQuery (groupSales_conditions rt ident q)
          \<or> (\<exists>sb \<in> set [''date'', ''amount'', ''user_id'']. \<exists>so \<in> {''asc'', ''desc''}.
                fst c = groupSales_query (groupSales_conditions rt ident q) sb so)"
  have m: "validateSortColumn (q_sortBy q) [''date'', ''amount'', ''user_id''] ''date'' \<in> set [''date'', ''amount'', ''user_id'']"
    using validateSortColumn_member [of "q_sortBy q" "[''date'', ''amount'', ''user_id'']" "''date''"] by simp
  have o: "so \<in> {''asc'', ''desc''}" if "validateSortOrder (q_sortOrder q) ''desc'' = Inr so" for so
    using validateSortOrder_member [OF that] by auto
  have pE: "?P (''SELECT * FROM groups WHERE id = $1'', [Str ident])" by simp
  have pC: "?P (groupSales_countQuery (groupSales_conditions rt ident q),
            count_params (groupSales_conditions rt ident q) (getPaginationParams (q_page q) (q_limit q)))" by simp
  have pL: "?P (groupSales_query (groupSales_conditions rt ident q) (validateSortColumn (q_sortBy q) [''date'', ''amount'', ''user_id''] ''date'') so,
            listing_params (groupSales_conditions rt ident q) (getPaginationParams (q_page q) (q_limit q)))"
    if "validateSortOrder (q_sortOrder q) ''desc'' = Inr so" for so
    using m o [OF that] by (simp only: fst_conv) blast
  from getGroupSales_calls_cases [of rt pool ident q]
  show ?thesis
  proof (elim disjE exE conjE)
    assume c: "snd (getGroupSales rt pool ident q) = []"
    show ?thesis unfolding c by simp
  next
    assume c: "snd (getGroupSales rt pool ident q) = [(''SELECT * FROM groups WHERE id = $1'', [Str ident])]"
    show ?thesis unfolding c using pE by simp
  next
    fix so
    assume s: "validateSortOrder (q_sortOrder q) ''desc'' = Inr so"
      and c: "snd (getGroupSales rt pool ident q) =
          [(''SELECT * FROM groups WHERE id = $1'', [Str ident]), (groupSales_query (groupSales_conditions rt ident q) (validateSortColumn (q_sortBy q) [''date'', ''amount'', ''user_id''] ''date'') so,
            listing_params (groupSales_conditions rt ident q) (getPaginationParams (q_page q) (q_limit q)))]"
    show ?thesis unfolding c using pE pL [OF s] by simp
  next
    fix so
    assume s: "validateSortOrder (q_sortOrder q) ''desc'' = Inr so"
      and c: "snd (getGroupSales rt pool ident q) =
          [(''SELECT * FROM groups WHERE id = $1'', [Str ident]), (groupSales_query (groupSales_conditions rt ident q) (validateSortColumn (q_sortBy q) [''date'', ''amount'', ''user_id''] ''date'') so,
            listing_params (groupSales_conditions rt ident q) (getPaginationParams (q_page q) (q_limit q))),
           (groupSales_countQuery (groupSales_conditions rt ident q),
            count_params (groupSales_conditions rt ident q) (getPaginationParams (q_page q) (q_limit q)))]"
    show ?thesis unfolding c using pE pL [OF s] pC by simp
  qed
qed

lemma getGroupUsers_texts:
  "(\<forall>c \<in> set (snd (getGroupUsers pool ident q)).
            fst c = ''SELECT * FROM groups WHERE id = $1''
          \<or> fst c = groupUsers_countQuery (groupUsers_conditions ident q)
          \<or> (\<exists>sb \<in> set [''name'', ''role'']. \<exists>so \<in> {''asc'', ''desc''}.
                fst c = groupUsers_query (groupUsers_conditions ident q) sb so))"
proof -
  let ?P = "\<lambda>c::call. fst c = ''SELECT * FROM groups WHERE id = $1''
          \<or> fst c = groupUsers_countQuery (groupUsers_conditions ident q)
          \<or> (\<exists>sb \<in> set [''name'', ''role'']. \<exists>so \<in> {''asc'', ''desc''}.
                fst c = groupUsers_query (groupUsers_conditions ident q) sb so)"
  have m: "validateSortColumn (q_sortBy q) [''name'', ''role''] ''name'' \<in> set [''name'', ''role'']"
    using validateSortColumn_member [of "q_sortBy q" "[''name'', ''role'']" "''name''"] by simp
  have o: "so \<in> {''asc'', ''desc''}" if "validateSortOrder (q_sortOrder q) ''asc'' = Inr so" for so
    using validateSortOrder_member [OF that] by auto
  have pE: "?P (''SELECT * FROM groups WHERE id = $1'', [Str ident])" by simp
  have pC: "?P (groupUsers_countQuery (groupUsers_conditions ident q),
            count_params (groupUsers_conditions ident q) (getPaginationParams (q_page q) (q_limit q)))" by simp
  have pL: "?P (groupUsers_query (groupUsers_conditions ident q) (validateSortColumn (q_sortBy q) [''name'', ''role''] ''name'') so,
            listing_params (groupUsers_conditions ident q) (getPaginationParams (q_page q) (q_limit q)))"
    if "validateSortOrder (q_sortOrder q) ''asc'' = Inr so" for so
    using m o [OF that] by (simp only: fst_conv) blast
  from getGroupUsers_calls_cases [of pool ident q]
  show ?thesis
  proof (elim disjE exE conjE)
    assume c: "snd (getGroupUsers pool ident q) = []"
    show ?thesis unfolding c by simp
  next
    assume c: "snd (getGroupUsers pool ident q) = [(''SELECT * FROM groups WHERE id = $1'', [Str ident])]"
    show ?thesis unfolding c using pE by simp
  next
    fix so
    assume s: "validateSortOrder (q_sortOrder q) ''asc'' = Inr so"
      and c: "snd (getGroupUsers pool ident q) =
          [(''SELECT * FROM groups WHERE id = $1'', [Str ident]), (groupUsers_query (groupUsers_conditions ident q) (validateSortColumn (q_sortBy q) [''name'', ''role''] ''name'') so,
            listing_params (groupUsers_conditions ident q) (getPaginationParams (q_page q) (q_limit q)))]"
    show ?thesis unfolding c using pE pL [OF s] by simp
  next
    fix so
    assume s: "validateSortOrder (q_sortOrder q) ''asc'' = Inr so"
      and c: "snd (getGroupUsers pool ident q) =
          [(''SELECT * FROM groups WHERE id = $1'', [Str ident]), (groupUsers_query (groupUsers_conditions ident q) (validateSortColumn (q_sortBy q) [''name'', ''role''] ''name'') so,
            listing_params (groupUsers_conditions ident q) (getPaginationParams (q_page q) (q_limit q))),
           (groupUsers_countQuery (groupUsers_conditions ident q),
            count_params (groupUsers_conditions ident q) (getPaginationParams (q_page q) (q_limit q)))]"
    show ?thesis unfolding c using pE pL [OF s] pC by simp
  qed
qed

lemma listSales_texts:
  "(\<forall>c \<in> set (snd (listSales rt pool q)).
            fst c = listSales_countQuery (listSales_conditions rt q) (q_groupId q)
          \<or> (\<exists>sb \<in> set [''date'', ''amount'', ''user_id'']. \<exists>so \<in> {''asc'', ''desc''}.
                fst c = listSales_query (listSales_conditions rt q) (q_groupId q) sb so))"
proof -
  let ?P = "\<lambda>c::call. fst c = listSales_countQuery (listSales_conditions rt q) (q_groupId q)
          \<or> (\<exists>sb \<in> set [''date'', ''amount'', ''user_id'']. \<exists>so \<in> {''asc'', ''desc''}.
                fst c = listSales_query (listSales_conditions rt q) (q_groupId q) sb so)"
  have m: "validateSortColumn (q_sortBy q) [''date'', ''amount'', ''user_id''] ''date'' \<in> set [''date'', ''amount'', ''user_id'']"
    using validateSortColumn_member [of "q_sortBy q" "[''date'', ''amount'', ''user_id'']" "''date''"] by simp
  have o: "so \<in> {''asc'', ''desc''}" if "validateSortOrder (q_sortOrder q) ''desc'' = Inr so" for so
    using validateSortOrder_member [OF that] by auto
  have pC: "?P (listSales_countQuery (listSales_conditions rt q) (q_groupId q),
            count_params (listSales_conditions rt q) (getPaginationParams (q_page q) (q_limit q)))" by simp
  have pL: "?P (listSales_query (listSales_conditions rt q) (q_groupId q) (validateSortColumn (q_sortBy q) [''date'', ''amount'', ''user_id''] ''date'') so,
            listing_params (listSales_conditions rt q) (getPaginationParams (q_page q) (q_limit q)))"
    if "validateSortOrder (q_sortOrder q) ''desc'' = Inr so" for so
    using m o [OF that] by (simp only: fst_conv) blast
  from listSales_calls_cases [of rt pool q]
  show ?thesis
  proof (elim disjE exE conjE)
    assume c: "snd (listSales rt pool q) = []"
    show ?thesis unfolding c by simp
  next
    fix so
    assume s: "validateSortOrder (q_sortOrder q) ''desc'' = Inr so"
      and c: "snd (listSales rt pool q) =
          [(listSales_query (listSales_conditions rt q) (q_groupId q) (validateSortColumn (q_sortBy q) [''date'', ''amount'', ''user_id''] ''date'') so,
            listing_params (listSales_conditions rt q) (getPaginationParams (q_page q) (q_limit q)))]"
    show ?thesis unfolding c using pL [OF s] by simp
  next
    fix so
    assume s: "validateSortOrder (q_sortOrder q) ''desc'' = Inr so"
      and c: "snd (listSales rt pool q) =
          [(listSales_query (listSales_conditions rt q) (q_groupId q) (validateSortColumn (q_sortBy q) [''date'', ''amount'', ''user_id''] ''date'') so,
            listing_params (listSales_conditions rt q) (getPaginationParams (q_page q) (q_limit q))),
           (listSales_countQuery (listSales_conditions rt q) (q_groupId q),
            count_params (listSales_conditions rt q) (getPaginationParams (q_page q) (q_limit q)))]"
    show ?thesis unfolding c using pL [OF s] pC by simp
  qed
qed

lemma getAllUsersPerformance_texts:
  "(\<forall>c \<in> set (snd (getAllUsersPerformance rt pool q)).
            fst c = allUsers_trendsQuery (q_role q) (q_groupId q)
          \<or> fst c = allUsers_roleBreakdownQuery (q_groupId q)
          \<or> (\<exists>sb \<in> set [''total_revenue'', ''average_revenue'', ''sales_count'', ''name'']. \<exists>so \<in> {''asc'', ''desc''}.
                fst c = allUsers_topPerformersQuery
                  (allUsers_conditions (parseDate rt (q_startDate q) (Str ''2021-01-01''))
                     (parseDate rt (q_endDate q) (Str ''2021-12-31'')) (q_role q) (q_groupId q))
                  (q_groupId q) sb so))"
proof -
  have m: "validateSortColumn (q_sortBy q) [''total_revenue'', ''average_revenue'', ''sales_count'', ''name''] ''total_revenue'' \<in> set [''total_revenue'', ''average_revenue'', ''sales_count'', ''name'']"
    using validateSortColumn_member [of "q_sortBy q" "[''total_revenue'', ''average_revenue'', ''sales_count'', ''name'']" "''total_revenue''"] by simp
  have o: "so \<in> {''asc'', ''desc''}" if "validateSortOrder (q_sortOrder q) ''desc'' = Inr so" for so
    using validateSortOrder_member [OF that] by auto
  show ?thesis
  proof (cases "validateSortOrder (q_sortOrder q) ''desc''")
    case (Inl e)
    then show ?thesis by (simp add: getAllUsersPerformance_all_calls)
  next
    case (Inr so)
    show ?thesis using m o [OF Inr]
      by (simp only: getAllUsersPerformance_all_calls Inr sum.case list.set ball_simps fst_conv) blast
  qed
qed

lemma getAllGroupsPerformance_texts:
  "(\<forall>c \<in> set (snd (getAllGroupsPerformance rt pool q)).
            fst c = allGroups_trendsQuery
          \<or> fst c = allGroups_groupSizeQuery
          \<or> (\<exists>sb \<in> set [''total_revenue'', ''average_revenue'', ''sales_count'', ''active_users'', ''name'']. \<exists>so \<in> {''asc'', ''desc''}.
                fst c = allGroups_topGroupsQuery sb so))"
proof -
  have m: "validateSortColumn (q_sortBy q) [''total_revenue'', ''average_revenue'', ''sales_count'', ''active_users'', ''name''] ''total_revenue'' \<in> set [''total_revenue'', ''average_revenue'', ''sales_count'', ''active_users'', ''name'']"
    using validateSortColumn_member [of "q_sortBy q" "[''total_revenue'', ''average_revenue'', ''sales_count'', ''active_users'', ''name'']" "''total_revenue''"] by simp
  have o: "so \<in> {''asc'', ''desc''}" if "validateSortOrder (q_sortOrder q) ''desc'' = Inr so" for so
    using validateSortOrder_member [OF that] by auto
  show ?thesis
  proof (cases "validateSortOrder (q_sortOrder q) ''desc''")
    case (Inl e)
    then show ?thesis by (simp add: getAllGroupsPerformance_all_calls)
  next
    case (Inr so)
    show ?thesis using m o [OF Inr]
      by (simp only: getAllGroupsPerformance_all_calls Inr sum.case list.set ball_simps fst_conv) blast
  qed
qed
text \<open>
  C2, as amended. Whatever the shape of the value, a sort column is returned iff it is a
  string of the allow-list (case-sensitive; no allow-list of an endpoint holds the empty
  string) and an interval iff it is one of the five intervals; in every other case, an
  absent value, an array and an object included, the default is returned. A sort order
  that is absent or a string is lower-cased first, and its lower-cased form is returned
  iff that is \<open>asc\<close> or \<open>desc\<close>, the default otherwise; it raises no error. So the result
  is always a member of the allow-list or the default. In each of the six handlers that
  sort, whatever the request and the store, the text of every statement issued is the
  existence lookup, the count, or the sorted statement built with a column of the
  allow-list and with \<open>asc\<close> or \<open>desc\<close>; the aggregations issue beside it two statements
  without a sort value. Once its sort order is resolved, a handler answers the request
  as it answers the same request with the resolved column, order and interval in place
  of the raw ones: the same statements, the same response, no error of its own.
\<close>

theorem validators_allow_list:
  "((\<forall>s. v \<noteq> One s) \<longrightarrow> validateSortColumn v cols d = d \<and> validateInterval v d = d)
   \<and> ([] \<notin> set cols \<longrightarrow> validateSortColumn (One s) cols d = (if s \<in> set cols then s else d))
   \<and> validateSortColumn v cols d \<in> set cols \<union> {d}
   \<and> validateInterval (One s) d =
        (if s \<in> {''day'', ''week'', ''month'', ''quarter'', ''year''} then s else d)
   \<and> validateInterval v d \<in> {''day'', ''week'', ''month'', ''quarter'', ''year'', d}
   \<and> validateSortOrder Absent d = Inr d
   \<and> validateSortOrder (One s) d =
        Inr (if toLowerCase s \<in> {''asc'', ''desc''} then toLowerCase s else d)
   \<and> (string_or_absent v \<longrightarrow> (\<exists>so \<in> {''asc'', ''desc'', d}. validateSortOrder v d = Inr so))
   \<and> (\<forall>c \<in> set (snd (getUserSales rt pool ident q)).
            fst c = ''SELECT * FROM users WHERE id = $1''
          \<or> fst c = userSales_countQuery (user_conditions rt ident q)
          \<or> (\<exists>sb \<in> set [''date'', ''amount'']. \<exists>so \<in> {''asc'', ''desc''}.
                fst c = userSales_query (user_conditions rt ident q) sb so))
   \<and> (\<forall>c \<in> set (snd (getGroupSales rt pool ident q)).
            fst c = ''SELECT * FROM groups WHERE id = $1''
          \<or> fst c = groupSales_countQuery (groupSales_conditions rt ident q)
          \<or> (\<exists>sb \<in> set [''date'', ''amount'', ''user_id'']. \<exists>so \<in> {''asc'', ''desc''}.
                fst c = groupSales_query (groupSales_conditions rt ident q) sb so))
   \<and> (\<forall>c \<in> set (snd (getGroupUsers pool ident q)).
            fst c = ''SELECT * FROM groups WHERE id = $1''
          \<or> fst c = groupUsers_countQuery (groupUsers_conditions ident q)
          \<or> (\<exists>sb \<in> set [''name'', ''role'']. \<exists>so \<in> {''asc'', ''desc''}.
                fst c = groupUsers_query (groupUsers_conditions ident q) sb so))
   \<and> (\<forall>c \<in> set (snd (listSales rt pool q)).
            fst c = listSales_countQuery (listSales_conditions rt q) (q_groupId q)
          \<or> (\<exists>sb \<in> set [''date'', ''amount'', ''user_id'']. \<exists>so \<in> {''asc'', ''desc''}.
                fst c = listSales_query (listSales_conditions rt q) (q_groupId q) sb so))
   \<and> (\<forall>c \<in> set (snd (getAllUsersPerformance rt pool q)).
            fst c = allUsers_trendsQuery (q_role q) (q_groupId q)
          \<or> fst c = allUsers_roleBreakdownQuery (q_groupId q)
          \<or> (\<exists>sb \<in> set [''total_revenue'', ''average_revenue'', ''sales_count'', ''name'']. \<exists>so \<in> {''asc'', ''desc''}.
                fst c = allUsers_topPerformersQuery
                  (allUsers_conditions (parseDate rt (q_startDate q) (Str ''2021-01-01''))
                     (parseDate rt (q_endDate q) (Str ''2021-12-31'')) (q_role q) (q_groupId q))
                  (q_groupId q) sb so))
   \<and> (\<forall>c \<in> set (snd (getAllGroupsPerformance rt pool q)).
            fst c = allGroups_trendsQuery
          \<or> fst c = allGroups_groupSizeQuery
          \<or> (\<exists>sb \<in> set [''total_revenue'', ''average_revenue'', ''sales_count'', ''active_users'', ''name'']. \<exists>so \<in> {''asc'', ''desc''}.
                fst c = allGroups_topGroupsQuery sb so))
   \<and> (validateSortOrder (q_sortOrder q) ''desc'' = Inr so \<longrightarrow>
         getUserSales rt pool ident q =
           getUserSales rt pool ident
             (q\<lparr>q_sortBy := One (validateSortColumn (q_sortBy q) [''date'', ''amount''] ''date''),
                 q_sortOrder := One so\<rparr>))
   \<and> (validateSortOrder (q_sortOrder q) ''desc'' = Inr so \<longrightarrow>
         getGroupSales rt pool ident q =
           getGroupSales rt pool ident
             (q\<lparr>q_sortBy := One (validateSortColumn (q_sortBy q) [''date'', ''amount'', ''user_id''] ''date''),
                 q_sortOrder := One so\<rparr>))
   \<and> (validateSortOrder (q_sortOrder q) ''asc'' = Inr so \<longrightarrow>
         getGroupUsers pool ident q =
           getGroupUsers pool ident
             (q\<lparr>q_sortBy := One (validateSortColumn (q_sortBy q) [''name'', ''role''] ''name''),
                 q_sortOrder := One so\<rparr>))
   \<and> (validateSortOrder (q_sortOrder q) ''desc'' = Inr so \<longrightarrow>
         listSales rt pool q =
           listSales rt pool
             (q\<lparr>q_sortBy := One (validateSortColumn (q_sortBy q) [''date'', ''amount'', ''user_id''] ''date''),
                 q_sortOrder := One so\<rparr>))
   \<and> (validateSortOrder (q_sortOrder q) ''desc'' = Inr so \<longrightarrow>
         getAllUsersPerformance rt pool q =
           getAllUsersPerformance rt pool
             (q\<lparr>q_sortBy := One (validateSortColumn (q_sortBy q) [''total_revenue'', ''average_revenue'', ''sales_count'', ''name''] ''total_revenue''),
                 q_sortOrder := One so,
                 q_interval := One (validateInterval (q_interval q) ''month'')\<rparr>))
   \<and> (validateSortOrder (q_sortOrder q) ''desc'' = Inr so \<longrightarrow>
         getAllGroupsPerformance rt pool q =
           getAllGroupsPerformance rt pool
             (q\<lparr>q_sortBy := One (validateSortColumn (q_sortBy q) [''total_revenue'', ''average_revenue'', ''sales_count'', ''active_users'', ''name''] ''total_revenue''),
                 q_sortOrder := One so,
                 q_interval := One (validateInterval (q_interval q) ''month'')\<rparr>))
   \<and> getUserPerformance rt pool ident q =
         getUserPerformance rt pool ident (q\<lparr>q_interval := One (validateInterval (q_interval q) ''month'')\<rparr>)
   \<and> getGroupPerformance rt pool ident q =
         getGroupPerformance rt pool ident (q\<lparr>q_interval := One (validateInterval (q_interval q) ''month'')\<rparr>)"
proof -
  have c1: "(\<forall>s. v \<noteq> One s) \<longrightarrow> validateSortColumn v cols d = d \<and> validateInterval v d = d"
    by (cases v) (simp_all add: validateSortColumn_def validateInterval_def)
  have c2: "[] \<notin> set cols \<longrightarrow> validateSortColumn (One s) cols d = (if s \<in> set cols then s else d)"
    by (auto simp: validateSortColumn_def)
  have c3: "validateSortColumn v cols d \<in> set cols \<union> {d}"
    by (rule validateSortColumn_member)
  have c4: "validateInterval (One s) d =
        (if s \<in> {''day'', ''week'', ''month'', ''quarter'', ''year''} then s else d)"
    by (auto simp: validateInterval_def)
  have c5: "validateInterval v d \<in> {''day'', ''week'', ''month'', ''quarter'', ''year'', d}"
    by (rule validateInterval_member)
  have c6: "validateSortOrder Absent d = Inr d"
    by (simp add: validateSortOrder_def)
  have c7: "validateSortOrder (One s) d =
        Inr (if toLowerCase s \<in> {''asc'', ''desc''} then toLowerCase s else d)"
    using toLowerCase_nonempty [of s] by (auto simp: validateSortOrder_def)
  have c8: "string_or_absent v \<longrightarrow> (\<exists>so \<in> {''asc'', ''desc'', d}. validateSortOrder v d = Inr so)"
    using validateSortOrder_string [of v d] validateSortOrder_member [of v d] by blast
  note c9 = getUserSales_texts [of rt pool ident q]
  note c10 = getGroupSales_texts [of rt pool ident q]
  note c11 = getGroupUsers_texts [of pool ident q]
  note c12 = listSales_texts [of rt pool q]
  note c13 = getAllUsersPerformance_texts [of rt pool q]
  note c14 = getAllGroupsPerformance_texts [of rt pool q]
  have c15: "validateSortOrder (q_sortOrder q) ''desc'' = Inr so \<longrightarrow>
         getUserSales rt pool ident q =
           getUserSales rt pool ident
             (q\<lparr>q_sortBy := One (validateSortColumn (q_sortBy q) [''date'', ''amount''] ''date''),
                 q_sortOrder := One so\<rparr>)"
    using getUserSales_resolved by blast
  have c16: "validateSortOrder (q_sortOrder q) ''desc'' = Inr so \<longrightarrow>
         getGroupSales rt pool ident q =
           getGroupSales rt pool ident
             (q\<lparr>q_sortBy := One (validateSortColumn (q_sortBy q) [''date'', ''amount'', ''user_id''] ''date''),
                 q_sortOrder := One so\<rparr>)"
    using getGroupSales_resolved by blast
  have c17: "validateSortOrder (q_sortOrder q) ''asc'' = Inr so \<longrightarrow>
         getGroupUsers pool ident q =
           getGroupUsers pool ident
             (q\<lparr>q_sortBy := One (validateSortColumn (q_sortBy q) [''name'', ''role''] ''name''),
                 q_sortOrder := One so\<rparr>)"
    using getGroupUsers_resolved by blast
  have c18: "validateSortOrder (q_sortOrder q) ''desc'' = Inr so \<longrightarrow>
         listSales rt pool q =
           listSales rt pool
             (q\<lparr>q_sortBy := One (validateSortColumn (q_sortBy q) [''date'', ''amount'', ''user_id''] ''date''),
                 q_sortOrder := One so\<rparr>)"
    using listSales_resolved by blast
  have c19: "validateSortOrder (q_sortOrder q) ''desc'' = Inr so \<longrightarrow>
         getAllUsersPerformance rt pool q =
           getAllUsersPerformance rt pool
             (q\<lparr>q_sortBy := One (validateSortColumn (q_sortBy q) [''total_revenue'', ''average_revenue'', ''sales_count'', ''name''] ''total_revenue''),
                 q_sortOrder := One so,
                 q_interval := One (validateInterval (q_interval q) ''month'')\<rparr>)"
    using getAllUsersPerformance_resolved by blast
  have c20: "validateSortOrder (q_sortOrder q) ''desc'' = Inr so \<longrightarrow>
         getAllGroupsPerformance rt pool q =
           getAllGroupsPerformance rt pool
             (q\<lparr>q_sortBy := One (validateSortColumn (q_sortBy q) [''total_revenue'', ''average_revenue'', ''sales_count'', ''active_users'', ''name''] ''total_revenue''),
                 q_sortOrder := One so,
                 q_interval := One (validateInterval (q_interval q) ''month'')\<rparr>)"
    using getAllGroupsPerformance_resolved by blast
  note c21 = getUserPerformance_resolved [of rt pool ident q]
  note c22 = getGroupPerformance_resolved [of rt pool ident q]
  show ?thesis
    using c1 c2 c3 c4 c5 c6 c7 c8 c9 c10 c11 c12 c13 c14 c15 c16 c17 c18 c19 c20 c21 c22
    by (intro conjI)
qed

text \<open>
  A listed column, the same column in another case, an injection attempt and a column
  given twice; then the sales listing asked to sort by the injection attempt in the
  order \<open>DESC\<close>: it is answered as the listing sorted by \<open>date\<close> in the order \<open>desc\<close>, and
  its first statement is the listing sorted so.
\<close>

theorem validators_allow_list_witness:
  "validateSortColumn (One ''amount'') [''date'', ''amount'', ''user_id''] ''date'' = ''amount''
   \<and> validateSortColumn (One ''Amount'') [''date'', ''amount'', ''user_id''] ''date'' = ''date''
   \<and> validateSortColumn (One ''id; DROP TABLE sales'') [''date'', ''amount'', ''user_id''] ''date'' = ''date''
   \<and> validateSortColumn (Many [One ''date'', One ''amount'']) [''date'', ''amount'', ''user_id''] ''date'' = ''date''
   \<and> (\<exists>so \<in> {''asc'', ''desc'', ''desc''}. validateSortOrder (One ''DESC'') ''desc'' = Inr so)
   \<and> listSales sample_builtins two_sales_store
         (no_query\<lparr>q_sortBy := One ''id; DROP TABLE sales'', q_sortOrder := One ''DESC''\<rparr>) =
       listSales sample_builtins two_sales_store
         (no_query\<lparr>q_sortBy := One ''date'', q_sortOrder := One ''desc''\<rparr>)
   \<and> (''SELECT s.id, s.user_id, u.name as user_name, s.amount, s.date FROM sales s '' @
        ''JOIN users u ON s.user_id = u.id ORDER BY s.date desc LIMIT $1 OFFSET $2'' =
          listSales_countQuery
            (listSales_conditions sample_builtins
               (no_query\<lparr>q_sortBy := One ''id; DROP TABLE sales'', q_sortOrder := One ''DESC''\<rparr>))
            (q_groupId (no_query\<lparr>q_sortBy := One ''id; DROP TABLE sales'', q_sortOrder := One ''DESC''\<rparr>))
        \<or> (\<exists>sb \<in> set [''date'', ''amount'', ''user_id'']. \<exists>so \<in> {''asc'', ''desc''}.
              ''SELECT s.id, s.user_id, u.name as user_name, s.amount, s.date FROM sales s '' @
              ''JOIN users u ON s.user_id = u.id ORDER BY s.date desc LIMIT $1 OFFSET $2'' =
              listSales_query
                (listSales_conditions sample_builtins
                   (no_query\<lparr>q_sortBy := One ''id; DROP TABLE sales'', q_sortOrder := One ''DESC''\<rparr>))
                (q_groupId (no_query\<lparr>q_sortBy := One ''id; DROP TABLE sales'', q_sortOrder := One ''DESC''\<rparr>))
                sb so))"
proof -
  let ?cols = "[''date'', ''amount'', ''user_id'']"
  let ?q = "no_query\<lparr>q_sortBy := One ''id; DROP TABLE sales'', q_sortOrder := One ''DESC''\<rparr>"
  let ?c = "(''SELECT s.id, s.user_id, u.name as user_name, s.amount, s.date FROM sales s '' @
             ''JOIN users u ON s.user_id = u.id ORDER BY s.date desc LIMIT $1 OFFSET $2'',
             [num 100, num 0])"
  have h: "[] \<notin> set ?cols" by simp
  have m: "''amount'' \<in> set ?cols" "''Amount'' \<notin> set ?cols" "''id; DROP TABLE sales'' \<notin> set ?cols"
    by simp_all
  have a: "\<forall>s. Many [One ''date'', One ''amount''] \<noteq> One s" by simp
  have s: "string_or_absent (One ''DESC'')" by (simp add: string_or_absent_def)
  have o: "validateSortOrder (q_sortOrder ?q) ''desc'' = Inr ''desc''" by code_simp
  have r: "?q\<lparr>q_sortBy := One (validateSortColumn (q_sortBy ?q) ?cols ''date''), q_sortOrder := One ''desc''\<rparr> =
           no_query\<lparr>q_sortBy := One ''date'', q_sortOrder := One ''desc''\<rparr>"
    by (simp add: validateSortColumn_def)
  have i: "?c \<in> set (snd (listSales sample_builtins two_sales_store ?q))" by code_simp
  note T = validators_allow_list [where cols = ?cols and d = "''date''" and rt = sample_builtins
      and pool = two_sales_store and q = ?q and so = "''desc''"]
  have g1: "validateSortColumn (One ''amount'') ?cols ''date'' = ''amount''"
    using T [where s = "''amount''", THEN conjunct2, THEN conjunct1, rule_format, OF h] m
    by (simp only: if_True)
  have g2: "validateSortColumn (One ''Amount'') ?cols ''date'' = ''date''"
    using T [where s = "''Amount''", THEN conjunct2, THEN conjunct1, rule_format, OF h] m
    by (simp only: if_False)
  have g3: "validateSortColumn (One ''id; DROP TABLE sales'') ?cols ''date'' = ''date''"
    using T [where s = "''id; DROP TABLE sales''", THEN conjunct2, THEN conjunct1, rule_format, OF h] m
    by (simp only: if_False)
  have g4: "validateSortColumn (Many [One ''date'', One ''amount'']) ?cols ''date'' = ''date''"
    using T [where v = "Many [One ''date'', One ''amount'']", THEN conjunct1, THEN mp, OF a]
    by (rule conjunct1)
  note U = validators_allow_list [where v = "One ''DESC''" and d = "''desc''"]
  have g5: "\<exists>so \<in> {''asc'', ''desc'', ''desc''}. validateSortOrder (One ''DESC'') ''desc'' = Inr so"
    using U [THEN conjunct2, THEN conjunct2, THEN conjunct2, THEN conjunct2, THEN conjunct2,
             THEN conjunct2, THEN conjunct2, THEN conjunct1, rule_format, OF s] .
  have t: "listSales sample_builtins two_sales_store ?q =
           listSales sample_builtins two_sales_store
             (?q\<lparr>q_sortBy := One (validateSortColumn (q_sortBy ?q) ?cols ''date''),
                  q_sortOrder := One ''desc''\<rparr>)"
    using T [THEN conjunct2, THEN conjunct2, THEN conjunct2, THEN conjunct2, THEN conjunct2, THEN conjunct2, THEN conjunct2, THEN conjunct2, THEN conjunct2, THEN conjunct2, THEN conjunct2, THEN conjunct2, THEN conjunct2, THEN conjunct2, THEN conjunct2, THEN conjunct2, THEN conjunct2, THEN conjunct1, THEN mp, OF o] .
  have g6: "listSales sample_builtins two_sales_store ?q =
            listSales sample_builtins two_sales_store
              (no_query\<lparr>q_sortBy := One ''date'', q_sortOrder := One ''desc''\<rparr>)"
    using t unfolding r .
  have b: "\<forall>c \<in> set (snd (listSales sample_builtins two_sales_store ?q)).
            fst c = listSales_countQuery (listSales_conditions sample_builtins ?q) (q_groupId ?q)
          \<or> (\<exists>sb \<in> set ?cols. \<exists>so \<in> {''asc'', ''desc''}.
                fst c = listSales_query (listSales_conditions sample_builtins ?q) (q_groupId ?q) sb so)"
    using T [THEN conjunct2, THEN conjunct2, THEN conjunct2, THEN conjunct2, THEN conjunct2, THEN conjunct2, THEN conjunct2, THEN conjunct2, THEN conjunct2, THEN conjunct2, THEN conjunct2, THEN conjunct1] .
  have g7: "fst ?c = listSales_countQuery (listSales_conditions sample_builtins ?q) (q_groupId ?q)
          \<or> (\<exists>sb \<in> set ?cols. \<exists>so \<in> {''asc'', ''desc''}.
                fst ?c = listSales_query (listSales_conditions sample_builtins ?q) (q_groupId ?q) sb so)"
    using b i by (rule bspec)
  show ?thesis
    using g1 g2 g3 g4 g5 g6 g7 [unfolded fst_conv] by (intro conjI)
qed

text \<open>
  The sort order \<open>DESC\<close> is in the allow-list once lower-cased, and the validator returns
  \<open>desc\<close>, which is neither the candidate nor the default \<open>asc\<close>. A sort order given
  twice reaches the validator as an array: the validator throws, and the sales listing
  answers 500 without a statement.
\<close>

theorem validateSortOrder_lowercases_or_throws:
  "toLowerCase ''DESC'' \<in> set [''asc'', ''desc'']
   \<and> validateSortOrder (One ''DESC'') ''asc'' = Inr ''desc''
   \<and> validateSortOrder (One ''DESC'') ''asc'' \<noteq> Inr ''DESC''
   \<and> validateSortOrder (Many [One ''asc'', One ''desc'']) ''desc'' = Inl TypeError
   \<and> listSales sample_builtins two_sales_store (no_query\<lparr>q_sortOrder := Many [One ''asc'', One ''desc'']\<rparr>) =
       (\<lparr>status = 500, body = error_body ''Internal server error''\<rparr>, [])"
  by code_simp

end
